theory Spec2Isabelle
  imports Complex_Main "HOL-Library.Word"
begin

section \<open>The embedding\<close>

text \<open>
  The embedding follows \<^verbatim>\<open>210_LED_CORE.h\<close> (namespace \<^verbatim>\<open>LED::CORE\<close>) and the
  gradient handlers of \<^verbatim>\<open>300_CONSOLE.h\<close>. The process-wide singletons \<^verbatim>\<open>Config\<close> and
  \<^verbatim>\<open>Vars\<close> are passed explicitly and returned updated.

  Numeric conventions of the embedding:
  \<^item> a finite C++ \<^verbatim>\<open>float\<close> is a \<open>real\<close>. The fader \<^verbatim>\<open>StepTowards\<close>, whose arguments are
    finite values, rounds its difference and its sum to binary32, as the machine does.
    The two EDGE_CENTER parameters, which the console writes from a parsed number, are
    of type \<open>float32\<close>, with infinities and NaN, and the sanitizer computes on them in
    binary32. The remaining arithmetic (change count of \<^verbatim>\<open>Fade\<close>, gradient, output
    scaling, effect engine) is exact;
  \<^item> \<^verbatim>\<open>uint8_t\<close> is \<open>8 word\<close>, \<^verbatim>\<open>uint32_t\<close> is \<open>32 word\<close>, \<^verbatim>\<open>int\<close> is \<open>32 word\<close> read as
    two's complement, \<^verbatim>\<open>size_t\<close> indices and counts are \<open>nat\<close>;
  \<^item> the fixed-capacity arrays of \<^verbatim>\<open>Vars\<close> are lists whose length is the capacity
    \<^verbatim>\<open>LED_COUNT\<close>.
\<close>

section \<open>Binary32 arithmetic\<close>

text \<open>
  The type \<^verbatim>\<open>float\<close> of the target is IEEE 754 binary32: 24 significant bits, normal
  exponents from \<open>-126\<close> to \<open>127\<close>, subnormal values in steps of \<open>2^-149\<close>, and every
  operation rounds its exact result to the nearest value, ties to the even significand.

  \<open>round_half_even\<close> is the nearest integer with ties to even. Around a positive real
  \<open>x\<close> the binary32 values are spaced by \<open>quantum x\<close>, and \<open>round_binary32 x\<close> is the
  multiple of the quantum nearest to \<open>x\<close>, the sign being kept apart as in the format.
  The exponent is not bounded from above here: a rounded value beyond \<open>max_binary32\<close> is
  an infinity of the machine. \<open>is_binary32\<close> holds of the finite values of the format.
\<close>

definition round_half_even :: "real \<Rightarrow> int" where
  "round_half_even x =
     (let f = \<lfloor>x\<rfloor> in
      if x - of_int f < 1 / 2 then f
      else if x - of_int f > 1 / 2 then f + 1
      else if even f then f else f + 1)"

definition quantum :: "real \<Rightarrow> real" where
  "quantum x = 2 powr of_int (max (- 149) (\<lfloor>log 2 x\<rfloor> - 23))"

definition round_magnitude :: "real \<Rightarrow> real" where
  "round_magnitude x =
     (if x = 0 then 0 else of_int (round_half_even (x / quantum x)) * quantum x)"

definition round_binary32 :: "real \<Rightarrow> real" where
  "round_binary32 x = (if x < 0 then - round_magnitude (- x) else round_magnitude x)"

definition max_binary32 :: real where
  "max_binary32 = (2 ^ 24 - 1) * 2 ^ 104"

definition is_binary32 :: "real \<Rightarrow> bool" where
  "is_binary32 x \<longleftrightarrow> round_binary32 x = x \<and> \<bar>x\<bar> \<le> max_binary32"

text \<open>
  A \<^verbatim>\<open>float\<close> with its special values, as \<^verbatim>\<open>strtof\<close> can return it and as a field can
  hold it: a finite value, an infinity, or NaN. The two zeros are one value; no operation
  of the code modelled with this type tells them apart.
\<close>

datatype float32 = Finite real | PlusInfinity | MinusInfinity | NaN

text \<open>The result of an operation whose exact value is \<open>x\<close>: rounded, infinite on overflow.\<close>

definition float32_of_real :: "real \<Rightarrow> float32" where
  "float32_of_real x =
     (let r = round_binary32 x in
      if r > max_binary32 then PlusInfinity
      else if r < - max_binary32 then MinusInfinity
      else Finite r)"

text \<open>
  The operators \<^verbatim>\<open>*\<close>, \<^verbatim>\<open>+\<close>, unary and binary \<^verbatim>\<open>-\<close> on \<^verbatim>\<open>float\<close>. NaN propagates; zero times an
  infinity and the sum of opposite infinities are NaN.
\<close>

fun float32_mul :: "float32 \<Rightarrow> float32 \<Rightarrow> float32" where
  "float32_mul (Finite x) (Finite y) = float32_of_real (x * y)"
| "float32_mul NaN b = NaN"
| "float32_mul a NaN = NaN"
| "float32_mul (Finite x) PlusInfinity =
     (if x = 0 then NaN else if 0 < x then PlusInfinity else MinusInfinity)"
| "float32_mul (Finite x) MinusInfinity =
     (if x = 0 then NaN else if 0 < x then MinusInfinity else PlusInfinity)"
| "float32_mul PlusInfinity (Finite y) =
     (if y = 0 then NaN else if 0 < y then PlusInfinity else MinusInfinity)"
| "float32_mul MinusInfinity (Finite y) =
     (if y = 0 then NaN else if 0 < y then MinusInfinity else PlusInfinity)"
| "float32_mul PlusInfinity PlusInfinity = PlusInfinity"
| "float32_mul PlusInfinity MinusInfinity = MinusInfinity"
| "float32_mul MinusInfinity PlusInfinity = MinusInfinity"
| "float32_mul MinusInfinity MinusInfinity = PlusInfinity"

fun float32_add :: "float32 \<Rightarrow> float32 \<Rightarrow> float32" where
  "float32_add (Finite x) (Finite y) = float32_of_real (x + y)"
| "float32_add NaN b = NaN"
| "float32_add a NaN = NaN"
| "float32_add PlusInfinity MinusInfinity = NaN"
| "float32_add MinusInfinity PlusInfinity = NaN"
| "float32_add PlusInfinity b = PlusInfinity"
| "float32_add a PlusInfinity = PlusInfinity"
| "float32_add MinusInfinity b = MinusInfinity"
| "float32_add a MinusInfinity = MinusInfinity"

fun float32_neg :: "float32 \<Rightarrow> float32" where
  "float32_neg (Finite x) = Finite (- x)"
| "float32_neg PlusInfinity = MinusInfinity"
| "float32_neg MinusInfinity = PlusInfinity"
| "float32_neg NaN = NaN"

definition float32_sub :: "float32 \<Rightarrow> float32 \<Rightarrow> float32" where
  "float32_sub a b = float32_add a (float32_neg b)"

text \<open>
  The comparisons \<^verbatim>\<open><\<close>, \<^verbatim>\<open>>\<close>, \<^verbatim>\<open><=\<close> and \<^verbatim>\<open>!=\<close> on \<^verbatim>\<open>float\<close>: with a NaN operand the first
  three are false and the last is true.
\<close>

fun float32_lt :: "float32 \<Rightarrow> float32 \<Rightarrow> bool" where
  "float32_lt (Finite x) (Finite y) = (x < y)"
| "float32_lt NaN b = False"
| "float32_lt a NaN = False"
| "float32_lt a MinusInfinity = False"
| "float32_lt PlusInfinity b = False"
| "float32_lt MinusInfinity b = True"
| "float32_lt a PlusInfinity = True"

definition float32_gt :: "float32 \<Rightarrow> float32 \<Rightarrow> bool" where
  "float32_gt a b = float32_lt b a"

fun float32_le :: "float32 \<Rightarrow> float32 \<Rightarrow> bool" where
  "float32_le (Finite x) (Finite y) = (x \<le> y)"
| "float32_le NaN b = False"
| "float32_le a NaN = False"
| "float32_le MinusInfinity b = True"
| "float32_le a PlusInfinity = True"
| "float32_le a MinusInfinity = False"
| "float32_le PlusInfinity b = False"

definition float32_ne :: "float32 \<Rightarrow> float32 \<Rightarrow> bool" where
  "float32_ne a b \<longleftrightarrow> a = NaN \<or> b = NaN \<or> a \<noteq> b"

section \<open>LED core: data model\<close>

record 'a Pixel =
  R :: 'a
  G :: 'a
  B :: 'a
  W :: 'a

type_synonym Pixel_byte = "8 word Pixel"
type_synonym Pixel_float = "real Pixel"

datatype GradientMode = LINEAR | LINEAR_PADDING | SINGLE_COLOR | MIDPOINT_SPLIT | EDGE_CENTER

datatype InterpolationMode = Linear | Smooth

record Effect_Container =
  prev :: real
  "next" :: real
  currentOutput :: real
  numSteps :: "32 word"
  currentStep :: "32 word"
  hold :: bool

record Config =
  colorOneStaging :: Pixel_float
  colorTwoStaging :: Pixel_float
  brightnessStaging :: real
  onoffStaging :: real
  colorIncrement :: real
  brightnessIncrement :: real
  onoffIncrement :: real
  processingIntervalMs :: "32 word"
  effectIntervalMs :: "32 word"
  gradientPaddingBegin :: real
  gradientPaddingValue :: real
  gradientMiddleEdgeSize :: float32
  gradientMiddleCenterSize :: float32
  gradientInterpolationMode :: InterpolationMode
  gradientMode :: GradientMode
  gradientInvertColors :: bool
  effectMinAmplitude :: real
  effectMaxAmplitude :: real
  effectEvolveMinSteps :: real
  effectEvolveMaxSteps :: real
  effectHoldMinSteps :: real
  effectHoldMaxSteps :: real
  effectActive :: bool
  count :: "8 word"
  changeCounter :: "32 word"
  lastModifiedMs :: "32 word"

text \<open>
  \<^verbatim>\<open>Vars\<close>: the member \<^verbatim>\<open>Effect[4]\<close> is the field \<open>Effects\<close> here, since \<open>Effect\<close> names the
  effect handler below.
\<close>

record Vars =
  Pixels :: "Pixel_byte list"
  Colors :: "Pixel_byte list"
  Scale :: "Pixel_float list"
  colorOne :: Pixel_float
  colorTwo :: Pixel_float
  brightness :: real
  onoffFactor :: real
  Count :: nat
  Effects :: "Effect_Container list"

text \<open>
  The random numbers one channel of one effect tick may consume: the value returned by
  Arduino's \<^verbatim>\<open>random(x, y + 1)\<close> in \<^verbatim>\<open>randomInt\<close>, and the two quotients
  \<^verbatim>\<open>rand() / RAND_MAX\<close> of the two \<^verbatim>\<open>randomFloat\<close> calls (amplitude, then jitter).
\<close>

record EffectDraws =
  holdDraw :: int
  amplitudeDraw :: real
  jitterDraw :: real

section \<open>Conversions and helpers\<close>

text \<open>Arduino's macro \<^verbatim>\<open>constrain(amt, low, high)\<close>.\<close>

definition constrain :: "real \<Rightarrow> real \<Rightarrow> real \<Rightarrow> real" where
  "constrain amt low high = (if amt < low then low else if amt > high then high else amt)"

text \<open>The same macro on \<open>float32\<close>: a NaN fails both comparisons and is returned.\<close>

definition constrain_float32 :: "float32 \<Rightarrow> float32 \<Rightarrow> float32 \<Rightarrow> float32" where
  "constrain_float32 amt low high =
     (if float32_lt amt low then low else if float32_gt amt high then high else amt)"

text \<open>
  \<^verbatim>\<open>static_cast<int>(x)\<close> of a float truncates toward zero. A value outside the range of
  \<^verbatim>\<open>int\<close> is undefined behaviour in C++; the embedding reduces it modulo \<open>2^32\<close>. The
  casts to \<^verbatim>\<open>uint8_t\<close> and \<^verbatim>\<open>uint32_t\<close> truncate likewise.
\<close>

definition truncate_toward_zero :: "real \<Rightarrow> int" where
  "truncate_toward_zero x = (if 0 \<le> x then \<lfloor>x\<rfloor> else \<lceil>x\<rceil>)"

definition float_to_int :: "real \<Rightarrow> 32 word" where
  "float_to_int x = word_of_int (truncate_toward_zero x)"

definition float_to_uint8 :: "real \<Rightarrow> 8 word" where
  "float_to_uint8 x = word_of_int (truncate_toward_zero x)"

definition float_to_uint32 :: "real \<Rightarrow> 32 word" where
  "float_to_uint32 x = word_of_int (truncate_toward_zero x)"

text \<open>The implicit conversion of an \<^verbatim>\<open>int\<close> argument to a \<^verbatim>\<open>uint8_t\<close> parameter.\<close>

definition int_to_uint8 :: "32 word \<Rightarrow> 8 word" where
  "int_to_uint8 i = ucast i"

definition uint8_to_float :: "8 word \<Rightarrow> real" where
  "uint8_to_float b = real (unat b)"

definition uint32_to_float :: "32 word \<Rightarrow> real" where
  "uint32_to_float n = real (unat n)"

section \<open>Start-up state\<close>

text \<open>
  The singletons as static initialisation leaves them for \<^verbatim>\<open>LED_COUNT = ledCount\<close>: the
  default member initialisers, zero elsewhere. The initialisers \<^verbatim>\<open>0.01f\<close> of the on/off
  increment, which the fader adds in binary32, and \<^verbatim>\<open>0.05f\<close> of the centre size are the
  binary32 values nearest to \<open>1 / 100\<close> and \<open>5 / 100\<close>.
\<close>

definition staticConfig :: "nat \<Rightarrow> Config" where
  "staticConfig ledCount =
     \<lparr>colorOneStaging = \<lparr>R = 0, G = 0, B = 0, W = 0\<rparr>,
      colorTwoStaging = \<lparr>R = 0, G = 0, B = 0, W = 0\<rparr>,
      brightnessStaging = 0,
      onoffStaging = 0,
      colorIncrement = 1,
      brightnessIncrement = 1,
      onoffIncrement = round_binary32 (1 / 100),
      processingIntervalMs = 10,
      effectIntervalMs = 10,
      gradientPaddingBegin = 1 / 10,
      gradientPaddingValue = 95 / 100,
      gradientMiddleEdgeSize = Finite 0,
      gradientMiddleCenterSize = float32_of_real (5 / 100),
      gradientInterpolationMode = Smooth,
      gradientMode = LINEAR_PADDING,
      gradientInvertColors = False,
      effectMinAmplitude = 6 / 10,
      effectMaxAmplitude = 12 / 10,
      effectEvolveMinSteps = 100,
      effectEvolveMaxSteps = 200,
      effectHoldMinSteps = 10,
      effectHoldMaxSteps = 30,
      effectActive = True,
      count = of_nat ledCount,
      changeCounter = 0,
      lastModifiedMs = 0\<rparr>"

definition staticVars :: "nat \<Rightarrow> Vars" where
  "staticVars ledCount =
     \<lparr>Pixels = replicate ledCount \<lparr>R = 0, G = 0, B = 0, W = 0\<rparr>,
      Colors = replicate ledCount \<lparr>R = 0, G = 0, B = 0, W = 0\<rparr>,
      Scale = replicate ledCount \<lparr>R = 0, G = 0, B = 0, W = 0\<rparr>,
      colorOne = \<lparr>R = 0, G = 0, B = 0, W = 0\<rparr>,
      colorTwo = \<lparr>R = 0, G = 0, B = 0, W = 0\<rparr>,
      brightness = 255,
      onoffFactor = 1,
      Count = ledCount,
      Effects = replicate 4
        \<lparr>prev = 0, next = 0, currentOutput = 0, numSteps = 0, currentStep = 0, hold = False\<rparr>\<rparr>"

text \<open>
  \<^verbatim>\<open>Init\<close>; the capacity is the length of the buffers. The timestamps of \<^verbatim>\<open>State\<close> are not
  part of the embedding.
\<close>

definition Init :: "Config \<Rightarrow> Vars \<Rightarrow> bool \<times> Config \<times> Vars" where
  "Init c v =
     (if Count v = 0 \<or> Count v > length (Pixels v) then (False, c, v)
      else
        let v1 = fold (\<lambda>i u. u\<lparr>Pixels := (Pixels u)[i := \<lparr>R = 0, G = 0, B = 0, W = 0\<rparr>],
                               Colors := (Colors u)[i := \<lparr>R = 0, G = 0, B = 0, W = 0\<rparr>],
                               Scale := (Scale u)[i := \<lparr>R = 1, G = 1, B = 1, W = 1\<rparr>]\<rparr>)
                   [0..<Count v] v;
            v2 = v1\<lparr>colorOne := \<lparr>R = 0, G = 0, B = 0, W = 0\<rparr>,
                    colorTwo := \<lparr>R = 0, G = 0, B = 0, W = 0\<rparr>,
                    onoffFactor := 1,
                    Effects := fold (\<lambda>n es. es[n :=
                        \<lparr>prev = 1, next = 1, currentOutput = 1, numSteps = 0, currentStep = 1,
                         hold = False\<rparr>]) [0..<4] (Effects v1)\<rparr>;
            c1 = c\<lparr>brightnessStaging := 255, onoffStaging := 1,
                   colorOneStaging := \<lparr>R = 255, G = 0, B = 0, W = 0\<rparr>,
                   colorTwoStaging := \<lparr>R = 0, G = 255, B = 0, W = 0\<rparr>\<rparr>
        in (True, c1, v2))"

section \<open>Fader\<close>

text \<open>
  \<^verbatim>\<open>StepTowards\<close> on finite values. The difference and the sum are binary32 operations
  and are rounded. A difference beyond \<open>max_binary32\<close> is an infinity in the machine and a
  large real here; the two comparisons that read it have the same outcome for both.
\<close>

definition StepTowards :: "real \<Rightarrow> real \<Rightarrow> real \<Rightarrow> real" where
  "StepTowards current target step =
     (if step \<le> 0 then target
      else let diff = round_binary32 (target - current) in
        if \<bar>diff\<bar> \<le> step then target
        else round_binary32 (current + (if diff > 0 then step else - step)))"

text \<open>
  The lambda \<^verbatim>\<open>stepChannel\<close> of \<^verbatim>\<open>Fade\<close>: steps and clamps one colour channel and reports
  whether it changed by more than \<^verbatim>\<open>1e-5f\<close>.
\<close>

definition stepChannel :: "Config \<Rightarrow> real \<Rightarrow> real \<Rightarrow> real \<times> bool" where
  "stepChannel c channel target =
     (let prev = channel;
          channel1 = StepTowards prev target (colorIncrement c);
          channel2 = constrain channel1 0 255
      in (channel2, \<bar>channel2 - prev\<bar> > 1 / 100000))"

definition stepPixel :: "Config \<Rightarrow> Pixel_float \<Rightarrow> Pixel_float \<Rightarrow> Pixel_float \<times> 8 word" where
  "stepPixel c live staged =
     (let (r, cr) = stepChannel c (R live) (R staged);
          (g, cg) = stepChannel c (G live) (G staged);
          (b, cb) = stepChannel c (B live) (B staged);
          (w, cw) = stepChannel c (W live) (W staged)
      in (\<lparr>R = r, G = g, B = b, W = w\<rparr>,
          (if cr then 1 else 0) + (if cg then 1 else 0) + (if cb then 1 else 0)
            + (if cw then 1 else 0)))"

text \<open>\<^verbatim>\<open>Fade\<close> returns the number of channels that changed together with the new \<^verbatim>\<open>Vars\<close>.\<close>

definition Fade :: "Config \<Rightarrow> Vars \<Rightarrow> 8 word \<times> Vars" where
  "Fade c v =
     (let prevB = brightness v;
          b1 = constrain (StepTowards prevB (brightnessStaging c) (brightnessIncrement c)) 0 255;
          chB = (if \<bar>b1 - prevB\<bar> > 1 / 100000 then 1 else 0);
          prevO = onoffFactor v;
          o1 = constrain (StepTowards prevO (onoffStaging c) (onoffIncrement c)) 0 1;
          chO = (if \<bar>o1 - prevO\<bar> > 1 / 100000 then 1 else 0);
          (c1, ch1) = stepPixel c (colorOne v) (colorOneStaging c);
          (c2, ch2) = stepPixel c (colorTwo v) (colorTwoStaging c)
      in (chB + chO + ch1 + ch2,
          v\<lparr>brightness := b1, onoffFactor := o1, colorOne := c1, colorTwo := c2\<rparr>))"

section \<open>Gradient synthesizer\<close>

text \<open>The lambdas of \<^verbatim>\<open>ComputeGradient\<close>.\<close>

definition ApplyInterpolation :: "real \<Rightarrow> InterpolationMode \<Rightarrow> real" where
  "ApplyInterpolation t m =
     (let t1 = constrain t 0 1 in
      case m of Smooth \<Rightarrow> t1 * t1 * (3 - 2 * t1) | Linear \<Rightarrow> t1)"

definition applyColor :: "nat \<Rightarrow> Pixel_float \<Rightarrow> Vars \<Rightarrow> Vars" where
  "applyColor index src v =
     v\<lparr>Colors := (Colors v)[index :=
          \<lparr>R = float_to_uint8 (R src), G = float_to_uint8 (G src),
           B = float_to_uint8 (B src), W = float_to_uint8 (W src)\<rparr>]\<rparr>"

definition blendColors :: "Pixel_float \<Rightarrow> Pixel_float \<Rightarrow> real \<Rightarrow> Pixel_float" where
  "blendColors a b t =
     (let t1 = constrain t 0 1 in
      \<lparr>R = R a + (R b - R a) * t1, G = G a + (G b - G a) * t1,
       B = B a + (B b - B a) * t1, W = W a + (W b - W a) * t1\<rparr>)"

text \<open>Body of the \<^verbatim>\<open>LINEAR_PADDING\<close> loop: the colour written at index \<open>i\<close> of \<open>n\<close>.\<close>

definition linearPaddingColor ::
  "Pixel_float \<Rightarrow> Pixel_float \<Rightarrow> real \<Rightarrow> real \<Rightarrow> nat \<Rightarrow> nat \<Rightarrow> Pixel_float" where
  "linearPaddingColor primaryColor secondaryColor padStart padValue n i =
     (let startIdx = padStart * real (n - 1);
          endIdx = (1 - padStart) * real (n - 1);
          range = endIdx - startIdx;
          w1 = (if real i \<le> startIdx then padValue
                else if real i \<ge> endIdx \<or> range \<le> 0 then 1 - padValue
                else let t = (real i - startIdx) / range
                     in padValue + (1 - 2 * padValue) * constrain t 0 1);
          w2 = constrain (1 - w1) 0 1
      in blendColors primaryColor secondaryColor w2)"

text \<open>
  Body of the \<^verbatim>\<open>EDGE_CENTER\<close> loop, with the zone bounds computed before the loop. After
  \<^verbatim>\<open>constrain\<close> each of the two parameters is a finite value or NaN. On finite values the
  arithmetic is exact, as in the other gradient modes. With a NaN among them every zone
  bound computed from it is NaN and every comparison with such a bound is false, so that
  the loop body falls through to its last statement, the primary colour; when only the
  centre size is NaN the test \<^verbatim>\<open>x <= leftEdgeEnd\<close> can hold, with the same colour.
\<close>

definition edgeCenterColor ::
  "Config \<Rightarrow> Pixel_float \<Rightarrow> Pixel_float \<Rightarrow> nat \<Rightarrow> nat \<Rightarrow> Pixel_float" where
  "edgeCenterColor c primaryColor secondaryColor n i =
     (case (constrain_float32 (gradientMiddleEdgeSize c) (Finite 0) (Finite (1 / 2)),
            constrain_float32 (gradientMiddleCenterSize c) (Finite 0) (Finite 1)) of
        (Finite edgeSize, Finite centerSize0) \<Rightarrow>
          (let maxCenter = 1 - 2 * edgeSize;
               centerSize1 = (if centerSize0 > maxCenter then maxCenter else centerSize0);
               centerSize = (if centerSize1 < 0 then 0 else centerSize1);
               transitionTotal0 = 1 - (2 * edgeSize + centerSize);
               transitionTotal = (if transitionTotal0 < 0 then 0 else transitionTotal0);
               halfTransition = transitionTotal * (1 / 2);
               leftEdgeEnd = edgeSize;
               leftTransitionEnd = leftEdgeEnd + halfTransition;
               centerEnd = leftTransitionEnd + centerSize;
               rightTransitionEnd = centerEnd + halfTransition;
               x = (if n \<le> 1 then 0 else real i / real (n - 1))
           in if x \<le> leftEdgeEnd \<or> halfTransition \<le> 1 / 1000000 then primaryColor
              else if x < leftTransitionEnd \<and> halfTransition > 1 / 1000000 then
                blendColors primaryColor secondaryColor
                  (ApplyInterpolation ((x - leftEdgeEnd) / halfTransition)
                     (gradientInterpolationMode c))
              else if x < centerEnd then secondaryColor
              else if x < rightTransitionEnd \<and> halfTransition > 1 / 1000000 then
                blendColors secondaryColor primaryColor
                  (ApplyInterpolation ((x - centerEnd) / halfTransition)
                     (gradientInterpolationMode c))
              else primaryColor)
      | _ \<Rightarrow> primaryColor)"

text \<open>
  \<^verbatim>\<open>ComputeGradient(mode, invertColors)\<close>; the configuration read by the \<^verbatim>\<open>LINEAR_PADDING\<close>
  and \<^verbatim>\<open>EDGE_CENTER\<close> branches is the argument \<open>c\<close>. Every loop runs over the indices
  \<open>0, \<dots>, Count - 1\<close> in ascending order.
\<close>

definition ComputeGradient :: "Config \<Rightarrow> GradientMode \<Rightarrow> bool \<Rightarrow> Vars \<Rightarrow> Vars" where
  "ComputeGradient c mode invertColors v =
     (if Count v = 0 then v
      else
        let primaryColor = (if invertColors then colorTwo v else colorOne v);
            secondaryColor = (if invertColors then colorOne v else colorTwo v);
            n = Count v
        in case mode of
             SINGLE_COLOR \<Rightarrow> fold (\<lambda>i. applyColor i primaryColor) [0..<n] v
           | MIDPOINT_SPLIT \<Rightarrow>
               (let splitIndex = (n + 1) div 2
                in fold (\<lambda>i. applyColor i (if i < splitIndex then primaryColor else secondaryColor))
                     [0..<n] v)
           | LINEAR_PADDING \<Rightarrow>
               (let padStart = constrain (gradientPaddingBegin c) 0 (4 / 10);
                    padValue = constrain (gradientPaddingValue c) 0 1
                in if n = 1 then applyColor 0 (blendColors primaryColor secondaryColor (1 / 2)) v
                   else fold (\<lambda>i. applyColor i
                                (linearPaddingColor primaryColor secondaryColor padStart padValue n i))
                          [0..<n] v)
           | EDGE_CENTER \<Rightarrow>
               fold (\<lambda>i. applyColor i (edgeCenterColor c primaryColor secondaryColor n i)) [0..<n] v
           | LINEAR \<Rightarrow>
               (if n \<le> 1 then fold (\<lambda>i. applyColor i primaryColor) [0..<n] v
                else fold (\<lambda>i. applyColor i
                             (blendColors primaryColor secondaryColor (real i / real (n - 1))))
                       [0..<n] v))"

section \<open>Output quantizer\<close>

text \<open>
  \<^verbatim>\<open>SetPixelRGBW\<close> returns its result together with the new \<^verbatim>\<open>Vars\<close>. Its parameters are
  \<^verbatim>\<open>uint8_t\<close>, so the range checks of the source are comparisons of bytes.
\<close>

definition clampByte :: "8 word \<Rightarrow> 8 word" where
  "clampByte r = (if r < 0 then 0 else if r > 255 then 255 else r)"

definition SetPixelRGBW ::
  "nat \<Rightarrow> 8 word \<Rightarrow> 8 word \<Rightarrow> 8 word \<Rightarrow> 8 word \<Rightarrow> Vars \<Rightarrow> bool \<times> Vars" where
  "SetPixelRGBW index r g b w v =
     (if index \<ge> Count v \<or> index < 0 then (False, v)
      else (True,
            v\<lparr>Pixels := (Pixels v)[index :=
                 \<lparr>R = clampByte r, G = clampByte g, B = clampByte b, W = clampByte w\<rparr>]\<rparr>))"

text \<open>Body of the loop of \<^verbatim>\<open>ApplyOutputScaling\<close> for pixel \<open>i\<close>.\<close>

definition scalePixel :: "real \<Rightarrow> real \<Rightarrow> nat \<Rightarrow> Vars \<Rightarrow> Vars" where
  "scalePixel brightnessNorm onOff i v =
     (let scaledR = uint8_to_float (R (Colors v ! i)) * R (Scale v ! i);
          scaledG = uint8_to_float (G (Colors v ! i)) * G (Scale v ! i);
          scaledB = uint8_to_float (B (Colors v ! i)) * B (Scale v ! i);
          scaledW = uint8_to_float (W (Colors v ! i)) * W (Scale v ! i);
          baseR = constrain scaledR 0 255;
          baseG = constrain scaledG 0 255;
          baseB = constrain scaledB 0 255;
          baseW = constrain scaledW 0 255;
          finalR = baseR * brightnessNorm * onOff;
          finalG = baseG * brightnessNorm * onOff;
          finalB = baseB * brightnessNorm * onOff;
          finalW = baseW * brightnessNorm * onOff;
          ri = float_to_int (finalR + 1 / 2);
          gi = float_to_int (finalG + 1 / 2);
          bi = float_to_int (finalB + 1 / 2);
          wi = float_to_int (finalW + 1 / 2)
      in snd (SetPixelRGBW i (int_to_uint8 ri) (int_to_uint8 gi) (int_to_uint8 bi)
                (int_to_uint8 wi) v))"

definition ApplyOutputScaling :: "Vars \<Rightarrow> Vars" where
  "ApplyOutputScaling v =
     (let brightnessNorm = constrain (brightness v) 0 255 / 255;
          onOff = onoffFactor v;
          n = Count v
      in fold (scalePixel brightnessNorm onOff) [0..<n] v)"

section \<open>Ambient effect engine\<close>

text \<open>
  The pointer to member selected by the \<^verbatim>\<open>switch\<close> of \<^verbatim>\<open>ShiftScaleChannel\<close>: reading and
  writing the selected channel of one \<^verbatim>\<open>Pixel_float\<close>. The pointer is initialised to
  \<^verbatim>\<open>R\<close>, which is what the \<^verbatim>\<open>default\<close> label leaves.
\<close>

definition channelGet :: "int \<Rightarrow> Pixel_float \<Rightarrow> real" where
  "channelGet channel p =
     (if channel = 0 then R p else if channel = 1 then G p
      else if channel = 2 then B p else if channel = 3 then W p else R p)"

definition channelSet :: "int \<Rightarrow> real \<Rightarrow> Pixel_float \<Rightarrow> Pixel_float" where
  "channelSet channel x p =
     (if channel = 0 then p\<lparr>R := x\<rparr> else if channel = 1 then p\<lparr>G := x\<rparr>
      else if channel = 2 then p\<lparr>B := x\<rparr> else if channel = 3 then p\<lparr>W := x\<rparr> else p\<lparr>R := x\<rparr>)"

text \<open>
  The two loops of \<^verbatim>\<open>ShiftScaleChannel\<close>: the forward one runs \<open>i\<close> from \<open>lastIndex\<close> down
  to \<open>1\<close> and copies slot \<open>i - 1\<close> into slot \<open>i\<close>; the backward one runs \<open>i\<close> from \<open>0\<close> up
  to \<open>lastIndex - 1\<close> and copies slot \<open>i + 1\<close> into slot \<open>i\<close>.
\<close>

definition shiftForwardLoop :: "int \<Rightarrow> nat \<Rightarrow> Pixel_float list \<Rightarrow> Pixel_float list" where
  "shiftForwardLoop channel lastIndex sc =
     fold (\<lambda>i s. s[i := channelSet channel (channelGet channel (s ! (i - 1))) (s ! i)])
       (rev [1..<Suc lastIndex]) sc"

definition shiftBackwardLoop :: "int \<Rightarrow> nat \<Rightarrow> Pixel_float list \<Rightarrow> Pixel_float list" where
  "shiftBackwardLoop channel lastIndex sc =
     fold (\<lambda>i s. s[i := channelSet channel (channelGet channel (s ! (i + 1))) (s ! i)])
       [0..<lastIndex] sc"

definition ShiftScaleChannel :: "real \<Rightarrow> int \<Rightarrow> bool \<Rightarrow> Vars \<Rightarrow> Vars" where
  "ShiftScaleChannel newValue channel forward v =
     (if Count v = 0 then v
      else if channel < 0 \<or> channel > 3 then v
      else
        let lastIndex = Count v - 1 in
        if forward then
          (let s = shiftForwardLoop channel lastIndex (Scale v)
           in v\<lparr>Scale := s[0 := channelSet channel newValue (s ! 0)]\<rparr>)
        else
          (let s = shiftBackwardLoop channel lastIndex (Scale v)
           in v\<lparr>Scale := s[lastIndex := channelSet channel newValue (s ! lastIndex)]\<rparr>))"

text \<open>The lambdas of \<^verbatim>\<open>Effect\<close>; \<open>r\<close> is the quotient \<^verbatim>\<open>rand() / RAND_MAX\<close>.\<close>

definition randomFloat :: "real \<Rightarrow> real \<Rightarrow> real \<Rightarrow> real" where
  "randomFloat minValue maxValue r = minValue + r * (maxValue - minValue)"

definition mapFloatToFloat :: "real \<Rightarrow> real \<Rightarrow> real \<Rightarrow> real \<Rightarrow> real \<Rightarrow> real" where
  "mapFloatToFloat x x0 x1 y0 y1 =
     (if x \<le> x0 then y0
      else if x \<ge> x1 then y1
      else let t = (x - x0) / (x1 - x0) in y0 + t * (y1 - y0))"

definition applySmoothInterpolation :: "real \<Rightarrow> real" where
  "applySmoothInterpolation t = (let t1 = constrain t 0 1 in t1 * t1 * (3 - 2 * t1))"

text \<open>
  The phase change of one channel, taken when \<^verbatim>\<open>currentStep > numSteps\<close>: \<^verbatim>\<open>prev\<close> takes
  \<^verbatim>\<open>next\<close>, then the hold branch draws a plateau length and the evolve branch draws the
  next amplitude and derives \<^verbatim>\<open>numSteps\<close> from \<^verbatim>\<open>diff = next - prev\<close>.
\<close>

definition effectNewPhase :: "Config \<Rightarrow> EffectDraws \<Rightarrow> Effect_Container \<Rightarrow> Effect_Container" where
  "effectNewPhase c d e =
     (let e1 = e\<lparr>prev := next e\<rparr>;
          e2 = (if hold e1 then
                  e1\<lparr>numSteps := word_of_int (holdDraw d), hold := \<not> hold e1\<rparr>
                else
                  let nxt = randomFloat (effectMinAmplitude c) (effectMaxAmplitude c)
                              (amplitudeDraw d);
                      diff = nxt - prev e1;
                      diffMappedSteps =
                        mapFloatToFloat diff (effectMinAmplitude c) (effectMaxAmplitude c)
                          (effectEvolveMinSteps c) (effectEvolveMaxSteps c)
                  in e1\<lparr>next := nxt,
                        numSteps := float_to_uint32
                          (diffMappedSteps * randomFloat (8 / 10) (12 / 10) (jitterDraw d)),
                        hold := \<not> hold e1\<rparr>)
      in e2\<lparr>currentStep := 0\<rparr>)"

text \<open>
  One iteration of the channel loop of \<^verbatim>\<open>Effect\<close>. When \<^verbatim>\<open>numSteps\<close> is \<open>0\<close> the quotient
  \<^verbatim>\<open>progress\<close> is a NaN or an infinity in the source and \<open>0\<close> here.
\<close>

definition effectChannel :: "Config \<Rightarrow> EffectDraws \<Rightarrow> Effect_Container \<Rightarrow> Effect_Container" where
  "effectChannel c d e =
     (let e1 = (if currentStep e > numSteps e then effectNewPhase c d e else e);
          diff = next e1 - prev e1;
          progress = uint32_to_float (currentStep e1) / uint32_to_float (numSteps e1)
      in e1\<lparr>currentOutput := prev e1 + applySmoothInterpolation progress * diff,
            currentStep := currentStep e1 + 1\<rparr>)"

text \<open>\<^verbatim>\<open>Effect\<close>; \<open>draws n\<close> are the random numbers available to channel \<open>n\<close>.\<close>

definition Effect :: "Config \<Rightarrow> (nat \<Rightarrow> EffectDraws) \<Rightarrow> Vars \<Rightarrow> Vars" where
  "Effect c draws v =
     (if effectActive c then
        let v1 = fold (\<lambda>n u. u\<lparr>Effects := (Effects u)[n := effectChannel c (draws n) (Effects u ! n)]\<rparr>)
                   [0..<4] v;
            v2 = ShiftScaleChannel (currentOutput (Effects v1 ! 0)) 0 True v1;
            v3 = ShiftScaleChannel (currentOutput (Effects v2 ! 1)) 1 False v2;
            v4 = ShiftScaleChannel (currentOutput (Effects v3 ! 2)) 2 True v3
        in ShiftScaleChannel (currentOutput (Effects v4 ! 3)) 3 False v4
      else fold (\<lambda>n. ShiftScaleChannel 1 0 True) [0..<4] v)"

section \<open>Console: gradient parameters\<close>

text \<open>\<^verbatim>\<open>MarkChangeInConfig\<close>; \<open>now\<close> is the value of \<^verbatim>\<open>millis()\<close>.\<close>

definition MarkChangeInConfig :: "32 word \<Rightarrow> Config \<Rightarrow> Config" where
  "MarkChangeInConfig now cfg = cfg\<lparr>changeCounter := changeCounter cfg + 1, lastModifiedMs := now\<rparr>"

text \<open>
  \<^verbatim>\<open>SanitizeEdgeCenterConfig\<close>, in binary32: the product \<^verbatim>\<open>2.0f * edge\<close> and the difference
  \<^verbatim>\<open>1.0f - \<dots>\<close> are rounded, and every comparison is the one of \<^verbatim>\<open>float\<close>.
\<close>

definition SanitizeEdgeCenterConfig :: "Config \<Rightarrow> Config" where
  "SanitizeEdgeCenterConfig cfg =
     (let cfg1 = cfg\<lparr>gradientMiddleEdgeSize :=
                   constrain_float32 (gradientMiddleEdgeSize cfg) (Finite 0) (Finite (1 / 2))\<rparr>;
          cfg2 = cfg1\<lparr>gradientMiddleCenterSize :=
                   constrain_float32 (gradientMiddleCenterSize cfg1) (Finite 0) (Finite 1)\<rparr>;
          maxCenter = float32_sub (Finite 1) (float32_mul (Finite 2) (gradientMiddleEdgeSize cfg2));
          cfg3 = (if float32_gt (gradientMiddleCenterSize cfg2) maxCenter
                  then cfg2\<lparr>gradientMiddleCenterSize :=
                         (if float32_gt maxCenter (Finite 0) then maxCenter else Finite 0)\<rparr>
                  else cfg2)
      in if float32_lt (gradientMiddleCenterSize cfg3) (Finite 0)
         then cfg3\<lparr>gradientMiddleCenterSize := Finite 0\<rparr>
         else cfg3)"

text \<open>
  The branches \<^verbatim>\<open>EDGE\<close> and \<^verbatim>\<open>CENTER\<close> of \<^verbatim>\<open>HandleSET_GRADIENT\<close>, after \<^verbatim>\<open>ParseFloatToken\<close>
  has returned the number \<open>val\<close>; the printed response is left out. \<^verbatim>\<open>ParseFloatToken\<close>
  returns what \<^verbatim>\<open>strtof\<close> read, without a further test: \<open>val\<close> can be any finite value, an
  infinity (token \<^verbatim>\<open>inf\<close>) or NaN (token \<^verbatim>\<open>nan\<close>).
\<close>

definition HandleSET_GRADIENT_EDGE :: "32 word \<Rightarrow> float32 \<Rightarrow> Config \<Rightarrow> Config" where
  "HandleSET_GRADIENT_EDGE now val cfg =
     (let oldEdge = gradientMiddleEdgeSize cfg;
          oldCenter = gradientMiddleCenterSize cfg;
          cfg1 = SanitizeEdgeCenterConfig
                   (cfg\<lparr>gradientMiddleEdgeSize :=
                          constrain_float32 val (Finite 0) (Finite (1 / 2))\<rparr>)
      in if float32_ne (gradientMiddleEdgeSize cfg1) oldEdge
            \<or> float32_ne (gradientMiddleCenterSize cfg1) oldCenter
         then MarkChangeInConfig now cfg1 else cfg1)"

definition HandleSET_GRADIENT_CENTER :: "32 word \<Rightarrow> float32 \<Rightarrow> Config \<Rightarrow> Config" where
  "HandleSET_GRADIENT_CENTER now val cfg =
     (let oldEdge = gradientMiddleEdgeSize cfg;
          oldCenter = gradientMiddleCenterSize cfg;
          cfg1 = SanitizeEdgeCenterConfig
                   (cfg\<lparr>gradientMiddleCenterSize := constrain_float32 val (Finite 0) (Finite 1)\<rparr>)
      in if float32_ne (gradientMiddleEdgeSize cfg1) oldEdge
            \<or> float32_ne (gradientMiddleCenterSize cfg1) oldCenter
         then MarkChangeInConfig now cfg1 else cfg1)"

section \<open>Invariant and concrete states\<close>

text \<open>
  The EDGE_CENTER invariant in the words of the specification,
  \<open>2 * edgeSize + centerSize \<le> 1\<close> with \<open>edgeSize\<close> in \<open>[0, 0.5]\<close> and \<open>centerSize\<close> in
  \<open>[0, 1]\<close>, read as the C++ expression on the two \<^verbatim>\<open>float\<close> fields.
\<close>

definition edgeCenterInvariant :: "Config \<Rightarrow> bool" where
  "edgeCenterInvariant cfg \<longleftrightarrow>
     float32_le (float32_add (float32_mul (Finite 2) (gradientMiddleEdgeSize cfg))
                   (gradientMiddleCenterSize cfg)) (Finite 1)
     \<and> float32_le (Finite 0) (gradientMiddleEdgeSize cfg)
     \<and> float32_le (gradientMiddleEdgeSize cfg) (Finite (1 / 2))
     \<and> float32_le (Finite 0) (gradientMiddleCenterSize cfg)
     \<and> float32_le (gradientMiddleCenterSize cfg) (Finite 1)"

text \<open>
  The step rule in the words of the specification, in exact arithmetic: within one step
  of the target, snap to it; otherwise move by the step toward it.
\<close>

definition StepTowards_exact :: "real \<Rightarrow> real \<Rightarrow> real \<Rightarrow> real" where
  "StepTowards_exact current target step =
     (if \<bar>target - current\<bar> \<le> step then target
      else if current < target then current + step else current - step)"

text \<open>
  The legal ranges of the live values in the words of the specification: colour channels
  and brightness in \<open>[0, 255]\<close>, the on/off factor in \<open>[0, 1]\<close>.
\<close>

definition pixelInRange :: "Pixel_float \<Rightarrow> bool" where
  "pixelInRange p \<longleftrightarrow>
     0 \<le> R p \<and> R p \<le> 255 \<and> 0 \<le> G p \<and> G p \<le> 255
     \<and> 0 \<le> B p \<and> B p \<le> 255 \<and> 0 \<le> W p \<and> W p \<le> 255"

definition liveInRange :: "Vars \<Rightarrow> bool" where
  "liveInRange v \<longleftrightarrow>
     0 \<le> brightness v \<and> brightness v \<le> 255
     \<and> 0 \<le> onoffFactor v \<and> onoffFactor v \<le> 1
     \<and> pixelInRange (colorOne v) \<and> pixelInRange (colorTwo v)"

text \<open>
  The end-to-end scenario of the specification: a strip of three pixels after \<open>Init\<close>, with
  the live colours at red and blue, full brightness, switched on, every scale entry \<open>1\<close>.
\<close>

definition scenarioVars :: Vars where
  "scenarioVars =
     (snd (snd (Init (staticConfig 3) (staticVars 3))))
       \<lparr>colorOne := \<lparr>R = 255, G = 0, B = 0, W = 0\<rparr>,
        colorTwo := \<lparr>R = 0, G = 0, B = 255, W = 0\<rparr>\<rparr>"






text \<open>
  The effect switched off (console command \<^verbatim>\<open>TOGGLE EFFECT\<close>) on the three-pixel strip
  whose scale entries all stand at \<open>0.75\<close>, as an active effect can leave them.
\<close>

definition effectOffConfig :: Config where
  "effectOffConfig = (staticConfig 3)\<lparr>effectActive := False\<rparr>"

definition dimmedVars :: Vars where
  "dimmedVars = scenarioVars\<lparr>Scale := replicate 3 \<lparr>R = 3 / 4, G = 3 / 4, B = 3 / 4, W = 3 / 4\<rparr>\<rparr>"


text \<open>The configuration after \<open>Init\<close> with the staged brightness lowered to \<open>250\<close>.\<close>

definition dimmerConfig :: Config where
  "dimmerConfig = (fst (snd (Init (staticConfig 3) (staticVars 3))))\<lparr>brightnessStaging := 250\<rparr>"

text \<open>The three-pixel strip with a scale buffer whose entries differ from slot to slot.\<close>

definition rampVars :: Vars where
  "rampVars =
     scenarioVars\<lparr>Scale :=
       [\<lparr>R = 1 / 4, G = 1 / 4, B = 1 / 4, W = 1 / 4\<rparr>,
        \<lparr>R = 1 / 2, G = 1 / 2, B = 1 / 2, W = 1 / 2\<rparr>,
        \<lparr>R = 3 / 4, G = 3 / 4, B = 3 / 4, W = 3 / 4\<rparr>]\<rparr>"

section \<open>Properties of binary32 rounding\<close>

subsection \<open>Rounding to an integer\<close>

lemma round_half_even_of_int: "round_half_even (of_int n) = n"
  by (simp add: round_half_even_def)

lemma round_half_even_floor:
  "round_half_even x = \<lfloor>x\<rfloor> \<or> round_half_even x = \<lfloor>x\<rfloor> + 1"
  by (simp add: round_half_even_def Let_def)

lemma round_half_even_error:
  "x - 1 / 2 \<le> of_int (round_half_even x) \<and> of_int (round_half_even x) \<le> x + 1 / 2"
proof -
  have b: "of_int \<lfloor>x\<rfloor> \<le> x" "x < of_int \<lfloor>x\<rfloor> + 1" by linarith+
  consider (lo) "x - of_int \<lfloor>x\<rfloor> < 1 / 2" | (hi) "x - of_int \<lfloor>x\<rfloor> > 1 / 2"
    | (tie) "x - of_int \<lfloor>x\<rfloor> = 1 / 2" by linarith
  then show ?thesis
  proof cases
    case lo
    then have r: "round_half_even x = \<lfloor>x\<rfloor>" by (simp add: round_half_even_def)
    show ?thesis unfolding r using lo b by (intro conjI; linarith)
  next
    case hi
    then have r: "round_half_even x = \<lfloor>x\<rfloor> + 1" by (simp add: round_half_even_def)
    show ?thesis unfolding r using hi b by (intro conjI; simp; linarith)
  next
    case tie
    have "real_of_int (round_half_even x) = real_of_int \<lfloor>x\<rfloor> \<or>
        real_of_int (round_half_even x) = real_of_int \<lfloor>x\<rfloor> + 1"
      using round_half_even_floor [of x] by auto
    with tie b show ?thesis by (safe; linarith)
  qed
qed

lemma round_half_even_mono:
  assumes "x \<le> y"
  shows "round_half_even x \<le> round_half_even y"
proof (cases "\<lfloor>x\<rfloor> = \<lfloor>y\<rfloor>")
  case True
  with assms show ?thesis
    by (auto simp add: round_half_even_def Let_def)
next
  case False
  with assms have "\<lfloor>x\<rfloor> < \<lfloor>y\<rfloor>"
    using floor_mono [of x y] by linarith
  moreover have "round_half_even x \<le> \<lfloor>x\<rfloor> + 1"
    using round_half_even_floor [of x] by linarith
  moreover have "\<lfloor>y\<rfloor> \<le> round_half_even y"
    using round_half_even_floor [of y] by linarith
  ultimately show ?thesis by linarith
qed

subsection \<open>The binade of a value\<close>

lemma exponent_bounds:
  assumes "0 < x"
  shows "2 powr of_int \<lfloor>log 2 x\<rfloor> \<le> x \<and> x < 2 powr (of_int \<lfloor>log 2 x\<rfloor> + 1)"
  using floor_log_eq_powr_iff [of x 2 "\<lfloor>log 2 x\<rfloor>"] assms by simp

lemma exponent_eq:
  assumes "2 powr of_int k \<le> x" "x < 2 powr (of_int k + 1)"
  shows "\<lfloor>log 2 x\<rfloor> = k"
proof -
  have "0 < x" using assms(1) powr_gt_zero [of 2 "of_int k"] by linarith
  then show ?thesis
    using floor_log_eq_powr_iff [of x 2 k] assms by simp
qed

lemma quantum_pos: "0 < quantum x"
  by (simp add: quantum_def)

lemma exponent_mono:
  assumes "0 < x" "x \<le> y"
  shows "\<lfloor>log 2 x\<rfloor> \<le> \<lfloor>log 2 y\<rfloor>"
  using assms by (intro floor_mono) simp

lemma quantum_mono:
  assumes "0 < x" "x \<le> y"
  shows "quantum x \<le> quantum y"
  using exponent_mono [OF assms] by (simp add: quantum_def)

lemma round_half_even_near:
  assumes "\<bar>x - of_int n\<bar> < 1 / 2"
  shows "round_half_even x = n"
proof (cases "of_int n \<le> x")
  case True
  with assms have "\<lfloor>x\<rfloor> = n" by (intro floor_unique) linarith+
  with assms True show ?thesis by (simp add: round_half_even_def)
next
  case False
  with assms have f: "\<lfloor>x\<rfloor> = n - 1" by (intro floor_unique; simp; linarith?)
  have "x - of_int (n - 1) > 1 / 2" using assms False by simp
  with f show ?thesis by (simp add: round_half_even_def)
qed

lemma round_half_even_tie:
  assumes "x = of_int n + 1 / 2"
  shows "round_half_even x = (if even n then n else n + 1)"
proof -
  have "\<lfloor>x\<rfloor> = n" using assms by (intro floor_unique) simp_all
  with assms show ?thesis by (simp add: round_half_even_def)
qed

lemma round_half_even_nonneg: "0 \<le> x \<Longrightarrow> 0 \<le> round_half_even x"
  using round_half_even_mono [of 0 x] round_half_even_of_int [of 0] by simp

lemma quantum_eq:
  assumes "2 powr of_int k \<le> x" "x < 2 powr (of_int k + 1)"
  shows "quantum x = 2 powr of_int (max (- 149) (k - 23))"
  using exponent_eq [OF assms] by (simp add: quantum_def)

lemma powr_int_ratio:
  assumes "i \<le> j"
  shows "\<exists>n::int. 0 < n \<and> (2::real) powr of_int j = of_int n * 2 powr of_int i"
proof -
  have "(2::real) powr of_int j = 2 powr of_int (j - i) * 2 powr of_int i"
    by (simp add: powr_add [symmetric])
  moreover have "(2::real) powr of_int (j - i) = of_int (2 ^ nat (j - i))"
    using assms powr_real_of_int [of 2 "j - i"] by (simp del: of_int_diff)
  ultimately show ?thesis
    by (intro exI [of _ "2 ^ nat (j - i)"]) simp
qed

subsection \<open>Rounding is monotone\<close>

lemma round_magnitude_nonneg: "0 \<le> x \<Longrightarrow> 0 \<le> round_magnitude x"
  using round_half_even_nonneg [of "x / quantum x"] quantum_pos [of x]
  by (simp add: round_magnitude_def)

lemma round_magnitude_upper:
  assumes "0 < x" "x \<le> b" "b = of_int n * quantum x"
  shows "round_magnitude x \<le> b"
proof -
  have "x / quantum x \<le> of_int n"
    using assms quantum_pos [of x] by (simp add: pos_divide_le_eq)
  then have "round_half_even (x / quantum x) \<le> n"
    using round_half_even_mono [of "x / quantum x" "of_int n"]
    by (simp add: round_half_even_of_int)
  then have "of_int (round_half_even (x / quantum x)) * quantum x \<le> of_int n * quantum x"
    using quantum_pos [of x] by simp
  with assms show ?thesis by (simp add: round_magnitude_def)
qed

lemma round_magnitude_lower:
  assumes "0 < b" "b \<le> y" "b = of_int n * quantum y"
  shows "b \<le> round_magnitude y"
proof -
  have "of_int n \<le> y / quantum y"
    using assms quantum_pos [of y] by (simp add: pos_le_divide_eq)
  then have "n \<le> round_half_even (y / quantum y)"
    using round_half_even_mono [of "of_int n" "y / quantum y"]
    by (simp add: round_half_even_of_int)
  then have "of_int n * quantum y \<le> of_int (round_half_even (y / quantum y)) * quantum y"
    using quantum_pos [of y] by simp
  with assms show ?thesis by (simp add: round_magnitude_def)
qed

lemma round_magnitude_mono_pos:
  assumes "0 < x" "x \<le> y"
  shows "round_magnitude x \<le> round_magnitude y"
proof (cases "quantum x = quantum y")
  case True
  have "x / quantum y \<le> y / quantum y"
    using assms quantum_pos [of y] by (simp add: divide_right_mono)
  then have "round_half_even (x / quantum y) \<le> round_half_even (y / quantum y)"
    by (rule round_half_even_mono)
  then have "of_int (round_half_even (x / quantum y)) * quantum y
      \<le> of_int (round_half_even (y / quantum y)) * quantum y"
    using quantum_pos [of y] by simp
  with assms True show ?thesis by (simp add: round_magnitude_def)
next
  case False
  define kx where "kx = \<lfloor>log 2 x\<rfloor>"
  define ky where "ky = \<lfloor>log 2 y\<rfloor>"
  define ex where "ex = max (- 149) (kx - 23)"
  define ey where "ey = max (- 149) (ky - 23)"
  have y: "0 < y" using assms by linarith
  have qx: "quantum x = 2 powr of_int ex" by (simp add: quantum_def ex_def kx_def)
  have qy: "quantum y = 2 powr of_int ey" by (simp add: quantum_def ey_def ky_def)
  have k: "kx \<le> ky" unfolding kx_def ky_def using assms by (rule exponent_mono)
  then have "ex \<le> ey" by (simp add: ex_def ey_def)
  moreover have "ex \<noteq> ey" using False qx qy by auto
  ultimately have e: "ex < ey" by simp
  then have ey: "ey = ky - 23" and kk: "kx < ky" and exky: "ex \<le> ky"
    using k by (auto simp add: ex_def ey_def max_def split: if_splits)
  define b :: real where "b = 2 powr of_int ky"
  have bpos: "0 < b" by (simp add: b_def)
  have "x < 2 powr (of_int kx + 1)"
    using exponent_bounds [OF assms(1)] by (simp add: kx_def)
  also have "\<dots> \<le> b"
    using kk by (simp add: b_def)
  finally have xb: "x \<le> b" by simp
  have b_le: "b \<le> y"
    using exponent_bounds [OF y] by (simp add: ky_def b_def)
  obtain n where n: "b = of_int n * quantum x"
    using powr_int_ratio [OF exky] qx b_def by auto
  have "ey \<le> ky" using ey by simp
  then obtain m where m: "b = of_int m * quantum y"
    using powr_int_ratio [of ey ky] qy b_def by auto
  have "round_magnitude x \<le> b"
    using assms(1) xb n by (rule round_magnitude_upper)
  also have "b \<le> round_magnitude y"
    using bpos b_le m by (rule round_magnitude_lower)
  finally show ?thesis .
qed

lemma round_magnitude_0: "round_magnitude 0 = 0"
  by (simp add: round_magnitude_def)

lemma round_magnitude_mono:
  assumes "0 \<le> x" "x \<le> y"
  shows "round_magnitude x \<le> round_magnitude y"
proof (cases "x = 0")
  case True
  then show ?thesis
    using assms round_magnitude_nonneg [of y] by (simp add: round_magnitude_0)
next
  case False
  with assms show ?thesis by (intro round_magnitude_mono_pos) simp_all
qed

lemma round_binary32_mono:
  assumes "x \<le> y"
  shows "round_binary32 x \<le> round_binary32 y"
proof -
  consider (neg) "y < 0" | (mixed) "x < 0" "0 \<le> y" | (pos) "0 \<le> x"
    by linarith
  then show ?thesis
  proof cases
    case neg
    then have "round_magnitude (- y) \<le> round_magnitude (- x)"
      using assms by (intro round_magnitude_mono) simp_all
    with neg assms show ?thesis by (simp add: round_binary32_def)
  next
    case mixed
    then have "0 \<le> round_magnitude (- x)" "0 \<le> round_magnitude y"
      by (simp_all add: round_magnitude_nonneg)
    with mixed show ?thesis by (simp add: round_binary32_def)
  next
    case pos
    then have "round_magnitude x \<le> round_magnitude y"
      using assms by (intro round_magnitude_mono) simp_all
    with pos assms show ?thesis by (simp add: round_binary32_def)
  qed
qed

lemma round_binary32_0: "round_binary32 0 = 0"
  by (simp add: round_binary32_def round_magnitude_0)

lemma round_binary32_minus: "round_binary32 (- x) = - round_binary32 x"
  by (simp add: round_binary32_def round_magnitude_0)

subsection \<open>Values that are kept\<close>

lemma round_magnitude_integral:
  assumes "x / quantum x = of_int j"
  shows "round_magnitude x = x"
proof -
  have "of_int (round_half_even (x / quantum x)) * quantum x = of_int j * quantum x"
    by (simp add: assms round_half_even_of_int)
  also have "\<dots> = x"
    using assms quantum_pos [of x] by (simp add: field_simps)
  finally show ?thesis by (simp add: round_magnitude_def)
qed

lemma round_magnitude_grid:
  assumes m: "0 < m" "m \<le> 2 ^ 24" and e: "- 149 \<le> e"
  shows "round_magnitude (of_int m * 2 powr of_int e) = of_int m * 2 powr of_int e"
proof -
  define x :: real where "x = of_int m * 2 powr of_int e"
  define k where "k = \<lfloor>log 2 x\<rfloor>"
  define q where "q = max (- 149) (k - 23)"
  have xpos: "0 < x" using m by (simp add: x_def)
  have qx: "quantum x = 2 powr of_int q" by (simp add: quantum_def q_def k_def)
  have "\<exists>j::int. x / quantum x = of_int j"
  proof (cases "q \<le> e")
    case True
    then obtain n :: int where "(2::real) powr of_int e = of_int n * 2 powr of_int q"
      using powr_int_ratio [of q e] by blast
    then have "x = of_int (m * n) * 2 powr of_int q"
      by (simp add: x_def)
    then have "x / quantum x = of_int (m * n)"
      unfolding qx by simp
    then show ?thesis ..
  next
    case False
    with e have q: "q = k - 23" and ke: "e + 23 < k"
      by (auto simp add: q_def max_def split: if_splits)
    have "x \<le> 2 ^ 24 * 2 powr of_int e"
    proof -
      have "(of_int m :: real) \<le> of_int (2 ^ 24)" using m by (simp only: of_int_le_iff)
      then show ?thesis by (simp add: x_def)
    qed
    also have "\<dots> = 2 powr of_int (e + 24)"
      by (simp add: powr_add)
    finally have up: "x \<le> 2 powr of_int (e + 24)" .
    have lo: "2 powr of_int k \<le> x"
      using exponent_bounds [OF xpos] by (simp add: k_def)
    then have "(2::real) powr of_int k \<le> 2 powr of_int (e + 24)"
      using up by linarith
    then have "k \<le> e + 24" by simp
    with ke have k: "k = e + 24" by simp
    with lo up have "x = 2 powr of_int (e + 24)" by simp
    moreover have "(2::real) powr of_int (e + 24) = 2 ^ 23 * 2 powr of_int (e + 1)"
    proof -
      have "of_int (e + 24) = 23 + (of_int (e + 1) :: real)" by simp
      then have "(2::real) powr of_int (e + 24) = 2 powr (23 + of_int (e + 1))"
        by (simp only:)
      also have "\<dots> = 2 powr 23 * 2 powr of_int (e + 1)" by (rule powr_add)
      finally show ?thesis by simp
    qed
    moreover have "quantum x = 2 powr of_int (e + 1)"
    proof -
      have "k - 23 = e + 1" using k by simp
      then show ?thesis by (simp only: qx q)
    qed
    ultimately have "x / quantum x = of_int (2 ^ 23)"
      by simp
    then show ?thesis ..
  qed
  then obtain j :: int where "x / quantum x = of_int j" ..
  then have "round_magnitude x = x" by (rule round_magnitude_integral)
  then show ?thesis by (simp add: x_def)
qed

lemma round_binary32_grid:
  assumes "\<bar>m\<bar> \<le> 2 ^ 24" "- 149 \<le> e"
  shows "round_binary32 (of_int m * 2 powr of_int e) = of_int m * 2 powr of_int e"
proof -
  consider (neg) "m < 0" | (zero) "m = 0" | (pos) "0 < m" by linarith
  then show ?thesis
  proof cases
    case neg
    then have "round_magnitude (of_int (- m) * 2 powr of_int e) = of_int (- m) * 2 powr of_int e"
      using assms by (intro round_magnitude_grid) simp_all
    moreover have "of_int m * 2 powr of_int e < (0::real)"
      using neg by (simp add: mult_neg_pos)
    ultimately show ?thesis by (simp add: round_binary32_def)
  next
    case zero
    then show ?thesis by (simp add: round_binary32_0)
  next
    case pos
    then have "round_magnitude (of_int m * 2 powr of_int e) = of_int m * 2 powr of_int e"
      using assms by (intro round_magnitude_grid) simp_all
    moreover have "\<not> of_int m * 2 powr of_int e < (0::real)"
      using pos by (simp add: not_less)
    ultimately show ?thesis by (simp add: round_binary32_def)
  qed
qed

lemma round_binary32_of_int:
  "\<bar>m\<bar> \<le> 2 ^ 24 \<Longrightarrow> round_binary32 (of_int m) = of_int m"
  using round_binary32_grid [of m 0] by simp

text \<open>The rounded value is a multiple of the quantum with at most 24 bits.\<close>

lemma round_magnitude_shape:
  assumes "0 < x"
  shows "\<exists>n e. round_magnitude x = of_int n * 2 powr of_int e \<and> 0 \<le> n \<and> n \<le> 2 ^ 24
           \<and> - 149 \<le> e"
proof -
  define k where "k = \<lfloor>log 2 x\<rfloor>"
  define q where "q = max (- 149) (k - 23)"
  define n where "n = round_half_even (x / quantum x)"
  have qx: "quantum x = 2 powr of_int q" by (simp add: quantum_def q_def k_def)
  have "x < 2 powr (of_int k + 1)"
    using exponent_bounds [OF assms] by (simp add: k_def)
  also have "\<dots> \<le> 2 powr of_int (q + 24)"
    by (simp add: q_def)
  also have "\<dots> = 2 ^ 24 * 2 powr of_int q"
    by (simp add: powr_add)
  finally have "x / quantum x \<le> of_int (2 ^ 24)"
    using quantum_pos [of x] by (simp add: qx pos_divide_le_eq)
  then have "n \<le> 2 ^ 24"
    unfolding n_def
    using round_half_even_mono [of "x / quantum x" "of_int (2 ^ 24)"]
    by (simp only: round_half_even_of_int)
  moreover have "0 \<le> n"
    unfolding n_def using assms quantum_pos [of x] by (intro round_half_even_nonneg) simp
  moreover have "round_magnitude x = of_int n * 2 powr of_int q"
    using assms by (simp add: round_magnitude_def n_def qx)
  moreover have "- 149 \<le> q" by (simp add: q_def)
  ultimately show ?thesis by blast
qed

lemma round_binary32_idem: "round_binary32 (round_binary32 x) = round_binary32 x"
proof -
  have fixed: "round_binary32 (round_magnitude y) = round_magnitude y" if y: "0 < y" for y
  proof -
    obtain n e where "round_magnitude y = of_int n * 2 powr of_int e" "0 \<le> n" "n \<le> 2 ^ 24"
      "- 149 \<le> e"
      using round_magnitude_shape [OF y] by blast
    then show ?thesis
      using round_binary32_grid [of n e] by simp
  qed
  consider (neg) "x < 0" | (zero) "x = 0" | (pos) "0 < x" by linarith
  then show ?thesis
  proof cases
    case neg
    then have "round_binary32 (round_magnitude (- x)) = round_magnitude (- x)"
      by (intro fixed) simp
    with neg show ?thesis
      by (simp add: round_binary32_def [of x] round_binary32_minus)
  next
    case zero
    then show ?thesis by (simp add: round_binary32_0)
  next
    case pos
    with fixed [of x] show ?thesis
      by (simp add: round_binary32_def [of x])
  qed
qed

text \<open>Below \<open>1\<close> the rounding error is at most half a unit in the 24th binary place.\<close>

lemma round_binary32_error_unit:
  assumes "0 \<le> x" "x \<le> 1"
  shows "\<bar>round_binary32 x - x\<bar> \<le> 1 / 2 ^ 25"
proof -
  consider (zero) "x = 0" | (one) "x = 1" | (mid) "0 < x" "x < 1" using assms by linarith
  then show ?thesis
  proof cases
    case zero
    then show ?thesis by (simp add: round_binary32_0)
  next
    case one
    then show ?thesis using round_binary32_of_int [of 1] by simp
  next
    case mid
    define k where "k = \<lfloor>log 2 x\<rfloor>"
    define q where "q = max (- 149) (k - 23)"
    have qx: "quantum x = 2 powr of_int q" by (simp add: quantum_def q_def k_def)
    have "log 2 x < 0" using mid by simp
    then have "k < 0" by (simp add: k_def floor_less_iff)
    then have "q \<le> - 24" by (simp add: q_def)
    then have "(2::real) powr of_int q \<le> 2 powr of_int (- 24)"
      by simp
    also have "\<dots> = 1 / 2 ^ 24"
      by (simp add: powr_minus_divide)
    finally have qle: "quantum x \<le> 1 / 2 ^ 24" by (simp add: qx)
    define n where "n = round_half_even (x / quantum x)"
    have err: "x / quantum x - 1 / 2 \<le> of_int n" "of_int n \<le> x / quantum x + 1 / 2"
      using round_half_even_error [of "x / quantum x"] by (simp_all add: n_def)
    have e1: "(x / quantum x - 1 / 2) * quantum x = x - quantum x / 2"
      using quantum_pos [of x] by (simp add: left_diff_distrib)
    have e2: "(x / quantum x + 1 / 2) * quantum x = x + quantum x / 2"
      using quantum_pos [of x] by (simp add: distrib_right)
    have "(x / quantum x - 1 / 2) * quantum x \<le> of_int n * quantum x"
      using err(1) quantum_pos [of x] by (simp only: mult_le_cancel_right_pos)
    then have lo: "x - quantum x / 2 \<le> of_int n * quantum x"
      by (simp only: e1)
    have "of_int n * quantum x \<le> (x / quantum x + 1 / 2) * quantum x"
      using err(2) quantum_pos [of x] by (simp only: mult_le_cancel_right_pos)
    then have hi: "of_int n * quantum x \<le> x + quantum x / 2"
      by (simp only: e2)
    have "round_binary32 x = of_int n * quantum x"
      using mid by (simp add: round_binary32_def round_magnitude_def n_def)
    with lo hi have "\<bar>round_binary32 x - x\<bar> \<le> quantum x / 2" by linarith
    also have "\<dots> \<le> (1 / 2 ^ 24) / 2" using qle by simp
    finally show ?thesis by simp
  qed
qed

text \<open>Evaluation of the rounding on a value whose binade is known.\<close>

lemma round_binary32_eval:
  assumes "2 powr of_int k \<le> x" "x < 2 powr (of_int k + 1)"
  shows "round_binary32 x =
     of_int (round_half_even (x / 2 powr of_int (max (- 149) (k - 23))))
       * 2 powr of_int (max (- 149) (k - 23))"
proof -
  have "0 < x" using assms(1) powr_gt_zero [of 2 "of_int k"] by linarith
  then show ?thesis
    using quantum_eq [OF assms] by (simp add: round_binary32_def round_magnitude_def)
qed

lemma is_binary32_fixed: "is_binary32 x \<Longrightarrow> round_binary32 x = x"
  by (simp add: is_binary32_def)

lemma is_binary32_grid:
  assumes "\<bar>m\<bar> \<le> 2 ^ 24" "- 149 \<le> e" "\<bar>of_int m * 2 powr of_int e\<bar> \<le> max_binary32"
  shows "is_binary32 (of_int m * 2 powr of_int e)"
  using assms round_binary32_grid [of m e] by (simp add: is_binary32_def)

lemma round_binary32_near:
  assumes "2 powr of_int k \<le> x" "x < 2 powr (of_int k + 1)" "- 126 \<le> k"
    and "\<bar>x * 2 powr of_int (23 - k) - of_int n\<bar> < 1 / 2"
  shows "round_binary32 x = of_int n * 2 powr of_int (k - 23)"
proof -
  have m: "max (- 149) (k - 23) = k - 23" using assms(3) by simp
  have "x / 2 powr of_int (k - 23) = x * 2 powr of_int (23 - k)"
  proof -
    have "of_int (23 - k) = - (of_int (k - 23) :: real)" by simp
    then have "(2::real) powr of_int (23 - k) = 2 powr (- of_int (k - 23))" by (simp only:)
    then show ?thesis by (simp only: powr_minus divide_inverse)
  qed
  then have "round_half_even (x / 2 powr of_int (k - 23)) = n"
    using assms(4) by (simp only: round_half_even_near)
  then show ?thesis
    using round_binary32_eval [OF assms(1,2)] by (simp only: m)
qed

lemma round_binary32_tie:
  assumes "2 powr of_int k \<le> x" "x < 2 powr (of_int k + 1)" "- 126 \<le> k"
    and "x * 2 powr of_int (23 - k) = of_int n + 1 / 2"
  shows "round_binary32 x = of_int (if even n then n else n + 1) * 2 powr of_int (k - 23)"
proof -
  have m: "max (- 149) (k - 23) = k - 23" using assms(3) by simp
  have "x / 2 powr of_int (k - 23) = x * 2 powr of_int (23 - k)"
  proof -
    have "of_int (23 - k) = - (of_int (k - 23) :: real)" by simp
    then have "(2::real) powr of_int (23 - k) = 2 powr (- of_int (k - 23))" by (simp only:)
    then show ?thesis by (simp only: powr_minus divide_inverse)
  qed
  then have "round_half_even (x / 2 powr of_int (k - 23)) = (if even n then n else n + 1)"
    using assms(4) by (simp only: round_half_even_tie)
  then show ?thesis
    using round_binary32_eval [OF assms(1,2)] by (simp only: m)
qed

lemma round_binary32_sign:
  "0 \<le> x \<Longrightarrow> 0 \<le> round_binary32 x" "x \<le> 0 \<Longrightarrow> round_binary32 x \<le> 0"
  using round_binary32_mono [of 0 x] round_binary32_mono [of x 0]
  by (simp_all add: round_binary32_0)

lemma rounded_difference_le:
  assumes "round_binary32 step = step" "\<bar>d\<bar> \<le> step"
  shows "\<bar>round_binary32 d\<bar> \<le> step"
proof -
  have "round_binary32 d \<le> round_binary32 step"
    using assms(2) by (intro round_binary32_mono) simp
  moreover have "round_binary32 (- step) \<le> round_binary32 d"
    using assms(2) by (intro round_binary32_mono) simp
  ultimately show ?thesis
    using assms(1) by (simp add: round_binary32_minus abs_le_iff)
qed

lemma max_binary32_large: "2 ^ 24 \<le> max_binary32"
  by (simp add: max_binary32_def)

section \<open>The concrete states, evaluated\<close>

lemma upt_3: "[0..<3] = [0, 1, 2]"
  by (simp add: upt_rec)

lemma upt_4: "[0..<4] = [0, 1, 2, 3]"
  by (simp add: upt_rec)

lemma scenarioVars_eq:
  "scenarioVars =
     \<lparr>Pixels = [\<lparr>R = 0, G = 0, B = 0, W = 0\<rparr>, \<lparr>R = 0, G = 0, B = 0, W = 0\<rparr>,
                \<lparr>R = 0, G = 0, B = 0, W = 0\<rparr>],
      Colors = [\<lparr>R = 0, G = 0, B = 0, W = 0\<rparr>, \<lparr>R = 0, G = 0, B = 0, W = 0\<rparr>,
                \<lparr>R = 0, G = 0, B = 0, W = 0\<rparr>],
      Scale = [\<lparr>R = 1, G = 1, B = 1, W = 1\<rparr>, \<lparr>R = 1, G = 1, B = 1, W = 1\<rparr>,
               \<lparr>R = 1, G = 1, B = 1, W = 1\<rparr>],
      colorOne = \<lparr>R = 255, G = 0, B = 0, W = 0\<rparr>,
      colorTwo = \<lparr>R = 0, G = 0, B = 255, W = 0\<rparr>,
      brightness = 255,
      onoffFactor = 1,
      Count = 3,
      Effects = replicate 4
        \<lparr>prev = 1, next = 1, currentOutput = 1, numSteps = 0, currentStep = 1, hold = False\<rparr>\<rparr>"
  by (simp add: scenarioVars_def Init_def staticVars_def Let_def upt_3 upt_4 eval_nat_numeral)

section \<open>Properties of the fader\<close>

lemma StepTowards_self: "StepTowards t t s = t"
  by (simp add: StepTowards_def round_binary32_0)

lemma StepTowards_funpow_fix: "((\<lambda>x. StepTowards x t s) ^^ n) t = t"
  by (induction n) (simp_all add: StepTowards_self)

lemma StepTowards_rounded_rule:
  assumes "0 < step"
  shows "StepTowards current target step =
     (if \<bar>round_binary32 (target - current)\<bar> \<le> step then target
      else if current < target then round_binary32 (current + step)
      else round_binary32 (current - step))"
proof (cases "\<bar>round_binary32 (target - current)\<bar> \<le> step")
  case True
  with assms show ?thesis by (simp add: StepTowards_def)
next
  case False
  have "(round_binary32 (target - current) > 0) = (current < target)"
  proof (cases "current < target")
    case True
    then have "0 \<le> round_binary32 (target - current)"
      by (intro round_binary32_sign) simp
    with False assms True show ?thesis by simp
  next
    case ge: False
    then have "round_binary32 (target - current) \<le> 0"
      by (intro round_binary32_sign) simp
    with ge show ?thesis by simp
  qed
  with False assms show ?thesis by (simp add: StepTowards_def Let_def)
qed

lemma StepTowards_snap:
  assumes "0 < step" "round_binary32 step = step" "\<bar>target - current\<bar> \<le> step"
  shows "StepTowards current target step = target"
  using assms(1) rounded_difference_le [OF assms(2,3)] by (simp add: StepTowards_rounded_rule)

lemma StepTowards_between:
  assumes "0 < step" "round_binary32 current = current" "round_binary32 target = target"
    "round_binary32 step = step"
  shows "min current target \<le> StepTowards current target step
     \<and> StepTowards current target step \<le> max current target"
proof (cases "\<bar>round_binary32 (target - current)\<bar> \<le> step")
  case True
  with assms(1) show ?thesis by (simp add: StepTowards_rounded_rule)
next
  case False
  then have far: "step < \<bar>target - current\<bar>"
    using rounded_difference_le [OF assms(4), of "target - current"] by linarith
  show ?thesis
  proof (cases "current < target")
    case True
    with far have "current + step \<le> target" by simp
    then have "round_binary32 (current + step) \<le> target"
      using round_binary32_mono [of "current + step" target] assms(3) by simp
    moreover have "current \<le> round_binary32 (current + step)"
      using round_binary32_mono [of current "current + step"] assms(1,2) by simp
    ultimately show ?thesis
      using False True assms(1) by (simp add: StepTowards_rounded_rule)
  next
    case ge: False
    with far have "target \<le> current - step" by simp
    then have "target \<le> round_binary32 (current - step)"
      using round_binary32_mono [of target "current - step"] assms(3) by simp
    moreover have "round_binary32 (current - step) \<le> current"
      using round_binary32_mono [of "current - step" current] assms(1,2) by simp
    ultimately show ?thesis
      using False ge assms(1) by (simp add: StepTowards_rounded_rule)
  qed
qed

lemma StepTowards_fixed:
  assumes "0 < step" "round_binary32 target = target"
  shows "round_binary32 (StepTowards current target step) = StepTowards current target step"
  using assms by (simp add: StepTowards_rounded_rule round_binary32_idem)

lemma StepTowards_is_binary32:
  assumes "0 < step" "is_binary32 current" "is_binary32 target" "is_binary32 step"
  shows "is_binary32 (StepTowards current target step)"
proof -
  have b: "min current target \<le> StepTowards current target step"
    "StepTowards current target step \<le> max current target"
    using StepTowards_between [of step current target] assms by (simp_all add: is_binary32_def)
  have "\<bar>current\<bar> \<le> max_binary32" "\<bar>target\<bar> \<le> max_binary32"
    using assms by (simp_all add: is_binary32_def)
  with b have "\<bar>StepTowards current target step\<bar> \<le> max_binary32" by linarith
  moreover have "round_binary32 (StepTowards current target step)
      = StepTowards current target step"
    using assms by (intro StepTowards_fixed) (simp_all add: is_binary32_def)
  ultimately show ?thesis by (simp add: is_binary32_def)
qed

lemma StepTowards_funpow_is_binary32:
  assumes "0 < step" "is_binary32 current" "is_binary32 target" "is_binary32 step"
  shows "is_binary32 (((\<lambda>x. StepTowards x target step) ^^ n) current)"
proof (induction n)
  case 0
  show ?case using assms by simp
next
  case (Suc n)
  then show ?case using assms by (simp add: StepTowards_is_binary32)
qed

lemma StepTowards_funpow_between:
  assumes "0 < step" "is_binary32 current" "is_binary32 target" "is_binary32 step"
  shows "min current target \<le> ((\<lambda>x. StepTowards x target step) ^^ n) current
       \<and> ((\<lambda>x. StepTowards x target step) ^^ n) current \<le> max current target"
proof (induction n)
  case 0
  show ?case by simp
next
  case (Suc n)
  let ?x = "((\<lambda>x. StepTowards x target step) ^^ n) current"
  have "is_binary32 ?x"
    using assms by (rule StepTowards_funpow_is_binary32)
  then have "min ?x target \<le> StepTowards ?x target step
      \<and> StepTowards ?x target step \<le> max ?x target"
    using assms by (intro StepTowards_between) (simp_all add: is_binary32_def)
  with Suc show ?case by auto
qed

lemma StepTowards_funpow_stays:
  assumes "((\<lambda>x. StepTowards x target step) ^^ n) current = target"
  shows "((\<lambda>x. StepTowards x target step) ^^ (n + m)) current = target"
proof -
  have "((\<lambda>x. StepTowards x target step) ^^ (m + n)) current
      = ((\<lambda>x. StepTowards x target step) ^^ m) (((\<lambda>x. StepTowards x target step) ^^ n) current)"
    by (simp only: funpow_add o_apply)
  then show ?thesis
    by (simp add: assms StepTowards_funpow_fix add.commute)
qed

lemma StepTowards_exact_self: "0 \<le> s \<Longrightarrow> StepTowards_exact t t s = t"
  by (simp add: StepTowards_exact_def)

lemma StepTowards_exact_funpow_fix:
  "0 \<le> s \<Longrightarrow> ((\<lambda>x. StepTowards_exact x t s) ^^ n) t = t"
  by (induction n) (simp_all add: StepTowards_exact_self)

text \<open>After \<open>n\<close> exact steps the target is reached exactly when \<open>n\<close> steps cover the distance.\<close>

lemma StepTowards_exact_funpow_reaches:
  assumes "0 < step"
  shows "(((\<lambda>x. StepTowards_exact x target step) ^^ n) current = target)
           = (\<bar>target - current\<bar> \<le> real n * step)"
proof (induction n arbitrary: current)
  case 0
  show ?case by auto
next
  case (Suc n)
  have unfold: "((\<lambda>x. StepTowards_exact x target step) ^^ Suc n) current
        = ((\<lambda>x. StepTowards_exact x target step) ^^ n) (StepTowards_exact current target step)"
    by (simp only: funpow_Suc_right o_apply)
  show ?case
  proof (cases "\<bar>target - current\<bar> \<le> step")
    case True
    have "\<bar>target - current\<bar> \<le> real (Suc n) * step"
    proof -
      have "0 \<le> real n * step" using assms by simp
      moreover have "real (Suc n) * step = real n * step + step" by (simp add: algebra_simps)
      ultimately show ?thesis using True by linarith
    qed
    moreover have "StepTowards_exact current target step = target"
      using True by (simp add: StepTowards_exact_def)
    moreover have "0 \<le> step" using assms by simp
    ultimately show ?thesis
      by (simp add: unfold StepTowards_exact_funpow_fix del: funpow.simps)
  next
    case False
    let ?c = "StepTowards_exact current target step"
    have dist: "\<bar>target - ?c\<bar> = \<bar>target - current\<bar> - step"
      using False assms by (auto simp add: StepTowards_exact_def)
    have "(((\<lambda>x. StepTowards_exact x target step) ^^ n) ?c = target)
            = (\<bar>target - ?c\<bar> \<le> real n * step)"
      by (rule Suc.IH)
    then show ?thesis
      unfolding unfold dist by (simp add: algebra_simps)
  qed
qed

lemma ceiling_steps_iff:
  assumes "0 < step"
  shows "(nat \<lceil>\<bar>target - current\<bar> / step\<rceil> \<le> n) = (\<bar>target - current\<bar> \<le> real n * step)"
proof -
  have "(nat \<lceil>\<bar>target - current\<bar> / step\<rceil> \<le> n) = (\<lceil>\<bar>target - current\<bar> / step\<rceil> \<le> int n)"
    by (simp add: nat_le_iff)
  also have "\<dots> = (\<bar>target - current\<bar> / step \<le> real n)"
    by (simp add: ceiling_le_iff)
  also have "\<dots> = (\<bar>target - current\<bar> \<le> real n * step)"
    using assms by (simp add: pos_divide_le_eq)
  finally show ?thesis .
qed

text \<open>
  On a grid of multiples of \<open>g\<close> on which the rounding is exact, one step of the code is
  the exact step and stays on the grid between the current value and the target.
\<close>

lemma StepTowards_on_grid:
  assumes g: "0 < g"
    and exact: "\<And>m::int. \<bar>m\<bar> \<le> 2 ^ 24 \<Longrightarrow> round_binary32 (of_int m * g) = of_int m * g"
    and a: "\<bar>a\<bar> \<le> 2 ^ 24" and b: "\<bar>b\<bar> \<le> 2 ^ 24" and ba: "\<bar>b - a\<bar> \<le> 2 ^ 24"
    and k: "0 < k" "k \<le> 2 ^ 24"
  shows "\<exists>a'. StepTowards (of_int a * g) (of_int b * g) (of_int k * g) = of_int a' * g
           \<and> StepTowards_exact (of_int a * g) (of_int b * g) (of_int k * g) = of_int a' * g
           \<and> min a b \<le> a' \<and> a' \<le> max a b \<and> \<bar>b - a'\<bar> \<le> \<bar>b - a\<bar>"
proof -
  define c t s where "c = of_int a * g" and "t = of_int b * g" and "s = of_int k * g"
  have spos: "0 < s" using g k by (simp add: s_def)
  have diff: "t - c = of_int (b - a) * g"
    by (simp add: c_def t_def left_diff_distrib)
  have fdiff: "round_binary32 (t - c) = t - c"
    unfolding diff using ba by (rule exact)
  have absd: "\<bar>t - c\<bar> = of_int \<bar>b - a\<bar> * g"
    using g by (simp add: diff abs_mult)
  have near: "(\<bar>t - c\<bar> \<le> s) = (\<bar>b - a\<bar> \<le> k)"
  proof -
    have "(of_int \<bar>b - a\<bar> * g \<le> of_int k * g) = (of_int \<bar>b - a\<bar> \<le> (of_int k :: real))"
      using g by (simp only: mult_le_cancel_right_pos)
    also have "\<dots> = (\<bar>b - a\<bar> \<le> k)"
      by (rule of_int_le_iff)
    finally show ?thesis by (simp only: absd s_def)
  qed
  have lt: "(c < t) = (a < b)"
    using g by (simp add: c_def t_def)
  have rule: "StepTowards c t s =
      (if \<bar>t - c\<bar> \<le> s then t else if c < t then round_binary32 (c + s)
       else round_binary32 (c - s))"
    using spos by (simp add: StepTowards_rounded_rule fdiff)
  consider (snap) "\<bar>b - a\<bar> \<le> k" | (up) "k < \<bar>b - a\<bar>" "a < b" | (down) "k < \<bar>b - a\<bar>" "b \<le> a"
    by linarith
  then have "\<exists>a'. StepTowards c t s = of_int a' * g
           \<and> StepTowards_exact c t s = of_int a' * g
           \<and> min a b \<le> a' \<and> a' \<le> max a b \<and> \<bar>b - a'\<bar> \<le> \<bar>b - a\<bar>"
  proof cases
    case snap
    then have "\<bar>t - c\<bar> \<le> s" using near by simp
    then have "StepTowards c t s = t" "StepTowards_exact c t s = t"
      by (simp_all add: rule StepTowards_exact_def)
    then have "StepTowards c t s = of_int b * g" "StepTowards_exact c t s = of_int b * g"
      by (simp_all only: t_def)
    then show ?thesis by (intro exI [of _ b]) simp
  next
    case up
    have sum: "c + s = of_int (a + k) * g"
      by (simp add: c_def s_def distrib_right)
    have "\<bar>a + k\<bar> \<le> 2 ^ 24" using up k a b by linarith
    then have "round_binary32 (c + s) = c + s"
      unfolding sum by (rule exact)
    then have "StepTowards c t s = of_int (a + k) * g"
      "StepTowards_exact c t s = of_int (a + k) * g"
      using up near lt by (simp_all add: rule StepTowards_exact_def sum)
    moreover have "min a b \<le> a + k \<and> a + k \<le> max a b \<and> \<bar>b - (a + k)\<bar> \<le> \<bar>b - a\<bar>"
      using up k by linarith
    ultimately show ?thesis by (intro exI [of _ "a + k"]) simp
  next
    case down
    have sum: "c - s = of_int (a - k) * g"
      by (simp add: c_def s_def left_diff_distrib)
    have "\<bar>a - k\<bar> \<le> 2 ^ 24" using down k a b by linarith
    then have "round_binary32 (c - s) = c - s"
      unfolding sum by (rule exact)
    then have "StepTowards c t s = of_int (a - k) * g"
      "StepTowards_exact c t s = of_int (a - k) * g"
      using down near lt by (simp_all add: rule StepTowards_exact_def sum)
    moreover have "min a b \<le> a - k \<and> a - k \<le> max a b \<and> \<bar>b - (a - k)\<bar> \<le> \<bar>b - a\<bar>"
      using down k by linarith
    ultimately show ?thesis by (intro exI [of _ "a - k"]) simp
  qed
  then show ?thesis by (simp only: c_def t_def s_def)
qed

lemma StepTowards_funpow_on_grid:
  assumes g: "0 < g"
    and exact: "\<And>m::int. \<bar>m\<bar> \<le> 2 ^ 24 \<Longrightarrow> round_binary32 (of_int m * g) = of_int m * g"
    and a: "\<bar>a\<bar> \<le> 2 ^ 24" and b: "\<bar>b\<bar> \<le> 2 ^ 24" and ba: "\<bar>b - a\<bar> \<le> 2 ^ 24"
    and k: "0 < k" "k \<le> 2 ^ 24"
  shows "\<exists>a'. ((\<lambda>x. StepTowards x (of_int b * g) (of_int k * g)) ^^ n) (of_int a * g)
             = of_int a' * g
           \<and> ((\<lambda>x. StepTowards_exact x (of_int b * g) (of_int k * g)) ^^ n) (of_int a * g)
             = of_int a' * g
           \<and> min a b \<le> a' \<and> a' \<le> max a b \<and> \<bar>b - a'\<bar> \<le> \<bar>b - a\<bar>"
proof (induction n)
  case 0
  show ?case by (intro exI [of _ a]) simp
next
  case (Suc n)
  then obtain a' where a':
    "((\<lambda>x. StepTowards x (of_int b * g) (of_int k * g)) ^^ n) (of_int a * g) = of_int a' * g"
    "((\<lambda>x. StepTowards_exact x (of_int b * g) (of_int k * g)) ^^ n) (of_int a * g) = of_int a' * g"
    "min a b \<le> a'" "a' \<le> max a b" "\<bar>b - a'\<bar> \<le> \<bar>b - a\<bar>"
    by blast
  have "\<bar>a'\<bar> \<le> 2 ^ 24" using a'(3,4) a b by linarith
  moreover have "\<bar>b - a'\<bar> \<le> 2 ^ 24" using a'(5) ba by linarith
  ultimately obtain a'' where a'':
    "StepTowards (of_int a' * g) (of_int b * g) (of_int k * g) = of_int a'' * g"
    "StepTowards_exact (of_int a' * g) (of_int b * g) (of_int k * g) = of_int a'' * g"
    "min a' b \<le> a''" "a'' \<le> max a' b" "\<bar>b - a''\<bar> \<le> \<bar>b - a'\<bar>"
    using StepTowards_on_grid [OF g exact _ b _ k, of a'] by blast
  have "min a b \<le> a'' \<and> a'' \<le> max a b \<and> \<bar>b - a''\<bar> \<le> \<bar>b - a\<bar>"
    using a'(3,4,5) a''(3,4,5) by linarith
  then show ?case
    using a'(1,2) a''(1,2) by (intro exI [of _ a'']) simp
qed

text \<open>On such a grid the number of calls is the one of the exact step rule.\<close>

lemma StepTowards_grid_count:
  assumes e: "- 149 \<le> e"
    and a: "\<bar>a\<bar> \<le> 2 ^ 24" and b: "\<bar>b\<bar> \<le> 2 ^ 24" and ba: "\<bar>b - a\<bar> \<le> 2 ^ 24"
    and k: "0 < k" "k \<le> 2 ^ 24"
    and c: "current = of_int a * 2 powr of_int e" and t: "target = of_int b * 2 powr of_int e"
    and s: "step = of_int k * 2 powr of_int e"
  shows "(((\<lambda>x. StepTowards x target step) ^^ n) current = target)
           = (nat \<lceil>\<bar>target - current\<bar> / step\<rceil> \<le> n)"
proof -
  have g: "(0::real) < 2 powr of_int e" by simp
  have exact: "round_binary32 (of_int m * 2 powr of_int e) = of_int m * 2 powr of_int e"
    if "\<bar>m\<bar> \<le> 2 ^ 24" for m :: int
    using that e by (rule round_binary32_grid)
  have spos: "0 < step" using k by (simp add: s)
  have "((\<lambda>x. StepTowards x target step) ^^ n) current
      = ((\<lambda>x. StepTowards_exact x target step) ^^ n) current"
    using StepTowards_funpow_on_grid [OF g exact a b ba k, of n] unfolding c t s by auto
  then show ?thesis
    using spos by (simp only: StepTowards_exact_funpow_reaches ceiling_steps_iff)
qed

lemma StepTowards_grid_exact:
  assumes e: "- 149 \<le> e"
    and a: "\<bar>a\<bar> \<le> 2 ^ 24" and b: "\<bar>b\<bar> \<le> 2 ^ 24" and ba: "\<bar>b - a\<bar> \<le> 2 ^ 24"
    and k: "0 < k" "k \<le> 2 ^ 24"
    and c: "current = of_int a * 2 powr of_int e" and t: "target = of_int b * 2 powr of_int e"
    and s: "step = of_int k * 2 powr of_int e"
  shows "StepTowards current target step = StepTowards_exact current target step"
proof -
  have g: "(0::real) < 2 powr of_int e" by simp
  have exact: "round_binary32 (of_int m * 2 powr of_int e) = of_int m * 2 powr of_int e"
    if "\<bar>m\<bar> \<le> 2 ^ 24" for m :: int
    using that e by (rule round_binary32_grid)
  show ?thesis
    using StepTowards_on_grid [OF g exact a b ba k] unfolding c t s by auto
qed

subsection \<open>The fader inside \<open>Fade\<close>\<close>

lemma constrain_inert: "lo \<le> x \<Longrightarrow> x \<le> hi \<Longrightarrow> constrain x lo hi = x"
  by (simp add: constrain_def)

lemma Fade_brightness:
  "brightness (snd (Fade c v)) =
     constrain (StepTowards (brightness v) (brightnessStaging c) (brightnessIncrement c)) 0 255"
  by (simp add: Fade_def Let_def split: prod.splits)

lemma Fade_onoffFactor:
  "onoffFactor (snd (Fade c v)) =
     constrain (StepTowards (onoffFactor v) (onoffStaging c) (onoffIncrement c)) 0 1"
  by (simp add: Fade_def Let_def split: prod.splits)

lemma stepPixel_fst:
  "fst (stepPixel c live staged) =
     \<lparr>R = constrain (StepTowards (R live) (R staged) (colorIncrement c)) 0 255,
      G = constrain (StepTowards (G live) (G staged) (colorIncrement c)) 0 255,
      B = constrain (StepTowards (B live) (B staged) (colorIncrement c)) 0 255,
      W = constrain (StepTowards (W live) (W staged) (colorIncrement c)) 0 255\<rparr>"
  by (simp add: stepPixel_def stepChannel_def Let_def)

lemma Fade_colorOne:
  "colorOne (snd (Fade c v)) = fst (stepPixel c (colorOne v) (colorOneStaging c))"
  by (simp add: Fade_def Let_def split: prod.splits)

lemma Fade_colorTwo:
  "colorTwo (snd (Fade c v)) = fst (stepPixel c (colorTwo v) (colorTwoStaging c))"
  by (simp add: Fade_def Let_def split: prod.splits)

lemma Fade_colorOne_channel:
  "sel \<in> {R, G, B, W} \<Longrightarrow>
     sel (colorOne (snd (Fade c u)))
       = constrain (StepTowards (sel (colorOne u)) (sel (colorOneStaging c)) (colorIncrement c)) 0 255"
  by (auto simp add: Fade_colorOne stepPixel_fst)

lemma Fade_colorTwo_channel:
  "sel \<in> {R, G, B, W} \<Longrightarrow>
     sel (colorTwo (snd (Fade c u)))
       = constrain (StepTowards (sel (colorTwo u)) (sel (colorTwoStaging c)) (colorIncrement c)) 0 255"
  by (auto simp add: Fade_colorTwo stepPixel_fst)

text \<open>
  A channel that is stepped and then clamped to \<open>[lo, hi]\<close> follows the unclamped
  iteration as long as its start and its target lie in \<open>[lo, hi]\<close>.
\<close>

lemma clamped_step_funpow:
  assumes step: "\<And>u. get (F u) = constrain (StepTowards (get u) tgt inc) lo hi"
    and inc: "0 < inc" "is_binary32 inc"
    and tgt: "lo \<le> tgt" "tgt \<le> hi" "is_binary32 tgt"
    and cur: "lo \<le> get v" "get v \<le> hi" "is_binary32 (get v)"
  shows "get ((F ^^ n) v) = ((\<lambda>x. StepTowards x tgt inc) ^^ n) (get v)"
proof (induction n)
  case 0
  show ?case by simp
next
  case (Suc n)
  let ?x = "((\<lambda>x. StepTowards x tgt inc) ^^ n) (get v)"
  have x: "min (get v) tgt \<le> ?x \<and> ?x \<le> max (get v) tgt"
    using inc(1) cur(3) tgt(3) inc(2) by (rule StepTowards_funpow_between)
  have "is_binary32 ?x"
    using inc(1) cur(3) tgt(3) inc(2) by (rule StepTowards_funpow_is_binary32)
  then have "min ?x tgt \<le> StepTowards ?x tgt inc \<and> StepTowards ?x tgt inc \<le> max ?x tgt"
    using inc tgt(3) by (intro StepTowards_between) (simp_all add: is_binary32_def)
  with x tgt cur have "lo \<le> StepTowards ?x tgt inc" "StepTowards ?x tgt inc \<le> hi"
    by auto
  then have "constrain (StepTowards ?x tgt inc) lo hi = StepTowards ?x tgt inc"
    by (rule constrain_inert)
  then show ?case
    by (simp add: step Suc.IH)
qed

text \<open>
  Repeated calls of \<open>Fade\<close>: a channel whose live value and staged target are binary32
  values in the legal range is the iteration of \<open>StepTowards\<close>; the clamp never acts.
\<close>

lemma Fade_brightness_funpow:
  assumes "0 < brightnessIncrement c" "is_binary32 (brightnessIncrement c)"
    "0 \<le> brightnessStaging c" "brightnessStaging c \<le> 255" "is_binary32 (brightnessStaging c)"
    "0 \<le> brightness v" "brightness v \<le> 255" "is_binary32 (brightness v)"
  shows "brightness (((\<lambda>u. snd (Fade c u)) ^^ n) v)
       = ((\<lambda>x. StepTowards x (brightnessStaging c) (brightnessIncrement c)) ^^ n) (brightness v)"
  using assms by (intro clamped_step_funpow [where lo = 0 and hi = 255] Fade_brightness)

lemma Fade_onoffFactor_funpow:
  assumes "0 < onoffIncrement c" "is_binary32 (onoffIncrement c)"
    "0 \<le> onoffStaging c" "onoffStaging c \<le> 1" "is_binary32 (onoffStaging c)"
    "0 \<le> onoffFactor v" "onoffFactor v \<le> 1" "is_binary32 (onoffFactor v)"
  shows "onoffFactor (((\<lambda>u. snd (Fade c u)) ^^ n) v)
       = ((\<lambda>x. StepTowards x (onoffStaging c) (onoffIncrement c)) ^^ n) (onoffFactor v)"
  using assms by (intro clamped_step_funpow [where lo = 0 and hi = 1] Fade_onoffFactor)

lemma Fade_colorOne_funpow:
  assumes "sel \<in> {R, G, B, W}" "0 < colorIncrement c" "is_binary32 (colorIncrement c)"
    "0 \<le> sel (colorOneStaging c)" "sel (colorOneStaging c) \<le> 255"
    "is_binary32 (sel (colorOneStaging c))"
    "0 \<le> sel (colorOne v)" "sel (colorOne v) \<le> 255" "is_binary32 (sel (colorOne v))"
  shows "sel (colorOne (((\<lambda>u. snd (Fade c u)) ^^ n) v))
       = ((\<lambda>x. StepTowards x (sel (colorOneStaging c)) (colorIncrement c)) ^^ n) (sel (colorOne v))"
  using assms(2-)
  by (intro clamped_step_funpow [where lo = 0 and hi = 255 and get = "\<lambda>u. sel (colorOne u)"]
      Fade_colorOne_channel [OF assms(1)])

lemma Fade_colorTwo_funpow:
  assumes "sel \<in> {R, G, B, W}" "0 < colorIncrement c" "is_binary32 (colorIncrement c)"
    "0 \<le> sel (colorTwoStaging c)" "sel (colorTwoStaging c) \<le> 255"
    "is_binary32 (sel (colorTwoStaging c))"
    "0 \<le> sel (colorTwo v)" "sel (colorTwo v) \<le> 255" "is_binary32 (sel (colorTwo v))"
  shows "sel (colorTwo (((\<lambda>u. snd (Fade c u)) ^^ n) v))
       = ((\<lambda>x. StepTowards x (sel (colorTwoStaging c)) (colorIncrement c)) ^^ n) (sel (colorTwo v))"
  using assms(2-)
  by (intro clamped_step_funpow [where lo = 0 and hi = 255 and get = "\<lambda>u. sel (colorTwo u)"]
      Fade_colorTwo_channel [OF assms(1)])

text \<open>The ranges are kept by \<open>Fade\<close>, whatever the staged values are.\<close>

lemma Fade_liveInRange: "liveInRange (snd (Fade c v))"
  by (simp add: liveInRange_def pixelInRange_def Fade_brightness Fade_onoffFactor Fade_colorOne
      Fade_colorTwo stepPixel_fst constrain_def)

lemma dimmerConfig_brightness:
  "brightnessStaging dimmerConfig = 250 \<and> brightnessIncrement dimmerConfig = 1"
  by (simp add: dimmerConfig_def Init_def staticConfig_def staticVars_def Let_def)

lemma scenarioVars_live: "liveInRange scenarioVars \<and> brightness scenarioVars = 255"
  by (simp add: scenarioVars_eq liveInRange_def pixelInRange_def)

text \<open>The increments of the start-up configuration are positive binary32 values.\<close>

lemma onoffIncrement_literal: "round_binary32 (1 / 100) = 10737418 / 2 ^ 30"
  using round_binary32_near [of "- 7" "1 / 100" 10737418] by (simp add: powr_minus_divide)

lemma staticConfig_increments:
  "0 < brightnessIncrement (staticConfig n) \<and> is_binary32 (brightnessIncrement (staticConfig n))
   \<and> 0 < colorIncrement (staticConfig n) \<and> is_binary32 (colorIncrement (staticConfig n))
   \<and> 0 < onoffIncrement (staticConfig n) \<and> is_binary32 (onoffIncrement (staticConfig n))"
proof -
  have one: "is_binary32 1"
    using is_binary32_grid [of 1 0] max_binary32_large by simp
  have "is_binary32 (10737418 / 2 ^ 30)"
    using is_binary32_grid [of 10737418 "- 30"] max_binary32_large
    by (simp add: powr_minus_divide)
  then have "0 < round_binary32 (1 / 100) \<and> is_binary32 (round_binary32 (1 / 100))"
    by (simp only: onoffIncrement_literal) simp
  with one show ?thesis by (simp add: staticConfig_def)
qed

subsection \<open>Three runs of the fader, evaluated\<close>

text \<open>From \<open>100\<close> toward \<open>101\<close> with the binary32 value of \<open>0.000001\<close> as step.\<close>

lemma is_binary32_100: "is_binary32 100"
  using is_binary32_grid [of 100 0] max_binary32_large by (simp add: powr_minus_divide)

lemma is_binary32_101: "is_binary32 101"
  using is_binary32_grid [of 101 0] max_binary32_large by (simp add: powr_minus_divide)

lemma is_binary32_10: "is_binary32 10"
  using is_binary32_grid [of 10 0] max_binary32_large by (simp add: powr_minus_divide)

lemma is_binary32_0: "is_binary32 0"
  by (simp add: is_binary32_def round_binary32_0 max_binary32_def)

lemma micro_step: "round_binary32 (1 / 1000000) = 8796093 / 2 ^ 43"
  using round_binary32_near [of "- 20" "1 / 1000000" 8796093] by (simp add: powr_minus_divide)

lemma is_binary32_micro: "is_binary32 (8796093 / 2 ^ 43)"
  using is_binary32_grid [of 8796093 "- 43"] max_binary32_large by (simp add: powr_minus_divide)

lemma micro_step_lost: "round_binary32 (100 + 8796093 / 2 ^ 43) = 100"
  using round_binary32_near [of 6 "100 + 8796093 / 2 ^ 43" 13107200] by (simp add: powr_minus_divide)

lemma StepTowards_micro: "StepTowards 100 101 (8796093 / 2 ^ 43) = 100"
  using round_binary32_of_int [of 1] micro_step_lost
  by (simp add: StepTowards_rounded_rule)

lemma StepTowards_micro_funpow:
  "((\<lambda>x. StepTowards x 101 (8796093 / 2 ^ 43)) ^^ n) 100 = 100"
  using StepTowards_micro by (induction n) simp_all

text \<open>From \<open>0\<close> toward \<open>10\<close> with the binary32 value of \<open>10 / 3\<close> as step.\<close>

lemma third_step: "round_binary32 (10 / 3) = 13981013 / 2 ^ 22"
  using round_binary32_near [of 1 "10 / 3" 13981013] by (simp add: powr_minus_divide)

lemma is_binary32_third: "is_binary32 (13981013 / 2 ^ 22)"
  using is_binary32_grid [of 13981013 "- 22"] max_binary32_large by (simp add: powr_minus_divide)

lemma StepTowards_third_1: "StepTowards 0 10 (13981013 / 2 ^ 22) = 13981013 / 2 ^ 22"
  using round_binary32_of_int [of 10] is_binary32_fixed [OF is_binary32_third]
  by (simp add: StepTowards_rounded_rule)

lemma third_diff_2: "round_binary32 (10 - 13981013 / 2 ^ 22) = 13981014 / 2 ^ 21"
  using round_binary32_tie [of 2 "10 - 13981013 / 2 ^ 22" 13981013] by (simp add: powr_minus_divide)

lemma third_sum_2: "round_binary32 (13981013 / 2 ^ 22 + 13981013 / 2 ^ 22) = 13981013 / 2 ^ 21"
  using round_binary32_grid [of 13981013 "- 21"] by (simp add: powr_minus_divide)

lemma StepTowards_third_2:
  "StepTowards (13981013 / 2 ^ 22) 10 (13981013 / 2 ^ 22) = 13981013 / 2 ^ 21"
  using third_diff_2 third_sum_2 by (simp add: StepTowards_rounded_rule)

lemma third_diff_3: "round_binary32 (10 - 13981013 / 2 ^ 21) = 6990507 / 2 ^ 21"
  using round_binary32_grid [of 6990507 "- 21"] by (simp add: powr_minus_divide)

lemma third_sum_3: "round_binary32 (13981013 / 2 ^ 21 + 13981013 / 2 ^ 22) = 10"
  using round_binary32_near [of 3 "13981013 / 2 ^ 21 + 13981013 / 2 ^ 22" 10485760] by (simp add: powr_minus_divide)

lemma StepTowards_third_3:
  "StepTowards (13981013 / 2 ^ 21) 10 (13981013 / 2 ^ 22) = 10"
  using third_diff_3 third_sum_3 by (simp add: StepTowards_rounded_rule)

lemma StepTowards_third_funpow:
  "((\<lambda>x. StepTowards x 10 (13981013 / 2 ^ 22)) ^^ 3) 0 = 10"
  by (simp only: numeral_3_eq_3 funpow.simps o_apply id_apply
      StepTowards_third_1 StepTowards_third_2 StepTowards_third_3)

lemma third_count: "nat \<lceil>\<bar>10 - 0\<bar> / (13981013 / 2 ^ 22 :: real)\<rceil> = 4"
  by simp

text \<open>
  From \<open>1\<close> toward the binary32 value of \<open>0.2\<close> with the binary32 value of \<open>0.4\<close> as
  step.
\<close>

lemma fifth_target: "round_binary32 (2 / 10) = 13421773 / 2 ^ 26"
  using round_binary32_near [of "- 3" "2 / 10" 13421773] by (simp add: powr_minus_divide)

lemma two_fifths_step: "round_binary32 (4 / 10) = 13421773 / 2 ^ 25"
  using round_binary32_near [of "- 2" "4 / 10" 13421773] by (simp add: powr_minus_divide)

lemma is_binary32_fifth: "is_binary32 (13421773 / 2 ^ 26)"
  using is_binary32_grid [of 13421773 "- 26"] max_binary32_large by (simp add: powr_minus_divide)

lemma is_binary32_two_fifths: "is_binary32 (13421773 / 2 ^ 25)"
  using is_binary32_grid [of 13421773 "- 25"] max_binary32_large by (simp add: powr_minus_divide)

lemma late_diff_1: "round_binary32 (13421773 / 2 ^ 26 - 1) = - (13421773 / 2 ^ 24)"
  using round_binary32_near [of "- 1" "1 - 13421773 / 2 ^ 26" 13421773]
    round_binary32_minus [of "1 - 13421773 / 2 ^ 26"]
  by (simp add: powr_minus_divide)

lemma late_sum_1: "round_binary32 (1 - 13421773 / 2 ^ 25) = 10066330 / 2 ^ 24"
  using round_binary32_tie [of "- 1" "1 - 13421773 / 2 ^ 25" 10066329]
  by (simp add: powr_minus_divide)

lemma StepTowards_late_1:
  "StepTowards 1 (13421773 / 2 ^ 26) (13421773 / 2 ^ 25) = 10066330 / 2 ^ 24"
  using late_diff_1 late_sum_1 by (simp add: StepTowards_rounded_rule)

lemma late_diff_2:
  "round_binary32 (13421773 / 2 ^ 26 - 10066330 / 2 ^ 24) = - (13421774 / 2 ^ 25)"
  using round_binary32_tie [of "- 2" "10066330 / 2 ^ 24 - 13421773 / 2 ^ 26" 13421773]
    round_binary32_minus [of "10066330 / 2 ^ 24 - 13421773 / 2 ^ 26"]
  by (simp add: powr_minus_divide)

lemma late_sum_2: "round_binary32 (10066330 / 2 ^ 24 - 13421773 / 2 ^ 25) = 13421774 / 2 ^ 26"
  using round_binary32_grid [of 13421774 "- 26"] by (simp add: powr_minus_divide)

lemma StepTowards_late_2:
  "StepTowards (10066330 / 2 ^ 24) (13421773 / 2 ^ 26) (13421773 / 2 ^ 25) = 13421774 / 2 ^ 26"
  using late_diff_2 late_sum_2 by (simp add: StepTowards_rounded_rule)

lemma late_diff_3: "round_binary32 (13421773 / 2 ^ 26 - 13421774 / 2 ^ 26) = - (1 / 2 ^ 26)"
  using round_binary32_grid [of "- 1" "- 26"] by (simp add: powr_minus_divide)

lemma StepTowards_late_3:
  "StepTowards (13421774 / 2 ^ 26) (13421773 / 2 ^ 26) (13421773 / 2 ^ 25) = 13421773 / 2 ^ 26"
  using late_diff_3 by (simp add: StepTowards_rounded_rule)

lemma StepTowards_late_funpow_2:
  "((\<lambda>x. StepTowards x (13421773 / 2 ^ 26) (13421773 / 2 ^ 25)) ^^ 2) 1 = 13421774 / 2 ^ 26"
  by (simp only: numeral_2_eq_2 funpow.simps o_apply id_apply
      StepTowards_late_1 StepTowards_late_2)

lemma StepTowards_late_funpow_3:
  "((\<lambda>x. StepTowards x (13421773 / 2 ^ 26) (13421773 / 2 ^ 25)) ^^ 3) 1 = 13421773 / 2 ^ 26"
  by (simp only: numeral_3_eq_3 funpow.simps o_apply id_apply
      StepTowards_late_1 StepTowards_late_2 StepTowards_late_3)

lemma late_count: "nat \<lceil>\<bar>13421773 / 2 ^ 26 - 1\<bar> / (13421773 / 2 ^ 25 :: real)\<rceil> = 2"
  by simp

subsection \<open>The claim on the fader\<close>

lemma is_binary32_1: "is_binary32 1"
  using is_binary32_grid [of 1 0] max_binary32_large by simp

lemma is_binary32_2: "is_binary32 2"
  using is_binary32_grid [of 2 0] max_binary32_large by simp

lemma is_binary32_five_halves: "is_binary32 (5 / 2)"
  using is_binary32_grid [of 5 "- 1"] max_binary32_large by (simp add: powr_minus_divide)

lemma is_binary32_250: "is_binary32 250"
  using is_binary32_grid [of 250 0] max_binary32_large by simp

lemma is_binary32_255: "is_binary32 255"
  using is_binary32_grid [of 255 0] max_binary32_large by simp

text \<open>
  Claim C5, in binary32. For finite binary32 values \<open>current\<close>, \<open>target\<close> and a strictly
  positive \<open>step\<close>, one fader step (\<open>StepTowards\<close>) returns the target when the rounded
  difference is at most the step in magnitude, which is the case whenever the exact
  distance is at most the step; otherwise it returns the rounded sum \<open>current + step\<close> or
  the rounded difference \<open>current - step\<close>, toward the target. The result is a finite
  binary32 value between the current value and the target: the target is never
  overshot. Under repeated application no iterate leaves the interval between start and
  target, and once the target is reached it is kept. When start, target and step are
  multiples \<open>a\<close>, \<open>b\<close>, \<open>k\<close> of one power of two \<open>2^e\<close>, \<open>e \<ge> -149\<close>, with \<open>|a|\<close>, \<open>|b|\<close>,
  \<open>|b - a|\<close> and \<open>k\<close> at most \<open>2^24\<close> (integer brightness and colour values with an integer
  step, for instance), no sum is rounded: the step is the exact step rule and the target
  is reached at call number \<open>\<lceil>|target - start| / step\<rceil>\<close>, not earlier. Inside \<open>Fade\<close>,
  which clamps after the step, the brightness follows the same iteration when its live
  and staged values lie in \<open>[0, 255]\<close>.
\<close>

theorem Fader_step_rule_and_convergence:
  assumes "0 < step" "is_binary32 current" "is_binary32 target" "is_binary32 step"
  shows "StepTowards current target step =
           (if \<bar>round_binary32 (target - current)\<bar> \<le> step then target
            else if current < target then round_binary32 (current + step)
            else round_binary32 (current - step))
       \<and> (\<bar>target - current\<bar> \<le> step \<longrightarrow> StepTowards current target step = target)
       \<and> min current target \<le> StepTowards current target step
       \<and> StepTowards current target step \<le> max current target
       \<and> is_binary32 (StepTowards current target step)
       \<and> min current target \<le> ((\<lambda>x. StepTowards x target step) ^^ n) current
       \<and> ((\<lambda>x. StepTowards x target step) ^^ n) current \<le> max current target
       \<and> (((\<lambda>x. StepTowards x target step) ^^ n) current = target \<longrightarrow>
            ((\<lambda>x. StepTowards x target step) ^^ (n + m)) current = target)
       \<and> (- 149 \<le> e \<and> current = of_int a * 2 powr of_int e
            \<and> target = of_int b * 2 powr of_int e \<and> step = of_int k * 2 powr of_int e
            \<and> \<bar>a\<bar> \<le> 2 ^ 24 \<and> \<bar>b\<bar> \<le> 2 ^ 24 \<and> \<bar>b - a\<bar> \<le> 2 ^ 24 \<and> k \<le> 2 ^ 24 \<longrightarrow>
            StepTowards current target step = StepTowards_exact current target step
            \<and> ((((\<lambda>x. StepTowards x target step) ^^ n) current = target)
                 = (nat \<lceil>\<bar>target - current\<bar> / step\<rceil> \<le> n)))
       \<and> (0 \<le> current \<and> current \<le> 255 \<and> 0 \<le> target \<and> target \<le> 255
            \<and> brightness v = current \<and> brightnessStaging c = target
            \<and> brightnessIncrement c = step \<longrightarrow>
            brightness (((\<lambda>u. snd (Fade c u)) ^^ n) v)
              = ((\<lambda>x. StepTowards x target step) ^^ n) current)"
proof -
  have fx: "round_binary32 current = current" "round_binary32 target = target"
    "round_binary32 step = step"
    using assms by (simp_all add: is_binary32_def)
  have rule: "StepTowards current target step =
           (if \<bar>round_binary32 (target - current)\<bar> \<le> step then target
            else if current < target then round_binary32 (current + step)
            else round_binary32 (current - step))"
    using assms(1) by (rule StepTowards_rounded_rule)
  have snap: "\<bar>target - current\<bar> \<le> step \<longrightarrow> StepTowards current target step = target"
    using assms(1) fx(3) by (auto intro: StepTowards_snap)
  have one: "min current target \<le> StepTowards current target step"
    "StepTowards current target step \<le> max current target"
    using StepTowards_between [OF assms(1) fx] by simp_all
  have fin: "is_binary32 (StepTowards current target step)"
    using assms by (rule StepTowards_is_binary32)
  have many: "min current target \<le> ((\<lambda>x. StepTowards x target step) ^^ n) current"
    "((\<lambda>x. StepTowards x target step) ^^ n) current \<le> max current target"
    using StepTowards_funpow_between [OF assms, of n] by simp_all
  have stay: "((\<lambda>x. StepTowards x target step) ^^ n) current = target \<longrightarrow>
            ((\<lambda>x. StepTowards x target step) ^^ (n + m)) current = target"
    by (auto intro: StepTowards_funpow_stays)
  have grid: "- 149 \<le> e \<and> current = of_int a * 2 powr of_int e
            \<and> target = of_int b * 2 powr of_int e \<and> step = of_int k * 2 powr of_int e
            \<and> \<bar>a\<bar> \<le> 2 ^ 24 \<and> \<bar>b\<bar> \<le> 2 ^ 24 \<and> \<bar>b - a\<bar> \<le> 2 ^ 24 \<and> k \<le> 2 ^ 24 \<longrightarrow>
            StepTowards current target step = StepTowards_exact current target step
            \<and> ((((\<lambda>x. StepTowards x target step) ^^ n) current = target)
                 = (nat \<lceil>\<bar>target - current\<bar> / step\<rceil> \<le> n))"
  proof (intro impI, elim conjE)
    assume h: "- 149 \<le> e" "current = of_int a * 2 powr of_int e"
      "target = of_int b * 2 powr of_int e" "step = of_int k * 2 powr of_int e"
      "\<bar>a\<bar> \<le> 2 ^ 24" "\<bar>b\<bar> \<le> 2 ^ 24" "\<bar>b - a\<bar> \<le> 2 ^ 24" "k \<le> 2 ^ 24"
    have "0 < of_int k * (2::real) powr of_int e"
      using assms(1) h(4) by simp
    then have k: "0 < k"
      by (simp add: zero_less_mult_iff)
    have "StepTowards current target step = StepTowards_exact current target step"
      using h(1,5,6,7) k h(8) h(2,3,4) by (rule StepTowards_grid_exact)
    moreover have "(((\<lambda>x. StepTowards x target step) ^^ n) current = target)
                 = (nat \<lceil>\<bar>target - current\<bar> / step\<rceil> \<le> n)"
      using h(1,5,6,7) k h(8) h(2,3,4) by (rule StepTowards_grid_count)
    ultimately show "StepTowards current target step = StepTowards_exact current target step
            \<and> ((((\<lambda>x. StepTowards x target step) ^^ n) current = target)
                 = (nat \<lceil>\<bar>target - current\<bar> / step\<rceil> \<le> n))"
      by (intro conjI)
  qed
  have fade: "0 \<le> current \<and> current \<le> 255 \<and> 0 \<le> target \<and> target \<le> 255
            \<and> brightness v = current \<and> brightnessStaging c = target
            \<and> brightnessIncrement c = step \<longrightarrow>
            brightness (((\<lambda>u. snd (Fade c u)) ^^ n) v)
              = ((\<lambda>x. StepTowards x target step) ^^ n) current"
    using assms Fade_brightness_funpow [of c v n] by auto
  from rule snap one fin many stay grid fade show ?thesis
    by (intro conjI)
qed

text \<open>
  From \<open>0\<close> toward \<open>2.5\<close> in steps of \<open>1\<close> (multiples \<open>0\<close>, \<open>5\<close>, \<open>2\<close> of \<open>2^-1\<close>): the
  first call moves by the step, the target is reached at call 3 and kept at call 4; from
  \<open>2\<close> one call reaches it. The brightness of the start-up strip, \<open>255\<close>, fades to a
  staged brightness of \<open>250\<close> in steps of \<open>1\<close>: the target is reached at call 5 of \<open>Fade\<close>.
\<close>

theorem Fader_step_rule_and_convergence_witness:
  "(0::real) < 1 \<and> is_binary32 0 \<and> is_binary32 2 \<and> is_binary32 (5 / 2) \<and> is_binary32 1
   \<and> is_binary32 255 \<and> is_binary32 250
   \<and> StepTowards 0 (5 / 2) 1 = 1
   \<and> StepTowards 0 (5 / 2) 1 = StepTowards_exact 0 (5 / 2) 1
   \<and> StepTowards 2 (5 / 2) 1 = 5 / 2
   \<and> ((\<lambda>x. StepTowards x (5 / 2) 1) ^^ 2) 0 \<noteq> 5 / 2
   \<and> ((\<lambda>x. StepTowards x (5 / 2) 1) ^^ 3) 0 = 5 / 2
   \<and> ((\<lambda>x. StepTowards x (5 / 2) 1) ^^ 4) 0 = 5 / 2
   \<and> brightness (((\<lambda>u. snd (Fade dimmerConfig u)) ^^ 4) scenarioVars) \<noteq> 250
   \<and> brightness (((\<lambda>u. snd (Fade dimmerConfig u)) ^^ 5) scenarioVars) = 250"
  using Fader_step_rule_and_convergence
      [where step = 1 and current = 0 and target = "5 / 2" and n = 2 and m = 0
         and e = "- 1" and a = 0 and b = 5 and k = 2 and v = scenarioVars and c = dimmerConfig]
    Fader_step_rule_and_convergence
      [where step = 1 and current = 0 and target = "5 / 2" and n = 3 and m = 1
         and e = "- 1" and a = 0 and b = 5 and k = 2 and v = scenarioVars and c = dimmerConfig]
    Fader_step_rule_and_convergence
      [where step = 1 and current = 2 and target = "5 / 2" and n = 1 and m = 0
         and e = "- 1" and a = 4 and b = 5 and k = 2 and v = scenarioVars and c = dimmerConfig]
    Fader_step_rule_and_convergence
      [where step = 1 and current = 255 and target = 250 and n = 4 and m = 0
         and e = 0 and a = 255 and b = 250 and k = 1 and v = scenarioVars and c = dimmerConfig]
    Fader_step_rule_and_convergence
      [where step = 1 and current = 255 and target = 250 and n = 5 and m = 0
         and e = 0 and a = 255 and b = 250 and k = 1 and v = scenarioVars and c = dimmerConfig]
    is_binary32_0 is_binary32_1 is_binary32_2 is_binary32_five_halves is_binary32_250
    is_binary32_255
    is_binary32_fixed [OF is_binary32_1] is_binary32_fixed [OF is_binary32_five_halves]
    dimmerConfig_brightness scenarioVars_live
  by (simp add: powr_minus_divide)

text \<open>
  The claim as the specification words it fails in binary32. The step \<open>8796093 * 2^-43\<close>
  is the binary32 value of \<open>0.000001\<close>, which \<^verbatim>\<open>SET PARAM\<close> accepts. From \<open>100\<close> toward
  \<open>101\<close> the distance exceeds the step, yet the rounded sum is \<open>100\<close> again: the value
  does not move by the step, and it is not at the target after
  \<open>\<lceil>|101 - 100| / step\<rceil>\<close> calls (nor after any number of calls). The step
  \<open>13981013 * 2^-22\<close> is the binary32 value of \<open>10 / 3\<close>; from \<open>0\<close> the target \<open>10\<close> is
  reached at call 3, while \<open>\<lceil>|10 - 0| / step\<rceil>\<close> is 4. The step \<open>13421773 * 2^-25\<close> and
  the target \<open>13421773 * 2^-26\<close> are the binary32 values of \<open>0.4\<close> and \<open>0.2\<close>; from \<open>1\<close> the
  value after call 2 is one unit in the last place above the target, which is reached
  at call 3, while \<open>\<lceil>|target - 1| / step\<rceil>\<close> is 2.
\<close>

theorem Fader_count_differs_in_binary32:
  "(0::real) < 8796093 / 2 ^ 43 \<and> is_binary32 100 \<and> is_binary32 101
   \<and> is_binary32 (8796093 / 2 ^ 43)
   \<and> round_binary32 (1 / 1000000) = 8796093 / 2 ^ 43
   \<and> (8796093 / 2 ^ 43 :: real) < \<bar>101 - 100\<bar>
   \<and> StepTowards 100 101 (8796093 / 2 ^ 43) = 100
   \<and> StepTowards 100 101 (8796093 / 2 ^ 43) \<noteq> 100 + 8796093 / 2 ^ 43
   \<and> ((\<lambda>x. StepTowards x 101 (8796093 / 2 ^ 43))
         ^^ nat \<lceil>\<bar>101 - 100\<bar> / (8796093 / 2 ^ 43 :: real)\<rceil>) 100 \<noteq> 101
   \<and> is_binary32 0 \<and> is_binary32 10 \<and> is_binary32 (13981013 / 2 ^ 22)
   \<and> round_binary32 (10 / 3) = 13981013 / 2 ^ 22
   \<and> ((\<lambda>x. StepTowards x 10 (13981013 / 2 ^ 22)) ^^ 3) 0 = 10
   \<and> nat \<lceil>\<bar>10 - 0\<bar> / (13981013 / 2 ^ 22 :: real)\<rceil> = 4
   \<and> is_binary32 1 \<and> is_binary32 (13421773 / 2 ^ 26) \<and> is_binary32 (13421773 / 2 ^ 25)
   \<and> round_binary32 (2 / 10) = 13421773 / 2 ^ 26
   \<and> round_binary32 (4 / 10) = 13421773 / 2 ^ 25
   \<and> ((\<lambda>x. StepTowards x (13421773 / 2 ^ 26) (13421773 / 2 ^ 25)) ^^ 2) 1
       = 13421774 / 2 ^ 26
   \<and> ((\<lambda>x. StepTowards x (13421773 / 2 ^ 26) (13421773 / 2 ^ 25)) ^^ 3) 1
       = 13421773 / 2 ^ 26
   \<and> nat \<lceil>\<bar>13421773 / 2 ^ 26 - 1\<bar> / (13421773 / 2 ^ 25 :: real)\<rceil> = 2"
proof -
  have a: "(0::real) < 8796093 / 2 ^ 43" "(8796093 / 2 ^ 43 :: real) < \<bar>101 - 100\<bar>"
    by simp_all
  have b: "StepTowards 100 101 (8796093 / 2 ^ 43) \<noteq> 100 + 8796093 / 2 ^ 43"
    by (simp only: StepTowards_micro; simp)
  have c: "((\<lambda>x. StepTowards x 101 (8796093 / 2 ^ 43))
         ^^ nat \<lceil>\<bar>101 - 100\<bar> / (8796093 / 2 ^ 43 :: real)\<rceil>) 100 \<noteq> 101"
    by (simp only: StepTowards_micro_funpow; simp)
  from a is_binary32_100 is_binary32_101 is_binary32_micro micro_step StepTowards_micro b c
    is_binary32_0 is_binary32_10 is_binary32_third third_step StepTowards_third_funpow
    third_count is_binary32_1 is_binary32_fifth is_binary32_two_fifths fifth_target
    two_fifths_step StepTowards_late_funpow_2 StepTowards_late_funpow_3 late_count
  show ?thesis by (intro conjI)
qed

text \<open>
  Claim C10. For every current value and target, a step argument that is zero or negative
  makes \<open>StepTowards\<close> return the target at once.
\<close>

theorem StepTowards_nonpositive_step:
  "step \<le> 0 \<Longrightarrow> StepTowards current target step = target"
  by (simp add: StepTowards_def)

theorem StepTowards_nonpositive_step_witness:
  "(0::real) \<le> 0 \<and> (-1::real) \<le> 0
   \<and> StepTowards 10 200 0 = 200 \<and> StepTowards 10 200 (-1) = 200"
  using StepTowards_nonpositive_step [of 0 10 200]
    StepTowards_nonpositive_step [of "-1" 10 200]
  by simp

section \<open>Properties of the EDGE_CENTER sanitizer\<close>

subsection \<open>Binary32 operations on values between \<open>0\<close> and \<open>1\<close>\<close>

lemma round_binary32_1: "round_binary32 1 = 1"
  using round_binary32_of_int [of 1] by simp

lemma round_binary32_unit:
  assumes "0 \<le> x" "x \<le> 1"
  shows "0 \<le> round_binary32 x \<and> round_binary32 x \<le> 1"
  using round_binary32_mono [OF assms(1)] round_binary32_mono [OF assms(2)]
  by (simp add: round_binary32_0 round_binary32_1)

lemma round_binary32_above_1: "round_binary32 (1 + 1 / 2 ^ 25) = 1"
  using round_binary32_near [of 0 "1 + 1 / 2 ^ 25" 8388608] by (simp add: powr_minus_divide)

lemma round_binary32_le_1: "x \<le> 1 + 1 / 2 ^ 25 \<Longrightarrow> round_binary32 x \<le> 1"
  using round_binary32_mono [of x "1 + 1 / 2 ^ 25"] by (simp only: round_binary32_above_1)

lemma round_binary32_double:
  assumes "round_binary32 x = x"
  shows "round_binary32 (2 * x) = 2 * x"
proof -
  have positive: "round_binary32 (2 * y) = 2 * y" if y: "0 < y" "round_binary32 y = y" for y
  proof -
    have "round_magnitude y = y"
      using y by (simp add: round_binary32_def)
    then obtain n e where ne: "y = of_int n * 2 powr of_int e" "0 \<le> n" "n \<le> 2 ^ 24"
      "- 149 \<le> e"
      using round_magnitude_shape [OF y(1)] by auto
    have "(2::real) powr of_int (e + 1) = 2 * 2 powr of_int e"
      by (simp add: powr_add)
    then have "2 * y = of_int n * 2 powr of_int (e + 1)"
      using ne(1) by simp
    moreover have "round_binary32 (of_int n * 2 powr of_int (e + 1))
        = of_int n * 2 powr of_int (e + 1)"
      using ne(2,3,4) by (intro round_binary32_grid) simp_all
    ultimately show ?thesis by simp
  qed
  consider (neg) "x < 0" | (zero) "x = 0" | (pos) "0 < x" by linarith
  then show ?thesis
  proof cases
    case neg
    have "round_binary32 (- x) = - x"
      using assms by (simp add: round_binary32_minus)
    with neg have "round_binary32 (2 * (- x)) = 2 * (- x)"
      by (intro positive) simp_all
    then show ?thesis
      using round_binary32_minus [of "2 * x"] by simp
  next
    case zero
    then show ?thesis by (simp add: round_binary32_0)
  next
    case pos
    with assms show ?thesis by (intro positive)
  qed
qed

lemma round_binary32_half: "round_binary32 (1 / 2) = 1 / 2"
  using round_binary32_grid [of 1 "- 1"] by (simp add: powr_minus_divide)

lemma float32_of_real_finite:
  assumes "\<bar>round_binary32 x\<bar> \<le> max_binary32"
  shows "float32_of_real x = Finite (round_binary32 x)"
proof -
  have "\<not> round_binary32 x > max_binary32" "\<not> round_binary32 x < - max_binary32"
    using assms by linarith+
  then show ?thesis by (simp add: float32_of_real_def Let_def)
qed

lemma float32_sub_finite: "float32_sub (Finite x) (Finite y) = float32_of_real (x - y)"
  by (simp add: float32_sub_def)

lemma float32_of_real_unit:
  assumes "0 \<le> x" "x \<le> 1 + 1 / 2 ^ 25"
  shows "float32_of_real x = Finite (round_binary32 x)"
proof -
  have "0 \<le> round_binary32 x" using assms(1) by (rule round_binary32_sign)
  moreover have "round_binary32 x \<le> 1" using assms(2) by (rule round_binary32_le_1)
  ultimately have "\<bar>round_binary32 x\<bar> \<le> max_binary32"
    using max_binary32_large by simp
  then show ?thesis by (rule float32_of_real_finite)
qed

lemma float32_of_real_0: "float32_of_real 0 = Finite 0"
  using float32_of_real_unit [of 0] by (simp add: round_binary32_0)

lemma float32_of_real_1: "float32_of_real 1 = Finite 1"
  using float32_of_real_unit [of 1] by (simp add: round_binary32_1)

lemma float32_of_real_literal_0_05: "float32_of_real (5 / 100) = Finite (13421773 / 2 ^ 28)"
proof -
  have "round_binary32 (5 / 100) = 13421773 / 2 ^ 28"
    using round_binary32_near [of "- 5" "5 / 100" 13421773] by (simp add: powr_minus_divide)
  then show ?thesis
    using float32_of_real_unit [of "5 / 100"] by simp
qed

subsection \<open>\<open>constrain\<close> on \<open>float32\<close>\<close>

lemma float32_lt_NaN: "float32_lt a NaN = False"
  by (cases a) simp_all

lemma constrain_float32_NaN: "constrain_float32 NaN lo hi = NaN"
  by (simp add: constrain_float32_def float32_gt_def float32_lt_NaN)

lemma constrain_float32_range:
  assumes "a \<noteq> NaN" "lo \<le> hi"
  shows "\<exists>x. constrain_float32 a (Finite lo) (Finite hi) = Finite x \<and> lo \<le> x \<and> x \<le> hi"
  using assms by (cases a) (auto simp add: constrain_float32_def float32_gt_def)

lemma constrain_float32_inert:
  "lo \<le> x \<Longrightarrow> x \<le> hi \<Longrightarrow> constrain_float32 (Finite x) (Finite lo) (Finite hi) = Finite x"
  by (simp add: constrain_float32_def float32_gt_def)

subsection \<open>The sanitizer\<close>

lemma Sanitize_edge:
  "gradientMiddleEdgeSize (SanitizeEdgeCenterConfig cfg)
     = constrain_float32 (gradientMiddleEdgeSize cfg) (Finite 0) (Finite (1 / 2))"
  by (simp add: SanitizeEdgeCenterConfig_def Let_def)

lemma Sanitize_center:
  "gradientMiddleCenterSize (SanitizeEdgeCenterConfig cfg)
     = (let edge = constrain_float32 (gradientMiddleEdgeSize cfg) (Finite 0) (Finite (1 / 2));
            center = constrain_float32 (gradientMiddleCenterSize cfg) (Finite 0) (Finite 1);
            maxCenter = float32_sub (Finite 1) (float32_mul (Finite 2) edge);
            center1 = (if float32_gt center maxCenter
                       then (if float32_gt maxCenter (Finite 0) then maxCenter else Finite 0)
                       else center)
        in if float32_lt center1 (Finite 0) then Finite 0 else center1)"
  by (simp add: SanitizeEdgeCenterConfig_def Let_def)

text \<open>The rounded bound \<^verbatim>\<open>1.0f - 2.0f * edge\<close> for an edge size in \<open>[0, 0.5]\<close>.\<close>

lemma maxCenter_finite:
  assumes "0 \<le> e" "e \<le> 1 / 2"
  shows "float32_mul (Finite 2) (Finite e) = Finite (round_binary32 (2 * e))"
    and "float32_sub (Finite 1) (float32_mul (Finite 2) (Finite e))
       = Finite (round_binary32 (1 - round_binary32 (2 * e)))"
    and "0 \<le> round_binary32 (2 * e)" and "round_binary32 (2 * e) \<le> 1"
    and "0 \<le> round_binary32 (1 - round_binary32 (2 * e))"
    and "round_binary32 (1 - round_binary32 (2 * e)) \<le> 1"
proof -
  have d: "0 \<le> round_binary32 (2 * e) \<and> round_binary32 (2 * e) \<le> 1"
    using assms by (intro round_binary32_unit) simp_all
  then show "0 \<le> round_binary32 (2 * e)" "round_binary32 (2 * e) \<le> 1" by simp_all
  have m: "0 \<le> round_binary32 (1 - round_binary32 (2 * e))
      \<and> round_binary32 (1 - round_binary32 (2 * e)) \<le> 1"
    using d by (intro round_binary32_unit) simp_all
  then show "0 \<le> round_binary32 (1 - round_binary32 (2 * e))"
    "round_binary32 (1 - round_binary32 (2 * e)) \<le> 1" by simp_all
  show mul: "float32_mul (Finite 2) (Finite e) = Finite (round_binary32 (2 * e))"
    using assms by (simp add: float32_of_real_unit)
  have "float32_of_real (1 - round_binary32 (2 * e))
      = Finite (round_binary32 (1 - round_binary32 (2 * e)))"
    using d by (intro float32_of_real_unit) simp_all
  then show "float32_sub (Finite 1) (float32_mul (Finite 2) (Finite e))
       = Finite (round_binary32 (1 - round_binary32 (2 * e)))"
    by (simp only: mul float32_sub_finite)
qed

text \<open>
  On parameters that are not NaN the sanitizer leaves two finite values: the edge size in
  \<open>[0, 0.5]\<close> and the centre size between \<open>0\<close> and the rounded bound.
\<close>

lemma Sanitize_finite:
  assumes "gradientMiddleEdgeSize cfg \<noteq> NaN" "gradientMiddleCenterSize cfg \<noteq> NaN"
  shows "\<exists>e c. gradientMiddleEdgeSize (SanitizeEdgeCenterConfig cfg) = Finite e
           \<and> gradientMiddleCenterSize (SanitizeEdgeCenterConfig cfg) = Finite c
           \<and> 0 \<le> e \<and> e \<le> 1 / 2 \<and> 0 \<le> c \<and> c \<le> 1
           \<and> c \<le> round_binary32 (1 - round_binary32 (2 * e))"
proof -
  obtain e where e: "constrain_float32 (gradientMiddleEdgeSize cfg) (Finite 0) (Finite (1 / 2))
      = Finite e" "0 \<le> e" "e \<le> 1 / 2"
    using constrain_float32_range [OF assms(1), of 0 "1 / 2"] by auto
  obtain c where c: "constrain_float32 (gradientMiddleCenterSize cfg) (Finite 0) (Finite 1)
      = Finite c" "0 \<le> c" "c \<le> 1"
    using constrain_float32_range [OF assms(2), of 0 1] by auto
  define m where "m = round_binary32 (1 - round_binary32 (2 * e))"
  have mc: "float32_sub (Finite 1) (float32_mul (Finite 2) (Finite e)) = Finite m"
    and m: "0 \<le> m" "m \<le> 1"
    using maxCenter_finite [OF e(2,3)] by (simp_all add: m_def)
  have "gradientMiddleCenterSize (SanitizeEdgeCenterConfig cfg)
      = (if float32_lt
             (if float32_gt (Finite c) (Finite m)
              then (if float32_gt (Finite m) (Finite 0) then Finite m else Finite 0)
              else Finite c) (Finite 0)
         then Finite 0
         else (if float32_gt (Finite c) (Finite m)
               then (if float32_gt (Finite m) (Finite 0) then Finite m else Finite 0)
               else Finite c))"
    by (simp only: Sanitize_center e(1) c(1) mc Let_def)
  also have "\<dots> = Finite (if m < c then m else c)"
    using m c(2) by (auto simp add: float32_gt_def)
  finally have "gradientMiddleCenterSize (SanitizeEdgeCenterConfig cfg)
      = Finite (if m < c then m else c)" .
  moreover have "gradientMiddleEdgeSize (SanitizeEdgeCenterConfig cfg) = Finite e"
    by (simp add: Sanitize_edge e(1))
  moreover have "0 \<le> (if m < c then m else c)" "(if m < c then m else c) \<le> 1"
    "(if m < c then m else c) \<le> m"
    using m c by simp_all
  ultimately show ?thesis
    using e(2,3) unfolding m_def by blast
qed

text \<open>Two such values satisfy the invariant as the code evaluates it.\<close>

lemma edgeCenterInvariant_finite:
  assumes "gradientMiddleEdgeSize cfg = Finite e" "gradientMiddleCenterSize cfg = Finite c"
    and "0 \<le> e" "e \<le> 1 / 2" "0 \<le> c" "c \<le> 1"
    and "c \<le> round_binary32 (1 - round_binary32 (2 * e))"
  shows "edgeCenterInvariant cfg"
proof -
  define d where "d = round_binary32 (2 * e)"
  have d: "0 \<le> d" "d \<le> 1"
    using maxCenter_finite(3,4) [OF assms(3,4)] by (simp_all add: d_def)
  have "\<bar>round_binary32 (1 - d) - (1 - d)\<bar> \<le> 1 / 2 ^ 25"
    using d by (intro round_binary32_error_unit) simp_all
  then have "round_binary32 (1 - d) \<le> 1 - d + 1 / 2 ^ 25" by linarith
  then have sum: "d + c \<le> 1 + 1 / 2 ^ 25"
    using assms(7) unfolding d_def by linarith
  have "0 \<le> d + c" using d assms(5) by simp
  then have "float32_of_real (d + c) = Finite (round_binary32 (d + c))"
    using sum by (rule float32_of_real_unit)
  moreover have "round_binary32 (d + c) \<le> 1"
    using sum by (rule round_binary32_le_1)
  moreover have "float32_mul (Finite 2) (Finite e) = Finite d"
    using maxCenter_finite(1) [OF assms(3,4)] by (simp add: d_def)
  ultimately show ?thesis
    using assms(1-6) by (simp add: edgeCenterInvariant_def)
qed

lemma Sanitize_invariant:
  assumes "gradientMiddleEdgeSize cfg \<noteq> NaN" "gradientMiddleCenterSize cfg \<noteq> NaN"
  shows "edgeCenterInvariant (SanitizeEdgeCenterConfig cfg)"
  using Sanitize_finite [OF assms] by (auto intro: edgeCenterInvariant_finite)

text \<open>
  In exact arithmetic the sum can exceed \<open>1\<close>, by the rounding error of the bound
  \<^verbatim>\<open>1.0f - 2.0f * edge\<close>, which is at most \<open>2^-25\<close>.
\<close>

lemma Sanitize_exact_sum:
  assumes "gradientMiddleEdgeSize cfg = Finite e0" "round_binary32 e0 = e0"
    "gradientMiddleCenterSize cfg \<noteq> NaN"
  shows "\<exists>e c. gradientMiddleEdgeSize (SanitizeEdgeCenterConfig cfg) = Finite e
           \<and> gradientMiddleCenterSize (SanitizeEdgeCenterConfig cfg) = Finite c
           \<and> 2 * e + c \<le> 1 + 1 / 2 ^ 25"
proof -
  have "gradientMiddleEdgeSize cfg \<noteq> NaN" using assms(1) by simp
  then obtain e c where ec: "gradientMiddleEdgeSize (SanitizeEdgeCenterConfig cfg) = Finite e"
    "gradientMiddleCenterSize (SanitizeEdgeCenterConfig cfg) = Finite c"
    "0 \<le> e" "e \<le> 1 / 2" "c \<le> round_binary32 (1 - round_binary32 (2 * e))"
    using Sanitize_finite [OF _ assms(3)] by blast
  have ce: "Finite e = constrain_float32 (Finite e0) (Finite 0) (Finite (1 / 2))"
    using ec(1) by (simp add: Sanitize_edge assms(1))
  consider (low) "e0 < 0" | (high) "1 / 2 < e0" | (mid) "0 \<le> e0" "e0 \<le> 1 / 2"
    by linarith
  then have "round_binary32 e = e"
  proof cases
    case low
    with ce have "e = 0" by (simp add: constrain_float32_def)
    then show ?thesis by (simp only: round_binary32_0)
  next
    case high
    with ce have "e = 1 / 2" by (simp add: constrain_float32_def float32_gt_def)
    then show ?thesis by (simp only: round_binary32_half)
  next
    case mid
    with ce have "e = e0" by (simp add: constrain_float32_inert)
    then show ?thesis by (simp only: assms(2))
  qed
  then have d: "round_binary32 (2 * e) = 2 * e"
    by (rule round_binary32_double)
  have "\<bar>round_binary32 (1 - 2 * e) - (1 - 2 * e)\<bar> \<le> 1 / 2 ^ 25"
    using ec(3,4) by (intro round_binary32_error_unit) simp_all
  then have "2 * e + c \<le> 1 + 1 / 2 ^ 25"
    using ec(5) unfolding d by linarith
  with ec(1,2) show ?thesis by blast
qed

text \<open>
  The edge size \<open>13421773 * 2^-27\<close> is the binary32 value of \<open>0.1\<close>. With a centre size of
  \<open>1\<close> the sanitizer leaves the centre size \<open>13421773 * 2^-24\<close>; the invariant holds as
  the code evaluates it, and the exact sum is \<open>1 + 2^-26\<close>.
\<close>

lemma Sanitize_exact_sum_above_1:
  "round_binary32 (1 / 10) = 13421773 / 2 ^ 27
   \<and> gradientMiddleEdgeSize
       (SanitizeEdgeCenterConfig
          (cfg\<lparr>gradientMiddleEdgeSize := Finite (13421773 / 2 ^ 27),
               gradientMiddleCenterSize := Finite 1\<rparr>)) = Finite (13421773 / 2 ^ 27)
   \<and> gradientMiddleCenterSize
       (SanitizeEdgeCenterConfig
          (cfg\<lparr>gradientMiddleEdgeSize := Finite (13421773 / 2 ^ 27),
               gradientMiddleCenterSize := Finite 1\<rparr>)) = Finite (13421773 / 2 ^ 24)
   \<and> edgeCenterInvariant
       (SanitizeEdgeCenterConfig
          (cfg\<lparr>gradientMiddleEdgeSize := Finite (13421773 / 2 ^ 27),
               gradientMiddleCenterSize := Finite 1\<rparr>))
   \<and> 2 * (13421773 / 2 ^ 27) + 13421773 / 2 ^ 24 = (1 + 1 / 2 ^ 26 :: real)"
proof -
  let ?cfg = "cfg\<lparr>gradientMiddleEdgeSize := Finite (13421773 / 2 ^ 27),
               gradientMiddleCenterSize := Finite 1\<rparr>"
  have lit: "round_binary32 (1 / 10) = 13421773 / 2 ^ 27"
    using round_binary32_near [of "- 4" "1 / 10" 13421773] by (simp add: powr_minus_divide)
  have dbl: "round_binary32 (2 * (13421773 / 2 ^ 27)) = 13421773 / 2 ^ 26"
    using round_binary32_grid [of 13421773 "- 26"] by (simp add: powr_minus_divide)
  have bound: "round_binary32 (1 - 13421773 / 2 ^ 26) = 13421773 / 2 ^ 24"
    using round_binary32_near [of "- 1" "1 - 13421773 / 2 ^ 26" 13421773]
    by (simp add: powr_minus_divide)
  have mc: "float32_sub (Finite 1) (float32_mul (Finite 2) (Finite (13421773 / 2 ^ 27)))
      = Finite (13421773 / 2 ^ 24)"
    using maxCenter_finite(2) [of "13421773 / 2 ^ 27"] by (simp only: dbl bound) simp
  have e: "gradientMiddleEdgeSize (SanitizeEdgeCenterConfig ?cfg) = Finite (13421773 / 2 ^ 27)"
    by (simp add: Sanitize_edge constrain_float32_inert)
  have c: "gradientMiddleCenterSize (SanitizeEdgeCenterConfig ?cfg)
      = Finite (13421773 / 2 ^ 24)"
    using mc by (simp add: Sanitize_center Let_def constrain_float32_inert float32_gt_def)
  have i: "edgeCenterInvariant (SanitizeEdgeCenterConfig ?cfg)"
    by (intro Sanitize_invariant) simp_all
  have s: "2 * (13421773 / 2 ^ 27) + 13421773 / 2 ^ 24 = (1 + 1 / 2 ^ 26 :: real)"
    by simp
  from lit e c i s show ?thesis by (intro conjI)
qed

subsection \<open>The console branches\<close>

lemma MarkChangeInConfig_gradient:
  "gradientMiddleEdgeSize (MarkChangeInConfig now cfg) = gradientMiddleEdgeSize cfg
   \<and> gradientMiddleCenterSize (MarkChangeInConfig now cfg) = gradientMiddleCenterSize cfg"
  by (simp add: MarkChangeInConfig_def)

lemma edgeCenterInvariant_MarkChangeInConfig:
  "edgeCenterInvariant (MarkChangeInConfig now cfg) = edgeCenterInvariant cfg"
  by (simp add: edgeCenterInvariant_def MarkChangeInConfig_gradient)

lemma HandleSET_GRADIENT_EDGE_fields:
  "gradientMiddleEdgeSize (HandleSET_GRADIENT_EDGE now val cfg)
     = gradientMiddleEdgeSize
         (SanitizeEdgeCenterConfig
            (cfg\<lparr>gradientMiddleEdgeSize := constrain_float32 val (Finite 0) (Finite (1 / 2))\<rparr>))
   \<and> gradientMiddleCenterSize (HandleSET_GRADIENT_EDGE now val cfg)
     = gradientMiddleCenterSize
         (SanitizeEdgeCenterConfig
            (cfg\<lparr>gradientMiddleEdgeSize := constrain_float32 val (Finite 0) (Finite (1 / 2))\<rparr>))"
  by (simp add: HandleSET_GRADIENT_EDGE_def Let_def MarkChangeInConfig_gradient)

lemma HandleSET_GRADIENT_CENTER_fields:
  "gradientMiddleEdgeSize (HandleSET_GRADIENT_CENTER now val cfg)
     = gradientMiddleEdgeSize
         (SanitizeEdgeCenterConfig
            (cfg\<lparr>gradientMiddleCenterSize := constrain_float32 val (Finite 0) (Finite 1)\<rparr>))
   \<and> gradientMiddleCenterSize (HandleSET_GRADIENT_CENTER now val cfg)
     = gradientMiddleCenterSize
         (SanitizeEdgeCenterConfig
            (cfg\<lparr>gradientMiddleCenterSize := constrain_float32 val (Finite 0) (Finite 1)\<rparr>))"
  by (simp add: HandleSET_GRADIENT_CENTER_def Let_def MarkChangeInConfig_gradient)

lemma HandleSET_GRADIENT_EDGE_invariant:
  assumes "val \<noteq> NaN" "gradientMiddleCenterSize cfg \<noteq> NaN"
  shows "edgeCenterInvariant (HandleSET_GRADIENT_EDGE now val cfg)"
proof -
  let ?cfg = "cfg\<lparr>gradientMiddleEdgeSize := constrain_float32 val (Finite 0) (Finite (1 / 2))\<rparr>"
  have "gradientMiddleEdgeSize ?cfg \<noteq> NaN"
    using constrain_float32_range [OF assms(1), of 0 "1 / 2"] by auto
  moreover have "gradientMiddleCenterSize ?cfg \<noteq> NaN"
    using assms(2) by simp
  ultimately have "edgeCenterInvariant (SanitizeEdgeCenterConfig ?cfg)"
    by (rule Sanitize_invariant)
  then show ?thesis
    by (simp add: HandleSET_GRADIENT_EDGE_def Let_def edgeCenterInvariant_MarkChangeInConfig)
qed

lemma HandleSET_GRADIENT_CENTER_invariant:
  assumes "val \<noteq> NaN" "gradientMiddleEdgeSize cfg \<noteq> NaN"
  shows "edgeCenterInvariant (HandleSET_GRADIENT_CENTER now val cfg)"
proof -
  let ?cfg = "cfg\<lparr>gradientMiddleCenterSize := constrain_float32 val (Finite 0) (Finite 1)\<rparr>"
  have "gradientMiddleEdgeSize ?cfg \<noteq> NaN"
    using assms(2) by simp
  moreover have "gradientMiddleCenterSize ?cfg \<noteq> NaN"
    using constrain_float32_range [OF assms(1), of 0 1] by auto
  ultimately have "edgeCenterInvariant (SanitizeEdgeCenterConfig ?cfg)"
    by (rule Sanitize_invariant)
  then show ?thesis
    by (simp add: HandleSET_GRADIENT_CENTER_def Let_def edgeCenterInvariant_MarkChangeInConfig)
qed

lemma Sanitize_adversarial:
  "gradientMiddleCenterSize
     (SanitizeEdgeCenterConfig
        (cfg\<lparr>gradientMiddleEdgeSize := Finite (1 / 2), gradientMiddleCenterSize := Finite 1\<rparr>))
     = Finite 0
   \<and> gradientMiddleEdgeSize
     (SanitizeEdgeCenterConfig
        (cfg\<lparr>gradientMiddleEdgeSize := Finite (1 / 2), gradientMiddleCenterSize := Finite 1\<rparr>))
     = Finite (1 / 2)"
  by (simp add: Sanitize_edge Sanitize_center Let_def constrain_float32_inert float32_sub_def
      float32_gt_def float32_of_real_0 float32_of_real_1)

text \<open>A NaN goes through the sanitizer: every comparison that reads it is false.\<close>

lemma Sanitize_center_NaN:
  "gradientMiddleCenterSize
     (SanitizeEdgeCenterConfig (cfg\<lparr>gradientMiddleCenterSize := NaN\<rparr>)) = NaN"
  by (simp add: Sanitize_center Let_def constrain_float32_NaN float32_gt_def float32_lt_NaN)

lemma Sanitize_edge_NaN:
  "gradientMiddleEdgeSize
     (SanitizeEdgeCenterConfig (cfg\<lparr>gradientMiddleEdgeSize := NaN\<rparr>)) = NaN"
  by (simp add: Sanitize_edge constrain_float32_NaN)

lemma edgeCenterInvariant_NaN:
  "gradientMiddleEdgeSize cfg = NaN \<or> gradientMiddleCenterSize cfg = NaN
     \<Longrightarrow> \<not> edgeCenterInvariant cfg"
  by (auto simp add: edgeCenterInvariant_def)

text \<open>The start-up parameters and three console commands, evaluated.\<close>

lemma staticConfig_gradient:
  "gradientMiddleEdgeSize (staticConfig n) = Finite 0
   \<and> gradientMiddleCenterSize (staticConfig n) = Finite (13421773 / 2 ^ 28)"
  using float32_of_real_literal_0_05 by (simp add: staticConfig_def)

lemma console_edge_half:
  "gradientMiddleEdgeSize (HandleSET_GRADIENT_EDGE 7 (Finite (1 / 2)) (staticConfig 3))
     = Finite (1 / 2)
   \<and> gradientMiddleCenterSize (HandleSET_GRADIENT_EDGE 7 (Finite (1 / 2)) (staticConfig 3))
     = Finite 0"
  using staticConfig_gradient [of 3]
  by (simp add: HandleSET_GRADIENT_EDGE_fields Sanitize_edge Sanitize_center Let_def
      constrain_float32_def float32_gt_def float32_sub_def float32_of_real_0 float32_of_real_1)

lemma console_center_one:
  "gradientMiddleCenterSize
     (HandleSET_GRADIENT_CENTER 9 (Finite 1)
        (HandleSET_GRADIENT_EDGE 7 (Finite (1 / 2)) (staticConfig 3))) = Finite 0"
  using console_edge_half
  by (simp add: HandleSET_GRADIENT_CENTER_fields Sanitize_edge Sanitize_center Let_def
      constrain_float32_def float32_gt_def float32_sub_def float32_of_real_0 float32_of_real_1)

lemma console_center_infinite:
  "gradientMiddleCenterSize (HandleSET_GRADIENT_CENTER 9 PlusInfinity (staticConfig 3))
     = Finite 1"
  using staticConfig_gradient [of 3]
  by (simp add: HandleSET_GRADIENT_CENTER_fields Sanitize_edge Sanitize_center Let_def
      constrain_float32_def float32_gt_def float32_sub_def float32_of_real_0 float32_of_real_1)

text \<open>
  Claim C7, for parameters that are not NaN. When neither EDGE_CENTER parameter of the
  configuration is NaN (each is finite or infinite), \<open>SanitizeEdgeCenterConfig\<close> leaves a
  configuration that satisfies the invariant as the code evaluates it, in binary32:
  \<open>2 * edgeSize + centerSize \<le> 1\<close>, \<open>edgeSize\<close> in \<open>[0, 0.5]\<close> and \<open>centerSize\<close> in
  \<open>[0, 1]\<close>. The same holds after the console branches \<^verbatim>\<open>SET GRADIENT EDGE\<close> and
  \<^verbatim>\<open>SET GRADIENT CENTER\<close> for every parsed value that is not NaN, the parameter that is
  not set being not NaN. For \<open>edgeSize = 0.5\<close> and \<open>centerSize = 1.0\<close> the sanitizer keeps
  the edge size and sets the centre size to \<open>0\<close>.
\<close>

theorem EDGE_CENTER_invariant_after_sanitizer:
  "(gradientMiddleEdgeSize cfg \<noteq> NaN \<and> gradientMiddleCenterSize cfg \<noteq> NaN \<longrightarrow>
      edgeCenterInvariant (SanitizeEdgeCenterConfig cfg))
   \<and> (val \<noteq> NaN \<and> gradientMiddleCenterSize cfg \<noteq> NaN \<longrightarrow>
      edgeCenterInvariant (HandleSET_GRADIENT_EDGE now val cfg))
   \<and> (val \<noteq> NaN \<and> gradientMiddleEdgeSize cfg \<noteq> NaN \<longrightarrow>
      edgeCenterInvariant (HandleSET_GRADIENT_CENTER now val cfg))
   \<and> gradientMiddleCenterSize
       (SanitizeEdgeCenterConfig
          (cfg\<lparr>gradientMiddleEdgeSize := Finite (1 / 2), gradientMiddleCenterSize := Finite 1\<rparr>))
       = Finite 0
   \<and> gradientMiddleEdgeSize
       (SanitizeEdgeCenterConfig
          (cfg\<lparr>gradientMiddleEdgeSize := Finite (1 / 2), gradientMiddleCenterSize := Finite 1\<rparr>))
       = Finite (1 / 2)"
proof -
  have a: "gradientMiddleEdgeSize cfg \<noteq> NaN \<and> gradientMiddleCenterSize cfg \<noteq> NaN \<longrightarrow>
      edgeCenterInvariant (SanitizeEdgeCenterConfig cfg)"
    by (auto intro: Sanitize_invariant)
  have b: "val \<noteq> NaN \<and> gradientMiddleCenterSize cfg \<noteq> NaN \<longrightarrow>
      edgeCenterInvariant (HandleSET_GRADIENT_EDGE now val cfg)"
    by (auto intro: HandleSET_GRADIENT_EDGE_invariant)
  have c: "val \<noteq> NaN \<and> gradientMiddleEdgeSize cfg \<noteq> NaN \<longrightarrow>
      edgeCenterInvariant (HandleSET_GRADIENT_CENTER now val cfg)"
    by (auto intro: HandleSET_GRADIENT_CENTER_invariant)
  from a b c Sanitize_adversarial [of cfg] show ?thesis by blast
qed

text \<open>
  The invariant at work on the start-up configuration, where the edge size is \<open>0\<close> and
  the centre size the binary32 value of \<open>0.05\<close>: the console sets the edge size to \<open>0.5\<close>,
  then asks for a centre size of \<open>1.0\<close>; and the console asks for an infinite centre
  size on the start-up configuration.
\<close>

theorem EDGE_CENTER_invariant_after_sanitizer_witness:
  "gradientMiddleEdgeSize (staticConfig 3) = Finite 0
   \<and> gradientMiddleCenterSize (staticConfig 3) = Finite (13421773 / 2 ^ 28)
   \<and> edgeCenterInvariant (SanitizeEdgeCenterConfig (staticConfig 3))
   \<and> gradientMiddleEdgeSize (HandleSET_GRADIENT_EDGE 7 (Finite (1 / 2)) (staticConfig 3))
       = Finite (1 / 2)
   \<and> gradientMiddleCenterSize (HandleSET_GRADIENT_EDGE 7 (Finite (1 / 2)) (staticConfig 3))
       = Finite 0
   \<and> edgeCenterInvariant (HandleSET_GRADIENT_EDGE 7 (Finite (1 / 2)) (staticConfig 3))
   \<and> gradientMiddleCenterSize
       (HandleSET_GRADIENT_CENTER 9 (Finite 1)
          (HandleSET_GRADIENT_EDGE 7 (Finite (1 / 2)) (staticConfig 3))) = Finite 0
   \<and> edgeCenterInvariant
       (HandleSET_GRADIENT_CENTER 9 (Finite 1)
          (HandleSET_GRADIENT_EDGE 7 (Finite (1 / 2)) (staticConfig 3)))
   \<and> gradientMiddleCenterSize (HandleSET_GRADIENT_CENTER 9 PlusInfinity (staticConfig 3))
       = Finite 1
   \<and> edgeCenterInvariant (HandleSET_GRADIENT_CENTER 9 PlusInfinity (staticConfig 3))"
  using EDGE_CENTER_invariant_after_sanitizer [of "staticConfig 3" "Finite (1 / 2)" 7]
    EDGE_CENTER_invariant_after_sanitizer
      [of "HandleSET_GRADIENT_EDGE 7 (Finite (1 / 2)) (staticConfig 3)" "Finite 1" 9]
    EDGE_CENTER_invariant_after_sanitizer [of "staticConfig 3" PlusInfinity 9]
    staticConfig_gradient [of 3] console_edge_half console_center_one console_center_infinite
  by simp

text \<open>
  The claim as the specification words it, for every pair of input values, fails on NaN,
  which \<^verbatim>\<open>ParseFloatToken\<close> returns for the token \<^verbatim>\<open>nan\<close>. After \<^verbatim>\<open>SET GRADIENT CENTER nan\<close>
  on the start-up configuration the centre size is NaN and the invariant is false; a
  later \<^verbatim>\<open>SET GRADIENT EDGE 0.5\<close> runs the sanitizer again and leaves the NaN in place.
  \<^verbatim>\<open>SET GRADIENT EDGE nan\<close> does the same to the edge size.
\<close>

theorem EDGE_CENTER_invariant_fails_on_NaN:
  "gradientMiddleCenterSize (HandleSET_GRADIENT_CENTER 9 NaN (staticConfig 3)) = NaN
   \<and> gradientMiddleEdgeSize (HandleSET_GRADIENT_CENTER 9 NaN (staticConfig 3)) = Finite 0
   \<and> \<not> edgeCenterInvariant (HandleSET_GRADIENT_CENTER 9 NaN (staticConfig 3))
   \<and> gradientMiddleCenterSize
       (HandleSET_GRADIENT_EDGE 11 (Finite (1 / 2))
          (HandleSET_GRADIENT_CENTER 9 NaN (staticConfig 3))) = NaN
   \<and> gradientMiddleEdgeSize
       (HandleSET_GRADIENT_EDGE 11 (Finite (1 / 2))
          (HandleSET_GRADIENT_CENTER 9 NaN (staticConfig 3))) = Finite (1 / 2)
   \<and> \<not> edgeCenterInvariant
       (HandleSET_GRADIENT_EDGE 11 (Finite (1 / 2))
          (HandleSET_GRADIENT_CENTER 9 NaN (staticConfig 3)))
   \<and> gradientMiddleEdgeSize (HandleSET_GRADIENT_EDGE 9 NaN (staticConfig 3)) = NaN
   \<and> \<not> edgeCenterInvariant (HandleSET_GRADIENT_EDGE 9 NaN (staticConfig 3))"
proof -
  have c: "gradientMiddleCenterSize (HandleSET_GRADIENT_CENTER 9 NaN (staticConfig 3)) = NaN"
    by (simp add: HandleSET_GRADIENT_CENTER_fields constrain_float32_NaN Sanitize_center_NaN)
  have e: "gradientMiddleEdgeSize (HandleSET_GRADIENT_CENTER 9 NaN (staticConfig 3)) = Finite 0"
    using staticConfig_gradient [of 3]
    by (simp add: HandleSET_GRADIENT_CENTER_fields Sanitize_edge constrain_float32_inert)
  have c2: "gradientMiddleCenterSize
       (HandleSET_GRADIENT_EDGE 11 (Finite (1 / 2))
          (HandleSET_GRADIENT_CENTER 9 NaN (staticConfig 3))) = NaN"
    by (simp add: HandleSET_GRADIENT_EDGE_fields Sanitize_center Let_def c
        constrain_float32_NaN float32_gt_def float32_lt_NaN)
  have e2: "gradientMiddleEdgeSize
       (HandleSET_GRADIENT_EDGE 11 (Finite (1 / 2))
          (HandleSET_GRADIENT_CENTER 9 NaN (staticConfig 3))) = Finite (1 / 2)"
    by (simp add: HandleSET_GRADIENT_EDGE_fields Sanitize_edge constrain_float32_inert)
  have e3: "gradientMiddleEdgeSize (HandleSET_GRADIENT_EDGE 9 NaN (staticConfig 3)) = NaN"
    by (simp add: HandleSET_GRADIENT_EDGE_fields constrain_float32_NaN Sanitize_edge_NaN)
  have i1: "\<not> edgeCenterInvariant (HandleSET_GRADIENT_CENTER 9 NaN (staticConfig 3))"
    using c by (intro edgeCenterInvariant_NaN) simp
  have i2: "\<not> edgeCenterInvariant
       (HandleSET_GRADIENT_EDGE 11 (Finite (1 / 2))
          (HandleSET_GRADIENT_CENTER 9 NaN (staticConfig 3)))"
    using c2 by (intro edgeCenterInvariant_NaN) simp
  have i3: "\<not> edgeCenterInvariant (HandleSET_GRADIENT_EDGE 9 NaN (staticConfig 3))"
    using e3 by (intro edgeCenterInvariant_NaN) simp
  from c e i1 c2 e2 i2 e3 i3 show ?thesis by (intro conjI)
qed

section \<open>Properties of the output quantizer\<close>

lemma byte_le_255: "unat (x :: 8 word) \<le> 255"
  using unsigned_less [of x, where 'a = nat] by simp

text \<open>The range checks of \<open>SetPixelRGBW\<close> never change a byte.\<close>

lemma clampByte_id: "clampByte r = r"
  using byte_le_255 [of r] by (simp add: clampByte_def word_less_nat_alt)

lemma SetPixelRGBW_invalid:
  "Count v \<le> index \<Longrightarrow> SetPixelRGBW index r g b w v = (False, v)"
  by (simp add: SetPixelRGBW_def)

lemma SetPixelRGBW_valid:
  "index < Count v \<Longrightarrow>
     SetPixelRGBW index r g b w v
       = (True, v\<lparr>Pixels := (Pixels v)[index := \<lparr>R = r, G = g, B = b, W = w\<rparr>]\<rparr>)"
  by (simp add: SetPixelRGBW_def clampByte_id)

text \<open>
  Claim C9. For an index at or beyond \<open>Count\<close>, \<open>SetPixelRGBW\<close> returns false and the state
  is unchanged. For an index below \<open>Count\<close> (the buffer holding at least \<open>Count\<close> pixels)
  it returns true, changes nothing but the \<open>Pixels\<close> buffer, stores the four given
  channels at the addressed pixel and leaves every other pixel as it was.
\<close>

theorem SetPixelRGBW_index_check:
  "(Count v \<le> index \<longrightarrow> SetPixelRGBW index r g b w v = (False, v))
   \<and> (index < Count v \<and> Count v \<le> length (Pixels v) \<longrightarrow>
        fst (SetPixelRGBW index r g b w v) = True
        \<and> snd (SetPixelRGBW index r g b w v)
            = v\<lparr>Pixels := Pixels (snd (SetPixelRGBW index r g b w v))\<rparr>
        \<and> length (Pixels (snd (SetPixelRGBW index r g b w v))) = length (Pixels v)
        \<and> Pixels (snd (SetPixelRGBW index r g b w v)) ! index = \<lparr>R = r, G = g, B = b, W = w\<rparr>
        \<and> (\<forall>j. j \<noteq> index \<longrightarrow>
              Pixels (snd (SetPixelRGBW index r g b w v)) ! j = Pixels v ! j))"
  by (simp add: SetPixelRGBW_invalid SetPixelRGBW_valid)

theorem SetPixelRGBW_index_check_witness:
  "Count scenarioVars \<le> 3
   \<and> SetPixelRGBW 3 9 8 7 6 scenarioVars = (False, scenarioVars)
   \<and> 1 < Count scenarioVars \<and> Count scenarioVars \<le> length (Pixels scenarioVars)
   \<and> fst (SetPixelRGBW 1 9 8 7 6 scenarioVars) = True
   \<and> Pixels (snd (SetPixelRGBW 1 9 8 7 6 scenarioVars))
       = [\<lparr>R = 0, G = 0, B = 0, W = 0\<rparr>, \<lparr>R = 9, G = 8, B = 7, W = 6\<rparr>,
          \<lparr>R = 0, G = 0, B = 0, W = 0\<rparr>]"
  using SetPixelRGBW_index_check [of scenarioVars 3 9 8 7 6]
    SetPixelRGBW_index_check [of scenarioVars 1 9 8 7 6]
  by (simp add: scenarioVars_eq SetPixelRGBW_def clampByte_id)

subsection \<open>\<open>ApplyOutputScaling\<close>: what it leaves alone\<close>

lemma scalePixel_frame:
  "Colors (scalePixel bn oo i v) = Colors v \<and> Scale (scalePixel bn oo i v) = Scale v
   \<and> colorOne (scalePixel bn oo i v) = colorOne v \<and> colorTwo (scalePixel bn oo i v) = colorTwo v
   \<and> brightness (scalePixel bn oo i v) = brightness v
   \<and> onoffFactor (scalePixel bn oo i v) = onoffFactor v
   \<and> Count (scalePixel bn oo i v) = Count v \<and> Effects (scalePixel bn oo i v) = Effects v
   \<and> length (Pixels (scalePixel bn oo i v)) = length (Pixels v)"
  by (simp add: scalePixel_def Let_def SetPixelRGBW_def)

lemma fold_scalePixel_frame:
  "Colors (fold (scalePixel bn oo) xs v) = Colors v \<and> Scale (fold (scalePixel bn oo) xs v) = Scale v
   \<and> colorOne (fold (scalePixel bn oo) xs v) = colorOne v
   \<and> colorTwo (fold (scalePixel bn oo) xs v) = colorTwo v
   \<and> brightness (fold (scalePixel bn oo) xs v) = brightness v
   \<and> onoffFactor (fold (scalePixel bn oo) xs v) = onoffFactor v
   \<and> Count (fold (scalePixel bn oo) xs v) = Count v
   \<and> Effects (fold (scalePixel bn oo) xs v) = Effects v
   \<and> length (Pixels (fold (scalePixel bn oo) xs v)) = length (Pixels v)"
proof (induction xs arbitrary: v)
  case Nil
  show ?case by simp
next
  case (Cons x xs)
  show ?case
    using Cons.IH [of "scalePixel bn oo x v"] scalePixel_frame [of bn oo x v]
    by simp
qed

text \<open>The loop body commutes with a change of the fields it does not read.\<close>

lemma scalePixel_unread_fields:
  "scalePixel bn oo i (v\<lparr>colorOne := a, colorTwo := b, Effects := es\<rparr>)
     = (scalePixel bn oo i v)\<lparr>colorOne := a, colorTwo := b, Effects := es\<rparr>"
  by (simp add: scalePixel_def Let_def SetPixelRGBW_def)

lemma fold_scalePixel_unread_fields:
  "fold (scalePixel bn oo) xs (v\<lparr>colorOne := a, colorTwo := b, Effects := es\<rparr>)
     = (fold (scalePixel bn oo) xs v)\<lparr>colorOne := a, colorTwo := b, Effects := es\<rparr>"
  by (induction xs arbitrary: v) (simp_all add: scalePixel_unread_fields)

text \<open>
  Claim C8. For every starting state, \<open>ApplyOutputScaling\<close> leaves the \<open>Colors\<close> buffer, the
  \<open>Scale\<close> buffer, the live colours, the live brightness, the on/off factor, the pixel
  count and the effect channels unchanged, and keeps the size of \<open>Pixels\<close>; and the
  \<open>Pixels\<close> it writes do not depend on the live colours or on the effect channels.
\<close>

theorem ApplyOutputScaling_writes_only_Pixels:
  "Colors (ApplyOutputScaling v) = Colors v
   \<and> Scale (ApplyOutputScaling v) = Scale v
   \<and> colorOne (ApplyOutputScaling v) = colorOne v
   \<and> colorTwo (ApplyOutputScaling v) = colorTwo v
   \<and> brightness (ApplyOutputScaling v) = brightness v
   \<and> onoffFactor (ApplyOutputScaling v) = onoffFactor v
   \<and> Count (ApplyOutputScaling v) = Count v
   \<and> Effects (ApplyOutputScaling v) = Effects v
   \<and> length (Pixels (ApplyOutputScaling v)) = length (Pixels v)
   \<and> Pixels (ApplyOutputScaling (v\<lparr>colorOne := a, colorTwo := b, Effects := es\<rparr>))
       = Pixels (ApplyOutputScaling v)"
proof -
  have "Pixels (ApplyOutputScaling (v\<lparr>colorOne := a, colorTwo := b, Effects := es\<rparr>))
       = Pixels (ApplyOutputScaling v)"
    by (simp add: ApplyOutputScaling_def Let_def fold_scalePixel_unread_fields)
  then show ?thesis
    using fold_scalePixel_frame
      [of "constrain (brightness v) 0 255 / 255" "onoffFactor v" "[0..<Count v]" v]
    by (simp add: ApplyOutputScaling_def Let_def)
qed

subsection \<open>\<open>ApplyOutputScaling\<close>: the range of the output\<close>

lemma round_of_zero: "int_to_uint8 (float_to_int (1 / 2)) = 0"
  by (simp add: int_to_uint8_def float_to_int_def truncate_toward_zero_def)

lemma scalePixel_off:
  "i < Count v \<Longrightarrow>
     Pixels (scalePixel bn 0 i v) = (Pixels v)[i := \<lparr>R = 0, G = 0, B = 0, W = 0\<rparr>]"
  by (simp add: scalePixel_def Let_def SetPixelRGBW_valid round_of_zero)

lemma fold_scalePixel_off:
  "n \<le> Count v \<Longrightarrow> Count v \<le> length (Pixels v) \<Longrightarrow> i < n \<Longrightarrow>
     Pixels (fold (scalePixel bn 0) [0..<n] v) ! i = \<lparr>R = 0, G = 0, B = 0, W = 0\<rparr>"
proof (induction n)
  case 0
  then show ?case by simp
next
  case (Suc n)
  let ?u = "fold (scalePixel bn 0) [0..<n] v"
  have fr: "Count ?u = Count v" "length (Pixels ?u) = length (Pixels v)"
    using fold_scalePixel_frame [of bn 0 "[0..<n]" v] by simp_all
  have step: "Pixels (fold (scalePixel bn 0) [0..<Suc n] v)
        = (Pixels ?u)[n := \<lparr>R = 0, G = 0, B = 0, W = 0\<rparr>]"
    using Suc.prems fr by (simp add: scalePixel_off)
  show ?case
  proof (cases "i = n")
    case True
    with Suc.prems fr show ?thesis by (simp only: step) simp
  next
    case False
    with Suc.prems have "i < n" by simp
    with Suc have "Pixels ?u ! i = \<lparr>R = 0, G = 0, B = 0, W = 0\<rparr>" by simp
    with False show ?thesis by (simp only: step) simp
  qed
qed

text \<open>With the on/off factor at \<open>0\<close> every live pixel is \<open>0\<close>, in every state.\<close>

lemma ApplyOutputScaling_off:
  assumes "onoffFactor v = 0" "Count v \<le> length (Pixels v)" "i < Count v"
  shows "Pixels (ApplyOutputScaling v) ! i = \<lparr>R = 0, G = 0, B = 0, W = 0\<rparr>"
  using assms by (simp add: ApplyOutputScaling_def Let_def fold_scalePixel_off)

lemma replicate_3: "replicate 3 x = [x, x, x]"
  by (simp add: numeral_3_eq_3)


subsection \<open>\<open>ApplyOutputScaling\<close>: the value written\<close>

text \<open>
  Each live pixel is a function of its colour, its scale entry, the live brightness and
  the on/off factor alone.
\<close>

lemma scalePixel_Pixels:
  "i < Count v \<Longrightarrow>
     Pixels (scalePixel bn oo i v) = (Pixels v)[i :=
       \<lparr>R = int_to_uint8 (float_to_int
              (constrain (uint8_to_float (R (Colors v ! i)) * R (Scale v ! i)) 0 255 * bn * oo + 1 / 2)),
        G = int_to_uint8 (float_to_int
              (constrain (uint8_to_float (G (Colors v ! i)) * G (Scale v ! i)) 0 255 * bn * oo + 1 / 2)),
        B = int_to_uint8 (float_to_int
              (constrain (uint8_to_float (B (Colors v ! i)) * B (Scale v ! i)) 0 255 * bn * oo + 1 / 2)),
        W = int_to_uint8 (float_to_int
              (constrain (uint8_to_float (W (Colors v ! i)) * W (Scale v ! i)) 0 255 * bn * oo + 1 / 2))\<rparr>]"
  by (simp add: scalePixel_def Let_def SetPixelRGBW_valid)

lemma fold_scalePixel_nth:
  "n \<le> Count v \<Longrightarrow> Count v \<le> length (Pixels v) \<Longrightarrow> i < n \<Longrightarrow>
     Pixels (fold (scalePixel bn oo) [0..<n] v) ! i =
       \<lparr>R = int_to_uint8 (float_to_int
              (constrain (uint8_to_float (R (Colors v ! i)) * R (Scale v ! i)) 0 255 * bn * oo + 1 / 2)),
        G = int_to_uint8 (float_to_int
              (constrain (uint8_to_float (G (Colors v ! i)) * G (Scale v ! i)) 0 255 * bn * oo + 1 / 2)),
        B = int_to_uint8 (float_to_int
              (constrain (uint8_to_float (B (Colors v ! i)) * B (Scale v ! i)) 0 255 * bn * oo + 1 / 2)),
        W = int_to_uint8 (float_to_int
              (constrain (uint8_to_float (W (Colors v ! i)) * W (Scale v ! i)) 0 255 * bn * oo + 1 / 2))\<rparr>"
proof (induction n)
  case 0
  then show ?case by simp
next
  case (Suc n)
  let ?u = "fold (scalePixel bn oo) [0..<n] v"
  have fr: "Count ?u = Count v" "length (Pixels ?u) = length (Pixels v)"
    "Colors ?u = Colors v" "Scale ?u = Scale v"
    using fold_scalePixel_frame [of bn oo "[0..<n]" v] by simp_all
  have n: "n < Count ?u" "n < length (Pixels ?u)"
    using Suc.prems fr by simp_all
  have step: "Pixels (fold (scalePixel bn oo) [0..<Suc n] v) = Pixels (scalePixel bn oo n ?u)"
    by simp
  show ?case
  proof (cases "i = n")
    case True
    with n fr show ?thesis
      by (simp only: step scalePixel_Pixels [OF n(1)]) simp
  next
    case False
    with Suc.prems have "i < n" by simp
    with Suc False n show ?thesis
      by (simp only: step scalePixel_Pixels [OF n(1)]) simp
  qed
qed

lemma ApplyOutputScaling_nth:
  assumes "Count v \<le> length (Pixels v)" "i < Count v"
  shows "Pixels (ApplyOutputScaling v) ! i =
       \<lparr>R = int_to_uint8 (float_to_int
              (constrain (uint8_to_float (R (Colors v ! i)) * R (Scale v ! i)) 0 255
                 * (constrain (brightness v) 0 255 / 255) * onoffFactor v + 1 / 2)),
        G = int_to_uint8 (float_to_int
              (constrain (uint8_to_float (G (Colors v ! i)) * G (Scale v ! i)) 0 255
                 * (constrain (brightness v) 0 255 / 255) * onoffFactor v + 1 / 2)),
        B = int_to_uint8 (float_to_int
              (constrain (uint8_to_float (B (Colors v ! i)) * B (Scale v ! i)) 0 255
                 * (constrain (brightness v) 0 255 / 255) * onoffFactor v + 1 / 2)),
        W = int_to_uint8 (float_to_int
              (constrain (uint8_to_float (W (Colors v ! i)) * W (Scale v ! i)) 0 255
                 * (constrain (brightness v) 0 255 / 255) * onoffFactor v + 1 / 2))\<rparr>"
  using assms fold_scalePixel_nth [of "Count v" v i "constrain (brightness v) 0 255 / 255" "onoffFactor v"]
  by (simp add: ApplyOutputScaling_def Let_def)

text \<open>In the nominal range the rounded value fits a byte: nothing is lost in the conversion.\<close>

lemma quantized_channel_nominal:
  assumes "0 \<le> oo" "oo \<le> 1" "0 \<le> bn" "bn \<le> 1"
  shows "unat (int_to_uint8 (float_to_int (constrain x 0 255 * bn * oo + 1 / 2)))
       = nat \<lfloor>constrain x 0 255 * bn * oo + 1 / 2\<rfloor>
     \<and> \<lfloor>constrain x 0 255 * bn * oo + 1 / 2\<rfloor> \<le> 255"
proof -
  let ?y = "constrain x 0 255 * bn * oo"
  have c: "0 \<le> constrain x 0 255" "constrain x 0 255 \<le> 255"
    by (simp_all add: constrain_def)
  have y0: "0 \<le> ?y" using c assms by simp
  have "constrain x 0 255 * bn \<le> 255 * 1"
    using c assms by (intro mult_mono) simp_all
  then have "constrain x 0 255 * bn * oo \<le> 255 * 1 * 1"
    using c assms by (intro mult_mono) simp_all
  then have y1: "?y \<le> 255" by simp
  have f0: "0 \<le> \<lfloor>?y + 1 / 2\<rfloor>" using y0 by simp
  have f1: "\<lfloor>?y + 1 / 2\<rfloor> \<le> 255"
  proof -
    have "?y + 1 / 2 < 256" using y1 by simp
    then have "\<lfloor>?y + 1 / 2\<rfloor> < 256" by (simp add: floor_less_iff)
    then show ?thesis by simp
  qed
  have "truncate_toward_zero (?y + 1 / 2) = \<lfloor>?y + 1 / 2\<rfloor>"
    using y0 by (simp add: truncate_toward_zero_def)
  then have "unat (int_to_uint8 (float_to_int (?y + 1 / 2)))
      = unat (ucast (word_of_int \<lfloor>?y + 1 / 2\<rfloor> :: 32 word) :: 8 word)"
    by (simp add: int_to_uint8_def float_to_int_def)
  also have "\<dots> = nat \<lfloor>?y + 1 / 2\<rfloor>"
  proof -
    have "uint (word_of_int \<lfloor>?y + 1 / 2\<rfloor> :: 32 word) = \<lfloor>?y + 1 / 2\<rfloor>"
      using f0 f1 by (simp add: uint_word_of_int)
    then have "unat (word_of_int \<lfloor>?y + 1 / 2\<rfloor> :: 32 word) = nat \<lfloor>?y + 1 / 2\<rfloor>"
      by (simp add: unat_eq_nat_uint)
    moreover have "nat \<lfloor>?y + 1 / 2\<rfloor> < 256"
      using f0 f1 by linarith
    ultimately show ?thesis
      by (simp only: unsigned_ucast_eq take_bit_eq_mod) simp
  qed
  finally show ?thesis using f1 by simp
qed

section \<open>Properties of the shift register\<close>

lemma channelGet_channelSet:
  "0 \<le> channel \<Longrightarrow> channel \<le> 3 \<Longrightarrow> channelGet channel (channelSet channel x p) = x"
  by (simp add: channelGet_def channelSet_def)

lemma channelGet_channelSet_other:
  "0 \<le> channel \<Longrightarrow> channel \<le> 3 \<Longrightarrow> 0 \<le> other \<Longrightarrow> other \<le> 3 \<Longrightarrow> other \<noteq> channel \<Longrightarrow>
     channelGet other (channelSet channel x p) = channelGet other p"
  by (auto simp add: channelGet_def channelSet_def)

lemma shiftForwardLoop_0: "shiftForwardLoop channel 0 sc = sc"
  by (simp add: shiftForwardLoop_def)

lemma shiftForwardLoop_Suc:
  "shiftForwardLoop channel (Suc k) sc =
     shiftForwardLoop channel k
       (sc[Suc k := channelSet channel (channelGet channel (sc ! k)) (sc ! Suc k)])"
  by (simp add: shiftForwardLoop_def)

lemma shiftForwardLoop_length: "length (shiftForwardLoop channel k sc) = length sc"
  by (induction k arbitrary: sc) (simp_all add: shiftForwardLoop_0 shiftForwardLoop_Suc)

text \<open>
  The forward loop copies downward from the top, so each slot receives the value its lower
  neighbour had before the loop.
\<close>

lemma shiftForwardLoop_nth:
  "k < length sc \<Longrightarrow> j < length sc \<Longrightarrow>
     shiftForwardLoop channel k sc ! j =
       (if 1 \<le> j \<and> j \<le> k
        then channelSet channel (channelGet channel (sc ! (j - 1))) (sc ! j) else sc ! j)"
proof (induction k arbitrary: sc)
  case 0
  then show ?case by (simp add: shiftForwardLoop_0)
next
  case (Suc k)
  let ?sc = "sc[Suc k := channelSet channel (channelGet channel (sc ! k)) (sc ! Suc k)]"
  have "shiftForwardLoop channel k ?sc ! j =
       (if 1 \<le> j \<and> j \<le> k
        then channelSet channel (channelGet channel (?sc ! (j - 1))) (?sc ! j) else ?sc ! j)"
    using Suc.prems by (intro Suc.IH) simp_all
  then show ?case
    using Suc.prems by (auto simp add: shiftForwardLoop_Suc nth_list_update)
qed

lemma shiftBackwardLoop_0: "shiftBackwardLoop channel 0 sc = sc"
  by (simp add: shiftBackwardLoop_def)

lemma shiftBackwardLoop_Suc:
  "shiftBackwardLoop channel (Suc k) sc =
     (let s = shiftBackwardLoop channel k sc
      in s[k := channelSet channel (channelGet channel (s ! Suc k)) (s ! k)])"
  by (simp add: shiftBackwardLoop_def Let_def)

lemma shiftBackwardLoop_length: "length (shiftBackwardLoop channel k sc) = length sc"
  by (induction k) (simp_all add: shiftBackwardLoop_0 shiftBackwardLoop_Suc Let_def)

lemma shiftBackwardLoop_nth:
  "k < length sc \<Longrightarrow> j < length sc \<Longrightarrow>
     shiftBackwardLoop channel k sc ! j =
       (if j < k then channelSet channel (channelGet channel (sc ! (j + 1))) (sc ! j) else sc ! j)"
proof (induction k arbitrary: j)
  case 0
  then show ?case by (simp add: shiftBackwardLoop_0)
next
  case (Suc k)
  then show ?case
    by (auto simp add: shiftBackwardLoop_Suc Let_def nth_list_update shiftBackwardLoop_length)
qed

text \<open>The \<open>Scale\<close> buffer after one call, slot by slot.\<close>

lemma ShiftScaleChannel_Scale_nth:
  assumes "1 \<le> Count v" "Count v \<le> length (Scale v)" "0 \<le> channel" "channel \<le> 3"
    and "j < length (Scale v)"
  shows "Scale (ShiftScaleChannel newValue channel forward v) ! j =
     (if forward then
        (if j = 0 then channelSet channel newValue (Scale v ! 0)
         else if j < Count v
           then channelSet channel (channelGet channel (Scale v ! (j - 1))) (Scale v ! j)
         else Scale v ! j)
      else
        (if j = Count v - 1 then channelSet channel newValue (Scale v ! j)
         else if j < Count v
           then channelSet channel (channelGet channel (Scale v ! (j + 1))) (Scale v ! j)
         else Scale v ! j))"
  using assms
  by (auto simp add: ShiftScaleChannel_def Let_def nth_list_update shiftForwardLoop_length
      shiftBackwardLoop_length shiftForwardLoop_nth shiftBackwardLoop_nth
      shiftForwardLoop_0 shiftBackwardLoop_0)

lemma ShiftScaleChannel_length:
  "length (Scale (ShiftScaleChannel newValue channel forward v)) = length (Scale v)"
  by (simp add: ShiftScaleChannel_def Let_def shiftForwardLoop_length shiftBackwardLoop_length)

lemma ShiftScaleChannel_Count:
  "Count (ShiftScaleChannel newValue channel forward v) = Count v"
  by (simp add: ShiftScaleChannel_def Let_def)

lemma ShiftScaleChannel_frame:
  "ShiftScaleChannel newValue channel forward v
     = v\<lparr>Scale := Scale (ShiftScaleChannel newValue channel forward v)\<rparr>"
  by (simp add: ShiftScaleChannel_def Let_def)

lemma ShiftScaleChannel_shifted_channel:
  assumes "1 \<le> Count v" "Count v \<le> length (Scale v)" "0 \<le> channel" "channel \<le> 3"
  shows "map (channelGet channel)
           (take (Count v) (Scale (ShiftScaleChannel newValue channel forward v)))
       = (if forward then newValue # butlast (map (channelGet channel) (take (Count v) (Scale v)))
          else tl (map (channelGet channel) (take (Count v) (Scale v))) @ [newValue])"
    (is "?lhs = ?rhs")
proof (rule nth_equalityI)
  show "length ?lhs = length ?rhs"
    using assms by (simp add: ShiftScaleChannel_length)
next
  fix j
  assume "j < length ?lhs"
  then have j: "j < Count v" "j < length (Scale v)"
    using assms by (simp_all add: ShiftScaleChannel_length)
  note nth = ShiftScaleChannel_Scale_nth [OF assms j(2), of newValue forward]
  show "?lhs ! j = ?rhs ! j"
  proof (cases forward)
    case True
    show ?thesis
    proof (cases j)
      case 0
      with True j assms nth show ?thesis
        by (simp add: ShiftScaleChannel_length channelGet_channelSet)
    next
      case (Suc i)
      with True j assms nth show ?thesis
        by (simp add: ShiftScaleChannel_length channelGet_channelSet nth_butlast)
    qed
  next
    case False
    show ?thesis
    proof (cases "j = Count v - 1")
      case True
      with False j assms nth show ?thesis
        by (simp add: ShiftScaleChannel_length channelGet_channelSet nth_append)
    next
      case ne: False
      with j have "Suc j < Count v" "j < Count v - 1" by simp_all
      with False ne j assms nth show ?thesis
        by (simp add: ShiftScaleChannel_length channelGet_channelSet nth_append nth_tl)
    qed
  qed
qed

lemma ShiftScaleChannel_other_channel:
  assumes "0 \<le> other" "other \<le> 3" "other \<noteq> channel" and le: "Count v \<le> length (Scale v)"
  shows "map (channelGet other) (Scale (ShiftScaleChannel newValue channel forward v))
       = map (channelGet other) (Scale v)"
    (is "?lhs = ?rhs")
proof (cases "1 \<le> Count v \<and> 0 \<le> channel \<and> channel \<le> 3")
  case False
  then show ?thesis by (auto simp add: ShiftScaleChannel_def)
next
  case True
  show ?thesis
  proof (rule nth_equalityI)
    show "length ?lhs = length ?rhs"
      by (simp add: ShiftScaleChannel_length)
  next
    fix j
    assume "j < length ?lhs"
    then have j: "j < length (Scale v)" by (simp add: ShiftScaleChannel_length)
    with True le assms show "?lhs ! j = ?rhs ! j"
      by (simp add: ShiftScaleChannel_length ShiftScaleChannel_Scale_nth
          channelGet_channelSet_other)
  qed
qed

lemma ShiftScaleChannel_beyond_Count:
  assumes "1 \<le> Count v" "Count v \<le> length (Scale v)" "0 \<le> channel" "channel \<le> 3"
  shows "drop (Count v) (Scale (ShiftScaleChannel newValue channel forward v))
       = drop (Count v) (Scale v)"
    (is "?lhs = ?rhs")
proof (rule nth_equalityI)
  show "length ?lhs = length ?rhs"
    by (simp add: ShiftScaleChannel_length)
next
  fix j
  assume "j < length ?lhs"
  then have j: "Count v + j < length (Scale v)"
    by (simp add: ShiftScaleChannel_length)
  with assms show "?lhs ! j = ?rhs ! j"
    by (simp add: ShiftScaleChannel_length ShiftScaleChannel_Scale_nth)
qed

text \<open>
  Claim C6. For a strip of at least one pixel (the buffer holding at least \<open>Count\<close>
  entries) and a channel index from \<open>0\<close> to \<open>3\<close>, one call of \<open>ShiftScaleChannel\<close> makes the
  selected channel of the \<open>Count\<close> live scale entries the previous sequence shifted by one
  position: forward, the new value followed by all previous values but the last;
  backward, all previous values but the first followed by the new value. The other three
  channels of every entry, the entries beyond \<open>Count\<close> and every other field of the state
  are unchanged.
\<close>

theorem ShiftScaleChannel_shift_register:
  assumes "1 \<le> Count v" "Count v \<le> length (Scale v)" "0 \<le> channel" "channel \<le> 3"
  shows "map (channelGet channel)
           (take (Count v) (Scale (ShiftScaleChannel newValue channel forward v)))
         = (if forward
            then newValue # butlast (map (channelGet channel) (take (Count v) (Scale v)))
            else tl (map (channelGet channel) (take (Count v) (Scale v))) @ [newValue])
       \<and> (\<forall>other. 0 \<le> other \<and> other \<le> 3 \<and> other \<noteq> channel \<longrightarrow>
             map (channelGet other) (Scale (ShiftScaleChannel newValue channel forward v))
               = map (channelGet other) (Scale v))
       \<and> drop (Count v) (Scale (ShiftScaleChannel newValue channel forward v))
           = drop (Count v) (Scale v)
       \<and> ShiftScaleChannel newValue channel forward v
           = v\<lparr>Scale := Scale (ShiftScaleChannel newValue channel forward v)\<rparr>"
  using ShiftScaleChannel_shifted_channel [OF assms, of newValue forward]
    ShiftScaleChannel_other_channel [OF _ _ _ assms(2), of _ channel newValue forward]
    ShiftScaleChannel_beyond_Count [OF assms, of newValue forward]
    ShiftScaleChannel_frame [of newValue channel forward v]
  by blast

theorem ShiftScaleChannel_shift_register_witness:
  "1 \<le> Count rampVars \<and> Count rampVars \<le> length (Scale rampVars) \<and> (0::int) \<le> 2 \<and> (2::int) \<le> 3
   \<and> Scale (ShiftScaleChannel 1 2 True rampVars)
      = [\<lparr>R = 1 / 4, G = 1 / 4, B = 1, W = 1 / 4\<rparr>, \<lparr>R = 1 / 2, G = 1 / 2, B = 1 / 4, W = 1 / 2\<rparr>,
         \<lparr>R = 3 / 4, G = 3 / 4, B = 1 / 2, W = 3 / 4\<rparr>]
   \<and> Scale (ShiftScaleChannel 1 2 False rampVars)
      = [\<lparr>R = 1 / 4, G = 1 / 4, B = 1 / 2, W = 1 / 4\<rparr>, \<lparr>R = 1 / 2, G = 1 / 2, B = 3 / 4, W = 1 / 2\<rparr>,
         \<lparr>R = 3 / 4, G = 3 / 4, B = 1, W = 3 / 4\<rparr>]"
  using ShiftScaleChannel_shift_register [of rampVars 2 1 True]
    ShiftScaleChannel_shift_register [of rampVars 2 1 False]
  by (simp add: rampVars_def scenarioVars_eq ShiftScaleChannel_def Let_def shiftForwardLoop_def
      shiftBackwardLoop_def channelGet_def channelSet_def upt_rec)

section \<open>Properties of the ambient effect engine\<close>

text \<open>
  With the effect switched off, a tick is four forward shifts of channel \<open>0\<close>: the channels
  \<open>G\<close>, \<open>B\<close> and \<open>W\<close> of the scale buffer keep their values.
\<close>

lemma Effect_inactive_other_channels:
  assumes "\<not> effectActive c" "Count v \<le> length (Scale v)"
  shows "map G (Scale (Effect c draws v)) = map G (Scale v)
       \<and> map B (Scale (Effect c draws v)) = map B (Scale v)
       \<and> map W (Scale (Effect c draws v)) = map W (Scale v)"
proof -
  have one: "map (channelGet other) (Scale (ShiftScaleChannel 1 0 True u))
               = map (channelGet other) (Scale u)
       \<and> Count (ShiftScaleChannel 1 0 True u) \<le> length (Scale (ShiftScaleChannel 1 0 True u))"
    if "Count u \<le> length (Scale u)" "1 \<le> other" "other \<le> 3" for u other
    using that ShiftScaleChannel_other_channel [of other 0 u 1 True]
    by (simp add: ShiftScaleChannel_length ShiftScaleChannel_Count)
  have four: "map (channelGet other) (Scale (Effect c draws v)) = map (channelGet other) (Scale v)"
    if "1 \<le> other" "other \<le> 3" for other
    using assms that by (simp add: Effect_def upt_4 one)
  have g: "channelGet 1 = G" "channelGet 2 = B" "channelGet 3 = W"
    by (simp_all add: channelGet_def fun_eq_iff)
  from four [of 1] four [of 2] four [of 3] show ?thesis
    by (simp add: g)
qed

text \<open>
  Claim C2, on the three-pixel strip whose scale entries stand at \<open>0.75\<close> on all four
  channels, with the effect switched off. One tick, and likewise three ticks, set channel
  \<open>R\<close> of every entry to \<open>1\<close> and leave the channels \<open>G\<close>, \<open>B\<close> and \<open>W\<close> at \<open>0.75\<close>: the loop
  of the inactive branch passes channel \<open>0\<close> to \<open>ShiftScaleChannel\<close> on each of its four
  rounds.
\<close>

theorem Effect_inactive_shifts_only_R:
  "effectActive effectOffConfig = False
   \<and> Scale dimmedVars = replicate 3 \<lparr>R = 3 / 4, G = 3 / 4, B = 3 / 4, W = 3 / 4\<rparr>
   \<and> Scale (Effect effectOffConfig draws dimmedVars)
       = replicate 3 \<lparr>R = 1, G = 3 / 4, B = 3 / 4, W = 3 / 4\<rparr>
   \<and> Scale (((Effect effectOffConfig draws) ^^ 3) dimmedVars)
       = replicate 3 \<lparr>R = 1, G = 3 / 4, B = 3 / 4, W = 3 / 4\<rparr>"
  by (simp add: effectOffConfig_def dimmedVars_def scenarioVars_eq staticConfig_def Effect_def
      upt_4 upt_rec ShiftScaleChannel_def Let_def shiftForwardLoop_def channelGet_def
      channelSet_def replicate_3 numeral_3_eq_3)










section \<open>End-to-end scenario\<close>

lemma list_of_length_3: "length xs = 3 \<Longrightarrow> \<exists>a b c. xs = [a, b, c]"
  by (simp add: numeral_3_eq_3 length_Suc_conv) blast

text \<open>
  The gradient stage on three pixels: the middle colour is the blend \<open>127.5\<close> cut to \<open>127\<close>
  by the cast to \<^verbatim>\<open>uint8_t\<close> in \<open>applyColor\<close>.
\<close>

lemma ComputeGradient_LINEAR_red_blue:
  assumes "Count v = 3" "length (Colors v) = 3"
    "colorOne v = \<lparr>R = 255, G = 0, B = 0, W = 0\<rparr>" "colorTwo v = \<lparr>R = 0, G = 0, B = 255, W = 0\<rparr>"
  shows "ComputeGradient c LINEAR False v =
     v\<lparr>Colors := [\<lparr>R = 255, G = 0, B = 0, W = 0\<rparr>, \<lparr>R = 127, G = 0, B = 127, W = 0\<rparr>,
                  \<lparr>R = 0, G = 0, B = 255, W = 0\<rparr>]\<rparr>"
proof -
  obtain c0 c1 c2 where "Colors v = [c0, c1, c2]"
    using list_of_length_3 [OF assms(2)] by blast
  with assms show ?thesis
    by (simp add: ComputeGradient_def Let_def upt_3 applyColor_def blendColors_def constrain_def
        float_to_uint8_def truncate_toward_zero_def)
qed

lemma ApplyOutputScaling_identity_scale:
  assumes "Count v = 3" "length (Pixels v) = 3"
    "Colors v = [\<lparr>R = 255, G = 0, B = 0, W = 0\<rparr>, \<lparr>R = 127, G = 0, B = 127, W = 0\<rparr>,
                 \<lparr>R = 0, G = 0, B = 255, W = 0\<rparr>]"
    "Scale v = [\<lparr>R = 1, G = 1, B = 1, W = 1\<rparr>, \<lparr>R = 1, G = 1, B = 1, W = 1\<rparr>,
                \<lparr>R = 1, G = 1, B = 1, W = 1\<rparr>]"
    "brightness v = 255" "onoffFactor v = 1"
  shows "Pixels (ApplyOutputScaling v) =
     [\<lparr>R = 255, G = 0, B = 0, W = 0\<rparr>, \<lparr>R = 127, G = 0, B = 127, W = 0\<rparr>,
      \<lparr>R = 0, G = 0, B = 255, W = 0\<rparr>]"
proof -
  obtain p0 p1 p2 where "Pixels v = [p0, p1, p2]"
    using list_of_length_3 [OF assms(2)] by blast
  with assms show ?thesis
    by (simp add: ApplyOutputScaling_def Let_def upt_3 scalePixel_def SetPixelRGBW_def clampByte_id
        constrain_def uint8_to_float_def float_to_int_def int_to_uint8_def truncate_toward_zero_def)
qed

text \<open>
  Claim C1, as the code has it. On a strip of three pixels in LINEAR mode without
  inversion, with live colours \<open>(255, 0, 0, 0)\<close> and \<open>(0, 0, 255, 0)\<close>, live brightness
  \<open>255\<close>, on/off factor \<open>1\<close> and every scale entry \<open>1\<close>, \<open>ComputeGradient\<close> followed by
  \<open>ApplyOutputScaling\<close> yields the pixels \<open>(255, 0, 0, 0)\<close>, \<open>(127, 0, 127, 0)\<close>,
  \<open>(0, 0, 255, 0)\<close>: the middle pixel is the blend at \<open>t = 0.5\<close>, \<open>127.5\<close>, truncated by the
  gradient stage; the rounding of the output stage then meets the whole number \<open>127\<close>.
\<close>

theorem LINEAR_three_pixels_end_to_end:
  assumes "Count v = 3" "length (Pixels v) = 3" "length (Colors v) = 3"
    and "Scale v = [\<lparr>R = 1, G = 1, B = 1, W = 1\<rparr>, \<lparr>R = 1, G = 1, B = 1, W = 1\<rparr>,
                    \<lparr>R = 1, G = 1, B = 1, W = 1\<rparr>]"
    and "colorOne v = \<lparr>R = 255, G = 0, B = 0, W = 0\<rparr>" "colorTwo v = \<lparr>R = 0, G = 0, B = 255, W = 0\<rparr>"
    and "brightness v = 255" "onoffFactor v = 1"
  shows "Pixels (ApplyOutputScaling (ComputeGradient c LINEAR False v)) =
     [\<lparr>R = 255, G = 0, B = 0, W = 0\<rparr>, \<lparr>R = 127, G = 0, B = 127, W = 0\<rparr>,
      \<lparr>R = 0, G = 0, B = 255, W = 0\<rparr>]"
  using assms
  by (simp add: ComputeGradient_LINEAR_red_blue ApplyOutputScaling_identity_scale)

theorem LINEAR_three_pixels_end_to_end_witness:
  "Count scenarioVars = 3 \<and> length (Pixels scenarioVars) = 3 \<and> length (Colors scenarioVars) = 3
   \<and> Scale scenarioVars = [\<lparr>R = 1, G = 1, B = 1, W = 1\<rparr>, \<lparr>R = 1, G = 1, B = 1, W = 1\<rparr>,
                            \<lparr>R = 1, G = 1, B = 1, W = 1\<rparr>]
   \<and> colorOne scenarioVars = \<lparr>R = 255, G = 0, B = 0, W = 0\<rparr>
   \<and> colorTwo scenarioVars = \<lparr>R = 0, G = 0, B = 255, W = 0\<rparr>
   \<and> brightness scenarioVars = 255 \<and> onoffFactor scenarioVars = 1
   \<and> Pixels (ApplyOutputScaling (ComputeGradient (staticConfig 3) LINEAR False scenarioVars)) =
       [\<lparr>R = 255, G = 0, B = 0, W = 0\<rparr>, \<lparr>R = 127, G = 0, B = 127, W = 0\<rparr>,
        \<lparr>R = 0, G = 0, B = 255, W = 0\<rparr>]"
  using LINEAR_three_pixels_end_to_end [of scenarioVars "staticConfig 3"]
  by (simp add: scenarioVars_eq)

text \<open>The middle pixel of the scenario is not \<open>(128, 0, 128, 0)\<close>.\<close>

theorem LINEAR_three_pixels_middle_not_128:
  "Pixels (ApplyOutputScaling (ComputeGradient (staticConfig 3) LINEAR False scenarioVars))
     \<noteq> [\<lparr>R = 255, G = 0, B = 0, W = 0\<rparr>, \<lparr>R = 128, G = 0, B = 128, W = 0\<rparr>,
         \<lparr>R = 0, G = 0, B = 255, W = 0\<rparr>]"
proof -
  have "Pixels (ApplyOutputScaling (ComputeGradient (staticConfig 3) LINEAR False scenarioVars))
     = [\<lparr>R = 255, G = 0, B = 0, W = 0\<rparr>, \<lparr>R = 127, G = 0, B = 127, W = 0\<rparr>,
        \<lparr>R = 0, G = 0, B = 255, W = 0\<rparr>]"
    by (simp add: ComputeGradient_LINEAR_red_blue ApplyOutputScaling_identity_scale scenarioVars_eq)
  then show ?thesis by simp
qed

end
